theory Spec2Isabelle
  imports Complex_Main
begin

section \<open>Errors\<close>

text \<open>
  The Python exceptions that the modelled functions raise. Every \<^verbatim>\<open>raise\<close> of the
  source, and every failing list or dictionary access, is a value \<open>Inl e\<close>.
  \<open>CalculatorError\<close> is what the parser of the library raises. \<open>NotANumber\<close> is no
  exception: it stands for a result of \<^verbatim>\<open>numpy\<close> that holds \<^verbatim>\<open>nan\<close> or \<^verbatim>\<open>inf\<close>.
\<close>

datatype error =
    TypeError
  | IndexError
  | KeyError
  | ValueError
  | AttributeError
  | CalculatorError
  | NotANumber

section \<open>Definition operations (\<^verbatim>\<open>operations/define_operations.py\<close>)\<close>

text \<open>
  \<^verbatim>\<open>Definition.__init__\<close> stores \<^verbatim>\<open>_name\<close>, \<^verbatim>\<open>_vartype\<close>, \<^verbatim>\<open>_length\<close>, \<^verbatim>\<open>_is_input\<close>
  and \<^verbatim>\<open>_is_output\<close>; the involved qubits are the empty set and the operation is never
  parametrized.
\<close>

record definition_op =
  name :: string
  vartype :: string
  length_reg :: int
  is_input :: bool
  is_output :: bool

text \<open>
  \<^verbatim>\<open>Definition.__eq__\<close>, for another \<^verbatim>\<open>Definition\<close>: the name, then the length, then
  the type are compared. The two flags are not.
\<close>

definition definition_eq :: "definition_op \<Rightarrow> definition_op \<Rightarrow> bool" where
  "definition_eq self other =
     (if \<not> name self = name other then False
      else if \<not> length_reg self = length_reg other then False
      else if \<not> vartype self = vartype other then False
      else True)"

section \<open>Operations held by a circuit\<close>

text \<open>
  A circuit only tells a \<^verbatim>\<open>Definition\<close> from any other \<^verbatim>\<open>Operation\<close>
  (\<^verbatim>\<open>isinstance(operation, Definition)\<close>). The type of the other operations is a
  parameter \<open>'op\<close>; an object that is no \<^verbatim>\<open>Operation\<close> at all is \<open>NotAnOperation\<close>.
\<close>

datatype 'op py_object =
    Definition definition_op
  | Operation 'op
  | NotAnOperation

section \<open>The circuit container (\<^verbatim>\<open>circuit/circuit.py\<close>)\<close>

record 'op circuit =
  definitions :: "definition_op list"
  operations :: "'op list"

text \<open>\<^verbatim>\<open>Circuit.__init__\<close>: both lists start empty.\<close>

definition Circuit :: "'op circuit" where
  "Circuit = \<lparr>definitions = [], operations = []\<rparr>"

text \<open>
  Python's \<^verbatim>\<open>operation in self._definitions\<close>: some element of the list is the object
  itself or equal to it under \<^verbatim>\<open>__eq__\<close>. An object is equal to itself under
  \<open>definition_eq\<close>, so the identity test adds nothing in a model of values.
\<close>

definition definition_in :: "definition_op \<Rightarrow> definition_op list \<Rightarrow> bool" where
  "definition_in d ds = list_ex (\<lambda>e. definition_eq e d) ds"

text \<open>\<^verbatim>\<open>Circuit._append_operation\<close>.\<close>

fun append_operation :: "'op circuit \<Rightarrow> 'op py_object \<Rightarrow> error + 'op circuit" where
  "append_operation c (Definition d) =
     (if \<not> definition_in d (definitions c)
      then Inr (c\<lparr>definitions := definitions c @ [d]\<rparr>)
      else Inr c)"
| "append_operation c (Operation x) = Inr (c\<lparr>operations := operations c @ [x]\<rparr>)"
| "append_operation c NotAnOperation = Inl TypeError"

text \<open>
  Python's \<^verbatim>\<open>list.insert(index, x)\<close>: an index below \<open>-len\<close> inserts at the front, one
  above \<open>len\<close> at the end, a negative one counts from the end.
\<close>

definition list_insert :: "'a list \<Rightarrow> int \<Rightarrow> 'a \<Rightarrow> 'a list" where
  "list_insert xs i x =
     (let n = int (length xs);
          j = (if i < 0 then max 0 (n + i) else min n i)
      in take (nat j) xs @ [x] @ drop (nat j) xs)"

text \<open>\<^verbatim>\<open>Circuit._insert_operation\<close>.\<close>

fun insert_operation :: "'op circuit \<Rightarrow> int \<Rightarrow> 'op py_object \<Rightarrow> error + 'op circuit" where
  "insert_operation c index NotAnOperation = Inl TypeError"
| "insert_operation c index (Definition d) =
     (if \<not> definition_in d (definitions c)
      then Inr (c\<lparr>definitions := definitions c @ [d]\<rparr>)
      else Inr c)"
| "insert_operation c index (Operation x) =
     Inr (c\<lparr>operations := list_insert (operations c) index x\<rparr>)"

text \<open>
  \<^verbatim>\<open>Circuit.__iadd__\<close> with an iterable of objects: each one is appended in turn, and the
  first failure ends the loop (the circuit keeps what was appended before it).
\<close>

fun iadd_all :: "'op circuit \<Rightarrow> 'op py_object list \<Rightarrow> error + 'op circuit" where
  "iadd_all c [] = Inr c"
| "iadd_all c (x # xs) =
     (case append_operation c x of
        Inl e \<Rightarrow> Inl e
      | Inr c' \<Rightarrow> iadd_all c' xs)"

text \<open>
  Reading \<^verbatim>\<open>xs[i]\<close> from a Python list of length \<open>n\<close>: the positions \<open>0 .. n - 1\<close> are
  read directly, the positions \<open>-n .. -1\<close> stand for \<open>n + i\<close>, and every other integer
  raises \<^verbatim>\<open>IndexError\<close>.
\<close>

definition list_getitem :: "'a list \<Rightarrow> int \<Rightarrow> error + 'a" where
  "list_getitem xs i =
     (if 0 \<le> i \<and> i < int (length xs) then Inr (xs ! nat i)
      else if - int (length xs) \<le> i \<and> i < 0 then Inr (xs ! nat (int (length xs) + i))
      else Inl IndexError)"

text \<open>\<^verbatim>\<open>Circuit.__getitem__\<close> with an integer key.\<close>

definition getitem :: "'op circuit \<Rightarrow> int \<Rightarrow> error + 'op py_object" where
  "getitem c key =
     (if key < int (length (definitions c))
      then map_sum id Definition (list_getitem (definitions c) key)
      else map_sum id Operation
             (list_getitem (operations c) (key - int (length (definitions c)))))"

text \<open>\<^verbatim>\<open>Circuit.__iter__\<close>: the definitions are yielded first, then the operations.\<close>

definition iter :: "'op circuit \<Rightarrow> 'op py_object list" where
  "iter c = map Definition (definitions c) @ map Operation (operations c)"

subsection \<open>What the ordering claim speaks of\<close>

text \<open>
  The definitions among the appended objects, and the other operations among them, each
  in the order of appending.
\<close>

fun appended_definitions :: "'op py_object list \<Rightarrow> definition_op list" where
  "appended_definitions [] = []"
| "appended_definitions (Definition d # xs) = d # appended_definitions xs"
| "appended_definitions (_ # xs) = appended_definitions xs"

fun appended_operations :: "'op py_object list \<Rightarrow> 'op list" where
  "appended_operations [] = []"
| "appended_operations (Operation x # xs) = x # appended_operations xs"
| "appended_operations (_ # xs) = appended_operations xs"

text \<open>
  Deduplication in first-seen order: a definition is kept when no definition equal to it
  by value came before it.
\<close>

fun first_seen :: "definition_op list \<Rightarrow> definition_op list" where
  "first_seen [] = []"
| "first_seen (d # ds) = d # first_seen (filter (\<lambda>e. \<not> definition_eq d e) ds)"

text \<open>
  What the repeated appends of definitions do to the list of definitions: a definition is
  added at the end unless one equal to it is in the list.
\<close>

fun add_definitions :: "definition_op list \<Rightarrow> definition_op list \<Rightarrow> definition_op list" where
  "add_definitions acc [] = acc"
| "add_definitions acc (d # ds) =
     (if definition_in d acc then add_definitions acc ds else add_definitions (acc @ [d]) ds)"

text \<open>The three fields that \<^verbatim>\<open>Definition.__eq__\<close> compares.\<close>

definition definition_key :: "definition_op \<Rightarrow> string \<times> int \<times> string" where
  "definition_key d = (name d, length_reg d, vartype d)"

section \<open>Symbolic or literal numbers (\<^verbatim>\<open>hqsbase.calculator\<close>)\<close>

text \<open>
  \<^verbatim>\<open>hqsbase\<close> is a library that the repository imports. A \<^verbatim>\<open>CalculatorFloat\<close> is a float
  or the text of an expression; \<^verbatim>\<open>is_float\<close> tells which. Floats are modelled as real
  numbers. The library prints a number into the text of an expression; the model keeps the
  number in the place of its print, so a text is a list of pieces.
\<close>

datatype piece = Chars string | Number real

type_synonym expr_text = "piece list"

datatype calculator_float = Float real | Str expr_text

fun is_float :: "calculator_float \<Rightarrow> bool" where
  "is_float (Float x) = True"
| "is_float (Str t) = False"

text \<open>The text of a value, as \<^verbatim>\<open>str\<close> and \<^verbatim>\<open>format\<close> give it.\<close>

fun value_text :: "calculator_float \<Rightarrow> expr_text" where
  "value_text (Float x) = [Number x]"
| "value_text (Str t) = t"

text \<open>
  The library's arithmetic. On floats it is the arithmetic of the numbers. With a symbolic
  operand the result of a sum, a difference or a quotient is symbolic; how the library
  writes the text of the result is not known here, and is written as the operator between
  the operands in brackets.
\<close>

fun cf_binary ::
  "(real \<Rightarrow> real \<Rightarrow> real) \<Rightarrow> string \<Rightarrow> calculator_float \<Rightarrow> calculator_float \<Rightarrow> calculator_float"
where
  "cf_binary f operator (Float x) (Float y) = Float (f x y)"
| "cf_binary f operator a b =
     Str ([Chars ''(''] @ value_text a @ [Chars operator] @ value_text b @ [Chars '')''])"

definition cf_unary :: "(real \<Rightarrow> real) \<Rightarrow> string \<Rightarrow> calculator_float \<Rightarrow> calculator_float" where
  "cf_unary f fname a =
     (case a of
        Float x \<Rightarrow> Float (f x)
      | Str t \<Rightarrow> Str ([Chars fname, Chars ''(''] @ t @ [Chars '')'']))"

definition cf_add :: "calculator_float \<Rightarrow> calculator_float \<Rightarrow> calculator_float" where
  "cf_add = cf_binary (+) '' + ''"

definition cf_sub :: "calculator_float \<Rightarrow> calculator_float \<Rightarrow> calculator_float" where
  "cf_sub = cf_binary (-) '' - ''"

text \<open>
  The product of the library is the float \<open>0\<close> as soon as one factor is the float \<open>0\<close>,
  also when the other factor is symbolic; otherwise a product with a symbolic factor is
  symbolic.
\<close>

definition cf_mul :: "calculator_float \<Rightarrow> calculator_float \<Rightarrow> calculator_float" where
  "cf_mul a b =
     (case (a, b) of
        (Float x, Float y) \<Rightarrow> Float (x * y)
      | (Float x, Str t) \<Rightarrow> if x = 0 then Float 0 else cf_binary (*) '' * '' a b
      | (Str t, Float y) \<Rightarrow> if y = 0 then Float 0 else cf_binary (*) '' * '' a b
      | (Str t, Str u) \<Rightarrow> cf_binary (*) '' * '' a b)"

text \<open>The source divides by the literal \<open>2\<close> only.\<close>

definition cf_div :: "calculator_float \<Rightarrow> calculator_float \<Rightarrow> calculator_float" where
  "cf_div = cf_binary (/) '' / ''"

definition cf_cos :: "calculator_float \<Rightarrow> calculator_float" where
  "cf_cos = cf_unary cos ''cos''"

definition cf_sin :: "calculator_float \<Rightarrow> calculator_float" where
  "cf_sin = cf_unary sin ''sin''"

definition cf_neg :: "calculator_float \<Rightarrow> calculator_float" where
  "cf_neg = cf_unary uminus ''-''"

text \<open>
  \<^verbatim>\<open>CalculatorComplex\<close>: a real and an imaginary part, each a \<^verbatim>\<open>CalculatorFloat\<close>.
\<close>

record calculator_complex =
  re_part :: calculator_float
  im_part :: calculator_float

definition from_pair :: "calculator_float \<Rightarrow> calculator_float \<Rightarrow> calculator_complex" where
  "from_pair x y = \<lparr>re_part = x, im_part = y\<rparr>"

definition cc_mul :: "calculator_complex \<Rightarrow> calculator_complex \<Rightarrow> calculator_complex" where
  "cc_mul a b =
     \<lparr>re_part = cf_sub (cf_mul (re_part a) (re_part b)) (cf_mul (im_part a) (im_part b)),
      im_part = cf_add (cf_mul (re_part a) (im_part b)) (cf_mul (im_part a) (re_part b))\<rparr>"

definition cc_add :: "calculator_complex \<Rightarrow> calculator_complex \<Rightarrow> calculator_complex" where
  "cc_add a b =
     \<lparr>re_part = cf_add (re_part a) (re_part b), im_part = cf_add (im_part a) (im_part b)\<rparr>"

definition cc_sub :: "calculator_complex \<Rightarrow> calculator_complex \<Rightarrow> calculator_complex" where
  "cc_sub a b =
     \<lparr>re_part = cf_sub (re_part a) (re_part b), im_part = cf_sub (im_part a) (im_part b)\<rparr>"

definition cc_conj :: "calculator_complex \<Rightarrow> calculator_complex" where
  "cc_conj a = \<lparr>re_part = re_part a, im_part = cf_neg (im_part a)\<rparr>"

section \<open>Dictionaries\<close>

text \<open>
  A Python dictionary keeps its keys in the order of insertion and holds each key once;
  it is a list of pairs with distinct keys. Reading a missing key raises \<^verbatim>\<open>KeyError\<close>;
  writing an existing key keeps its place, writing a new key adds it at the end.
\<close>

definition dict_getitem :: "('k \<times> 'v) list \<Rightarrow> 'k \<Rightarrow> error + 'v" where
  "dict_getitem d k = (case map_of d k of None \<Rightarrow> Inl KeyError | Some v \<Rightarrow> Inr v)"

fun dict_setitem :: "('k \<times> 'v) list \<Rightarrow> 'k \<Rightarrow> 'v \<Rightarrow> ('k \<times> 'v) list" where
  "dict_setitem [] k v = [(k, v)]"
| "dict_setitem ((k', v') # d) k v =
     (if k' = k then (k, v) # d else (k', v') # dict_setitem d k v)"

text \<open>\<^verbatim>\<open>kwargs.get(key, default)\<close>.\<close>

definition dict_get :: "('k \<times> 'v) list \<Rightarrow> 'k \<Rightarrow> 'v \<Rightarrow> 'v" where
  "dict_get d k dflt = (case map_of d k of None \<Rightarrow> dflt | Some v \<Rightarrow> v)"

text \<open>Sequencing of steps that may raise: the first error ends the computation.\<close>

definition and_then :: "error + 'a \<Rightarrow> ('a \<Rightarrow> error + 'b) \<Rightarrow> error + 'b" where
  "and_then r f = (case r of Inl e \<Rightarrow> Inl e | Inr x \<Rightarrow> f x)"

section \<open>Gate classes (\<^verbatim>\<open>operations/single_qubit_gate_operations.py\<close>,
  \<^verbatim>\<open>operations/two_qubit_gate_operations.py\<close>)\<close>

text \<open>
  The concrete subclasses of \<^verbatim>\<open>GateOperation\<close>. What a class fixes is read from it by
  the functions below: the default qubit dictionary, the default parameter dictionary and
  the rotation-strength parameters.

  \<^verbatim>\<open>PragmaNoise\<close> (\<^verbatim>\<open>operations/pragma_operations.py\<close>) repeats \<^verbatim>\<open>__init__\<close>,
  \<^verbatim>\<open>__pow__\<close>, \<^verbatim>\<open>__copy__\<close> and \<^verbatim>\<open>substitute_parameters\<close> of \<^verbatim>\<open>GateOperation\<close>
  word for word, and its four subclasses carry the operation tag \<^verbatim>\<open>GateOperation\<close>; they
  are the classes \<open>Noise c\<close>.
\<close>

datatype single_qubit_class =
    SingleQubitGate | Hadamard | PauliX | PauliY | PauliZ | SGate | TGate
  | SqrtPauliX | InvSqrtPauliX | RotateX | RotateY | RotateZ
  | RotateAroundSphericalAxis | W

datatype two_qubit_class =
    CNOT | ISwap | FSwap | SqrtISwap | InvSqrtISwap | MolmerSorensenXX | VariableMSXX
  | SWAP | ControlledPhaseShift | ControlledPauliY | ControlledPauliZ | Fsim | Qsim
  | SpinInteraction | Bogoliubov | GivensRotation | GivensRotationLittleEndian
  | PMInteraction | ComplexPMInteraction | XY

datatype noise_class = PragmaDamping | PragmaDepolarise | PragmaDephasing | PragmaRandomNoise

datatype gate_class = Single single_qubit_class | Two two_qubit_class | Noise noise_class

text \<open>\<^verbatim>\<open>_ordered_qubits_dict_default\<close>.\<close>

fun ordered_qubits_dict_default :: "gate_class \<Rightarrow> (string \<times> int) list" where
  "ordered_qubits_dict_default (Single c) = [(''qubit'', 0)]"
| "ordered_qubits_dict_default (Two Fsim) = [(''qubit'', 0), (''control'', 1)]"
| "ordered_qubits_dict_default (Two Qsim) = [(''qubit'', 0), (''control'', 1)]"
| "ordered_qubits_dict_default (Two SpinInteraction) = [(''qubit'', 0), (''control'', 1)]"
| "ordered_qubits_dict_default (Two GivensRotation) = [(''qubit'', 0), (''control'', 1)]"
| "ordered_qubits_dict_default (Two GivensRotationLittleEndian) =
     [(''qubit'', 0), (''control'', 1)]"
| "ordered_qubits_dict_default (Two Bogoliubov) = [(''i'', 0), (''j'', 1)]"
| "ordered_qubits_dict_default (Two PMInteraction) = [(''i'', 0), (''j'', 1)]"
| "ordered_qubits_dict_default (Two ComplexPMInteraction) = [(''i'', 0), (''j'', 1)]"
| "ordered_qubits_dict_default (Two c) = [(''control'', 1), (''qubit'', 0)]"
| "ordered_qubits_dict_default (Noise c) = [(''qubit'', 0)]"

text \<open>\<^verbatim>\<open>_ordered_parameter_dict_default\<close>.\<close>

fun ordered_parameter_dict_default :: "gate_class \<Rightarrow> (string \<times> calculator_float) list" where
  "ordered_parameter_dict_default (Single SingleQubitGate) =
     [(''alpha_r'', Float 1), (''alpha_i'', Float 0), (''beta_r'', Float 0),
      (''beta_i'', Float 0), (''global_phase'', Float 0)]"
| "ordered_parameter_dict_default (Single RotateX) = [(''theta'', Float 0)]"
| "ordered_parameter_dict_default (Single RotateY) = [(''theta'', Float 0)]"
| "ordered_parameter_dict_default (Single RotateZ) = [(''theta'', Float 0)]"
| "ordered_parameter_dict_default (Single RotateAroundSphericalAxis) =
     [(''theta'', Float 0), (''spherical_theta'', Float (pi / 2)), (''spherical_phi'', Float 0)]"
| "ordered_parameter_dict_default (Single W) = [(''theta'', Float 0), (''spherical_phi'', Float 0)]"
| "ordered_parameter_dict_default (Single c) = []"
| "ordered_parameter_dict_default (Two VariableMSXX) = [(''theta'', Float 0)]"
| "ordered_parameter_dict_default (Two ControlledPhaseShift) = [(''theta'', Float 0)]"
| "ordered_parameter_dict_default (Two Fsim) =
     [(''U'', Float 0), (''t'', Float 0), (''Delta'', Float 0)]"
| "ordered_parameter_dict_default (Two Qsim) =
     [(''x'', Float 0), (''y'', Float 0), (''z'', Float 0)]"
| "ordered_parameter_dict_default (Two SpinInteraction) =
     [(''x'', Float 0), (''y'', Float 0), (''z'', Float 0)]"
| "ordered_parameter_dict_default (Two Bogoliubov) =
     [(''Delta_real'', Float 0), (''Delta_imag'', Float 0)]"
| "ordered_parameter_dict_default (Two GivensRotation) = [(''theta'', Float 0), (''phi'', Float 0)]"
| "ordered_parameter_dict_default (Two GivensRotationLittleEndian) =
     [(''theta'', Float 0), (''phi'', Float 0)]"
| "ordered_parameter_dict_default (Two PMInteraction) = [(''theta'', Float 0)]"
| "ordered_parameter_dict_default (Two ComplexPMInteraction) =
     [(''theta_real'', Float 0), (''theta_imag'', Float 0)]"
| "ordered_parameter_dict_default (Two XY) = [(''theta'', Float 0)]"
| "ordered_parameter_dict_default (Two c) = []"
| "ordered_parameter_dict_default (Noise PragmaRandomNoise) =
     [(''gate_time'', Float 0), (''depolarisation_rate'', Float 0), (''dephasing_rate'', Float 0)]"
| "ordered_parameter_dict_default (Noise c) = [(''gate_time'', Float 0), (''rate'', Float 0)]"

text \<open>
  \<^verbatim>\<open>_rotation_strength_parameters\<close>; \<open>None\<close> where the class leaves the attribute of
  \<^verbatim>\<open>Operation\<close>, which is \<^verbatim>\<open>None\<close>.
\<close>

fun rotation_strength_parameters :: "gate_class \<Rightarrow> string list option" where
  "rotation_strength_parameters (Single RotateX) = Some [''theta'']"
| "rotation_strength_parameters (Single RotateY) = Some [''theta'']"
| "rotation_strength_parameters (Single RotateZ) = Some [''theta'']"
| "rotation_strength_parameters (Single RotateAroundSphericalAxis) = Some [''theta'']"
| "rotation_strength_parameters (Single W) = Some [''theta'']"
| "rotation_strength_parameters (Two VariableMSXX) = Some [''theta'']"
| "rotation_strength_parameters (Two ControlledPhaseShift) = Some [''theta'']"
| "rotation_strength_parameters (Two Bogoliubov) = Some [''Delta_real'', ''Delta_imag'']"
| "rotation_strength_parameters (Two PMInteraction) = Some [''theta'']"
| "rotation_strength_parameters (Two ComplexPMInteraction) = Some [''theta_real'', ''theta_imag'']"
| "rotation_strength_parameters (Two XY) = Some [''theta'']"
| "rotation_strength_parameters (Noise c) = Some [''gate_time'']"
| "rotation_strength_parameters c = None"

section \<open>Gate operations (\<^verbatim>\<open>operations/_operations_base_classes.py\<close>)\<close>

text \<open>
  The state of a \<^verbatim>\<open>GateOperation\<close>: its class, \<^verbatim>\<open>_ordered_qubits_dict\<close>,
  \<^verbatim>\<open>_ordered_parameter_dict\<close>, the stored flag \<^verbatim>\<open>_parametrized\<close> and the set
  \<^verbatim>\<open>_involved_qubits\<close>.
\<close>

record gate_operation =
  gate_class_of :: gate_class
  ordered_qubits_dict :: "(string \<times> int) list"
  ordered_parameter_dict :: "(string \<times> calculator_float) list"
  parametrized :: bool
  involved_qubits :: "int set"

text \<open>
  \<^verbatim>\<open>GateOperation.__init__\<close> with \<^verbatim>\<open>for_copy=False\<close>. The keyword arguments are given
  as the ones read as parameters and the ones read as qubits. The flag becomes true as soon
  as one parameter is not a float.
\<close>

definition gate_init ::
  "gate_class \<Rightarrow> (string \<times> calculator_float) list \<Rightarrow> (string \<times> int) list \<Rightarrow> gate_operation"
where
  "gate_init cls parameter_kwargs qubit_kwargs =
     (let parameters = map (\<lambda>(key, dflt). (key, dict_get parameter_kwargs key dflt))
                           (ordered_parameter_dict_default cls);
          qubits = map (\<lambda>(key, dflt). (key, dict_get qubit_kwargs key dflt))
                       (ordered_qubits_dict_default cls)
      in \<lparr>gate_class_of = cls,
          ordered_qubits_dict = qubits,
          ordered_parameter_dict = parameters,
          parametrized = list_ex (\<lambda>(key, v). \<not> is_float v) parameters,
          involved_qubits = set (map snd qubits)\<rparr>)"

text \<open>\<^verbatim>\<open>is_parametrized\<close>: the stored flag.\<close>

definition is_parametrized :: "gate_operation \<Rightarrow> bool" where
  "is_parametrized g = parametrized g"

subsection \<open>\<^verbatim>\<open>GateOperation.substitute_parameters\<close>\<close>

text \<open>
  The text that is put before every expression: one assignment \<^verbatim>\<open>key=val; \<close> for each
  binding.
\<close>

fun substitution_string :: "(string \<times> calculator_float) list \<Rightarrow> expr_text" where
  "substitution_string [] = []"
| "substitution_string ((key, val) # bindings) =
     [Chars key, Chars ''=''] @ value_text val @ [Chars ''; ''] @ substitution_string bindings"

text \<open>
  The loop over the keys of the parameter dictionary. The keys of a dictionary are
  distinct, so reading and writing \<^verbatim>\<open>self._ordered_parameter_dict[key]\<close> key by key
  visits each item once, in order. The library's \<^verbatim>\<open>parse_string\<close> is a parameter: it
  returns a float or raises. When it raises, the items before stay rewritten and the rest
  is untouched.
\<close>

fun substitute_dict ::
  "(expr_text \<Rightarrow> error + real) \<Rightarrow> expr_text \<Rightarrow> (string \<times> calculator_float) list
     \<Rightarrow> (string \<times> calculator_float) list \<times> error option"
where
  "substitute_dict parse_string prefix [] = ([], None)"
| "substitute_dict parse_string prefix ((key, parameter) # items) =
     (if \<not> is_float parameter
      then (case parse_string (prefix @ [Chars ''; ''] @ value_text parameter) of
              Inl e \<Rightarrow> ((key, parameter) # items, Some e)
            | Inr new_parameter \<Rightarrow>
                (case substitute_dict parse_string prefix items of
                   (items', r) \<Rightarrow> ((key, Float new_parameter) # items', r)))
      else (case substitute_dict parse_string prefix items of
              (items', r) \<Rightarrow> ((key, parameter) # items', r)))"

text \<open>
  The method changes the gate in place: the result is the gate afterwards, and the error
  if one was raised. The flag is cleared only when the loop ends without an error.
\<close>

definition substitute_parameters ::
  "(expr_text \<Rightarrow> error + real) \<Rightarrow> (string \<times> calculator_float) list \<Rightarrow> gate_operation
     \<Rightarrow> gate_operation \<times> error option"
where
  "substitute_parameters parse_string substitution_dict self =
     (if is_parametrized self
      then (case substitute_dict parse_string (substitution_string substitution_dict)
                   (ordered_parameter_dict self) of
              (items, Some e) \<Rightarrow> (self\<lparr>ordered_parameter_dict := items\<rparr>, Some e)
            | (items, None) \<Rightarrow>
                (self\<lparr>ordered_parameter_dict := items, parametrized := False\<rparr>, None))
      else (self, None))"

subsection \<open>\<^verbatim>\<open>GateOperation.unitary_matrix\<close>\<close>

text \<open>
  A matrix is the list of its rows. \<^verbatim>\<open>getattr(self, 'unitary_matrix_from_parameters', None)\<close>
  is the class's method or \<^verbatim>\<open>None\<close>; it is a parameter here. The method is called with
  the \<^verbatim>\<open>value\<close> of every parameter, and what it returns or raises is the result.
  \<^verbatim>\<open>PragmaNoise\<close> is no \<^verbatim>\<open>GateOperation\<close> and has no property \<^verbatim>\<open>unitary_matrix\<close>:
  reading it on a gate of a class \<open>Noise c\<close> raises \<^verbatim>\<open>AttributeError\<close>.
\<close>

type_synonym matrix = "complex list list"

definition unitary_matrix ::
  "((string \<times> calculator_float) list \<Rightarrow> error + matrix) option \<Rightarrow> gate_operation
     \<Rightarrow> error + matrix"
where
  "unitary_matrix matrix_method self =
     (case gate_class_of self of
        Noise c \<Rightarrow> Inl AttributeError
      | _ \<Rightarrow>
          if is_parametrized self then Inl ValueError
          else (case matrix_method of
                  None \<Rightarrow> Inl AttributeError
                | Some method \<Rightarrow> method (ordered_parameter_dict self)))"

section \<open>Single-qubit gates (\<^verbatim>\<open>operations/single_qubit_gate_operations.py\<close>)\<close>

subsection \<open>The five scalars of a single-qubit gate\<close>

text \<open>
  The methods \<^verbatim>\<open>_alpha_r\<close>, \<^verbatim>\<open>_alpha_i\<close>, \<^verbatim>\<open>_beta_r\<close>, \<^verbatim>\<open>_beta_i\<close> and
  \<^verbatim>\<open>_global_phase\<close> of each class, as functions of the parameter dictionary. A read of
  a missing key raises \<^verbatim>\<open>KeyError\<close>.
\<close>

definition half_angle :: "(string \<times> calculator_float) list \<Rightarrow> error + calculator_float" where
  "half_angle d = and_then (dict_getitem d ''theta'') (\<lambda>theta. Inr (cf_div theta (Float 2)))"

fun alpha_r :: "single_qubit_class \<Rightarrow> (string \<times> calculator_float) list \<Rightarrow> error + calculator_float"
where
  "alpha_r SingleQubitGate d = dict_getitem d ''alpha_r''"
| "alpha_r Hadamard d = Inr (Float 0)"
| "alpha_r PauliX d = Inr (Float 0)"
| "alpha_r PauliY d = Inr (Float 0)"
| "alpha_r PauliZ d = Inr (Float 0)"
| "alpha_r SGate d = Inr (Float (1 / sqrt 2))"
| "alpha_r TGate d = Inr (Float (cos (pi / 8)))"
| "alpha_r SqrtPauliX d = Inr (Float (cos (pi / 4)))"
| "alpha_r InvSqrtPauliX d = Inr (Float (cos (pi / 4)))"
| "alpha_r c d = and_then (half_angle d) (\<lambda>h. Inr (cf_cos h))"

fun alpha_i :: "single_qubit_class \<Rightarrow> (string \<times> calculator_float) list \<Rightarrow> error + calculator_float"
where
  "alpha_i SingleQubitGate d = dict_getitem d ''alpha_i''"
| "alpha_i Hadamard d = Inr (Float (- 1 / sqrt 2))"
| "alpha_i PauliZ d = Inr (Float (- 1))"
| "alpha_i SGate d = Inr (Float (- 1 / sqrt 2))"
| "alpha_i TGate d = Inr (Float (- sin (pi / 8)))"
| "alpha_i RotateZ d = and_then (half_angle d) (\<lambda>h. Inr (cf_mul (Float (- 1)) (cf_sin h)))"
| "alpha_i RotateAroundSphericalAxis d =
     and_then (half_angle d) (\<lambda>h.
     and_then (dict_getitem d ''spherical_theta'') (\<lambda>spherical_theta.
       Inr (cf_mul (cf_mul (Float (- 1)) (cf_sin h)) (cf_cos spherical_theta))))"
| "alpha_i c d = Inr (Float 0)"

fun beta_r :: "single_qubit_class \<Rightarrow> (string \<times> calculator_float) list \<Rightarrow> error + calculator_float"
where
  "beta_r SingleQubitGate d = dict_getitem d ''beta_r''"
| "beta_r PauliY d = Inr (Float 1)"
| "beta_r RotateY d = and_then (half_angle d) (\<lambda>h. Inr (cf_sin h))"
| "beta_r RotateAroundSphericalAxis d =
     and_then (half_angle d) (\<lambda>h.
     and_then (dict_getitem d ''spherical_phi'') (\<lambda>spherical_phi.
     and_then (dict_getitem d ''spherical_theta'') (\<lambda>spherical_theta.
       Inr (cf_mul (cf_mul (cf_sin h) (cf_sin spherical_phi)) (cf_sin spherical_theta)))))"
| "beta_r W d =
     and_then (half_angle d) (\<lambda>h.
     and_then (dict_getitem d ''spherical_phi'') (\<lambda>spherical_phi.
       Inr (cf_mul (cf_sin h) (cf_sin spherical_phi))))"
| "beta_r c d = Inr (Float 0)"

fun beta_i :: "single_qubit_class \<Rightarrow> (string \<times> calculator_float) list \<Rightarrow> error + calculator_float"
where
  "beta_i SingleQubitGate d = dict_getitem d ''beta_i''"
| "beta_i Hadamard d = Inr (Float (- 1 / sqrt 2))"
| "beta_i PauliX d = Inr (Float (- 1))"
| "beta_i SqrtPauliX d = Inr (Float (- sin (pi / 4)))"
| "beta_i InvSqrtPauliX d = Inr (Float (sin (pi / 4)))"
| "beta_i RotateX d = and_then (half_angle d) (\<lambda>h. Inr (cf_mul (Float (- 1)) (cf_sin h)))"
| "beta_i RotateAroundSphericalAxis d =
     and_then (half_angle d) (\<lambda>h.
     and_then (dict_getitem d ''spherical_phi'') (\<lambda>spherical_phi.
     and_then (dict_getitem d ''spherical_theta'') (\<lambda>spherical_theta.
       Inr (cf_mul (cf_mul (cf_mul (Float (- 1)) (cf_sin h)) (cf_cos spherical_phi))
                   (cf_sin spherical_theta)))))"
| "beta_i W d =
     and_then (half_angle d) (\<lambda>h.
     and_then (dict_getitem d ''spherical_phi'') (\<lambda>spherical_phi.
       Inr (cf_mul (cf_mul (Float (- 1)) (cf_sin h)) (cf_cos spherical_phi))))"
| "beta_i c d = Inr (Float 0)"

fun global_phase :: "single_qubit_class \<Rightarrow> (string \<times> calculator_float) list \<Rightarrow> error + calculator_float"
where
  "global_phase SingleQubitGate d = dict_getitem d ''global_phase''"
| "global_phase Hadamard d = Inr (Float (pi / 2))"
| "global_phase PauliX d = Inr (Float (pi / 2))"
| "global_phase PauliY d = Inr (Float (pi / 2))"
| "global_phase PauliZ d = Inr (Float (pi / 2))"
| "global_phase SGate d = Inr (Float (pi / 4))"
| "global_phase TGate d = Inr (Float (pi / 8))"
| "global_phase c d = Inr (Float 0)"

subsection \<open>The matrix of each class\<close>

text \<open>
  \<^verbatim>\<open>unitary_matrix_from_parameters\<close> is called with the parameters as keyword arguments.
  A required keyword that is missing raises \<^verbatim>\<open>TypeError\<close>, and so does the arithmetic of
  \<^verbatim>\<open>numpy\<close> on the text of an expression.
\<close>

definition float_argument :: "(string \<times> calculator_float) list \<Rightarrow> string \<Rightarrow> error + real" where
  "float_argument kwargs key =
     (case map_of kwargs key of
        None \<Rightarrow> Inl TypeError
      | Some (Float x) \<Rightarrow> Inr x
      | Some (Str t) \<Rightarrow> Inl TypeError)"

text \<open>The keyword \<^verbatim>\<open>global_phase\<close> of \<^verbatim>\<open>SingleQubitGate\<close> has the default \<open>0\<close>.\<close>

definition float_argument_default ::
  "(string \<times> calculator_float) list \<Rightarrow> string \<Rightarrow> real \<Rightarrow> error + real"
where
  "float_argument_default kwargs key dflt =
     (case map_of kwargs key of
        None \<Rightarrow> Inr dflt
      | Some (Float x) \<Rightarrow> Inr x
      | Some (Str t) \<Rightarrow> Inl TypeError)"

definition rotation_matrix :: "real \<Rightarrow> real \<Rightarrow> real \<Rightarrow> real \<Rightarrow> matrix" where
  "rotation_matrix theta vx vy vz =
     (let c = complex_of_real (cos (theta / 2));
          s = complex_of_real (sin (theta / 2))
      in [[c - \<i> * s * complex_of_real vz,
           s * (- \<i> * complex_of_real vx - complex_of_real vy)],
          [s * (- \<i> * complex_of_real vx + complex_of_real vy),
           c + \<i> * s * complex_of_real vz]])"

fun unitary_matrix_from_parameters ::
  "single_qubit_class \<Rightarrow> (string \<times> calculator_float) list \<Rightarrow> error + matrix"
where
  "unitary_matrix_from_parameters SingleQubitGate kwargs =
     and_then (float_argument kwargs ''alpha_r'') (\<lambda>a_r.
     and_then (float_argument kwargs ''alpha_i'') (\<lambda>a_i.
     and_then (float_argument kwargs ''beta_r'') (\<lambda>b_r.
     and_then (float_argument kwargs ''beta_i'') (\<lambda>b_i.
     and_then (float_argument_default kwargs ''global_phase'' 0) (\<lambda>phase.
       (let alpha = complex_of_real a_r + \<i> * complex_of_real a_i;
            beta = complex_of_real b_r + \<i> * complex_of_real b_i;
            e = exp (\<i> * complex_of_real phase)
        in Inr [[e * alpha, e * (- cnj beta)], [e * beta, e * cnj alpha]]))))))"
| "unitary_matrix_from_parameters Hadamard kwargs =
     Inr [[1 / complex_of_real (sqrt 2) * 1, 1 / complex_of_real (sqrt 2) * 1],
          [1 / complex_of_real (sqrt 2) * 1, 1 / complex_of_real (sqrt 2) * (- 1)]]"
| "unitary_matrix_from_parameters PauliX kwargs = Inr [[0, 1], [1, 0]]"
| "unitary_matrix_from_parameters PauliY kwargs = Inr [[0, - \<i>], [\<i>, 0]]"
| "unitary_matrix_from_parameters PauliZ kwargs = Inr [[1, 0], [0, - 1]]"
| "unitary_matrix_from_parameters SGate kwargs = Inr [[1, 0], [0, \<i>]]"
| "unitary_matrix_from_parameters TGate kwargs =
     Inr [[1, 0], [0, exp (\<i> * complex_of_real pi / 4)]]"
| "unitary_matrix_from_parameters SqrtPauliX kwargs =
     (let theta = pi / 2;
          c = complex_of_real (cos (theta / 2));
          s = complex_of_real (sin (theta / 2))
      in Inr [[c, - \<i> * s], [- \<i> * s, c]])"
| "unitary_matrix_from_parameters InvSqrtPauliX kwargs =
     (let theta = - pi / 2;
          c = complex_of_real (cos (theta / 2));
          s = complex_of_real (sin (theta / 2))
      in Inr [[c, - \<i> * s], [- \<i> * s, c]])"
| "unitary_matrix_from_parameters RotateX kwargs =
     and_then (float_argument kwargs ''theta'') (\<lambda>theta.
       (let c = complex_of_real (cos (theta / 2));
            s = complex_of_real (sin (theta / 2))
        in Inr [[c, - \<i> * s], [- \<i> * s, c]]))"
| "unitary_matrix_from_parameters RotateY kwargs =
     and_then (float_argument kwargs ''theta'') (\<lambda>theta.
       (let c = complex_of_real (cos (theta / 2));
            s = complex_of_real (sin (theta / 2))
        in Inr [[c, - s], [s, c]]))"
| "unitary_matrix_from_parameters RotateZ kwargs =
     and_then (float_argument kwargs ''theta'') (\<lambda>theta.
       (let c = complex_of_real (cos (theta / 2));
            s = complex_of_real (sin (theta / 2))
        in Inr [[c - \<i> * s, 0], [0, c + \<i> * s]]))"
| "unitary_matrix_from_parameters RotateAroundSphericalAxis kwargs =
     and_then (float_argument kwargs ''theta'') (\<lambda>theta.
     and_then (float_argument kwargs ''spherical_theta'') (\<lambda>spherical_theta.
     and_then (float_argument kwargs ''spherical_phi'') (\<lambda>spherical_phi.
       Inr (rotation_matrix theta
              (sin spherical_theta * cos spherical_phi)
              (sin spherical_theta * sin spherical_phi)
              (cos spherical_theta)))))"
| "unitary_matrix_from_parameters W kwargs =
     and_then (float_argument kwargs ''theta'') (\<lambda>theta.
     and_then (float_argument kwargs ''spherical_phi'') (\<lambda>spherical_phi.
       Inr (rotation_matrix theta (cos spherical_phi) (sin spherical_phi) 0)))"

text \<open>
  The matrix method that \<^verbatim>\<open>getattr\<close> finds on a gate: every single-qubit class has one.
  The two-qubit classes have theirs too; their matrices are not modelled, so the method of
  a two-qubit class is a parameter wherever it is needed.
\<close>

definition single_qubit_matrix_method ::
  "single_qubit_class \<Rightarrow> ((string \<times> calculator_float) list \<Rightarrow> error + matrix) option"
where
  "single_qubit_matrix_method c = Some (unitary_matrix_from_parameters c)"

subsection \<open>Products of single-qubit gates\<close>

text \<open>
  The property \<^verbatim>\<open>single_qubit_gate\<close>: a \<^verbatim>\<open>SingleQubitGate\<close> is copied, and every other
  class builds a \<^verbatim>\<open>SingleQubitGate\<close> from its qubit and its five scalars.
\<close>

definition new_single_qubit_gate ::
  "int \<Rightarrow> calculator_float \<Rightarrow> calculator_float \<Rightarrow> calculator_float \<Rightarrow> calculator_float
     \<Rightarrow> calculator_float \<Rightarrow> gate_operation"
where
  "new_single_qubit_gate qubit a_r a_i b_r b_i phase =
     gate_init (Single SingleQubitGate)
       [(''alpha_r'', a_r), (''alpha_i'', a_i), (''beta_r'', b_r), (''beta_i'', b_i),
        (''global_phase'', phase)]
       [(''qubit'', qubit)]"

definition single_qubit_gate :: "single_qubit_class \<Rightarrow> gate_operation \<Rightarrow> error + gate_operation" where
  "single_qubit_gate c self =
     (if c = SingleQubitGate then Inr self
      else
        and_then (dict_getitem (ordered_qubits_dict self) ''qubit'') (\<lambda>qubit.
        and_then (alpha_r c (ordered_parameter_dict self)) (\<lambda>a_r.
        and_then (alpha_i c (ordered_parameter_dict self)) (\<lambda>a_i.
        and_then (beta_r c (ordered_parameter_dict self)) (\<lambda>b_r.
        and_then (beta_i c (ordered_parameter_dict self)) (\<lambda>b_i.
        and_then (global_phase c (ordered_parameter_dict self)) (\<lambda>phase.
          Inr (new_single_qubit_gate qubit a_r a_i b_r b_i phase))))))))"

text \<open>
  The closed form shared by \<^verbatim>\<open>__mul__\<close> and \<^verbatim>\<open>__imul__\<close>, for two gates \<open>s\<close> and
  \<open>other\<close> of class \<^verbatim>\<open>SingleQubitGate\<close>: the new \<open>alpha_r\<close>, \<open>alpha_i\<close>, \<open>beta_r\<close>,
  \<open>beta_i\<close> and global phase.
\<close>

definition product_scalars ::
  "gate_operation \<Rightarrow> gate_operation
     \<Rightarrow> error + (calculator_float \<times> calculator_float \<times> calculator_float \<times> calculator_float
                  \<times> calculator_float)"
where
  "product_scalars s other =
     (let d = ordered_parameter_dict s; od = ordered_parameter_dict other in
      and_then (alpha_r SingleQubitGate d) (\<lambda>s_alpha_r.
      and_then (alpha_i SingleQubitGate d) (\<lambda>s_alpha_i.
      and_then (beta_r SingleQubitGate d) (\<lambda>s_beta_r.
      and_then (beta_i SingleQubitGate d) (\<lambda>s_beta_i.
      and_then (alpha_r SingleQubitGate od) (\<lambda>o_alpha_r.
      and_then (alpha_i SingleQubitGate od) (\<lambda>o_alpha_i.
      and_then (beta_r SingleQubitGate od) (\<lambda>o_beta_r.
      and_then (beta_i SingleQubitGate od) (\<lambda>o_beta_i.
      and_then (global_phase SingleQubitGate d) (\<lambda>s_phase.
      and_then (global_phase SingleQubitGate od) (\<lambda>o_phase.
        (let alpha = from_pair s_alpha_r s_alpha_i;
             beta = from_pair s_beta_r s_beta_i;
             oalpha = from_pair o_alpha_r o_alpha_i;
             obeta = from_pair o_beta_r o_beta_i;
             new_alpha = cc_sub (cc_mul alpha oalpha) (cc_mul obeta (cc_conj beta));
             new_beta = cc_add (cc_mul beta oalpha) (cc_mul obeta (cc_conj alpha));
             global_phase_new = cf_add s_phase o_phase
         in Inr (re_part new_alpha, im_part new_alpha, re_part new_beta, im_part new_beta,
                 global_phase_new)))))))))))))"

text \<open>
  \<^verbatim>\<open>SingleQubitGateOperation.__mul__\<close>. The method belongs to the single-qubit classes;
  with a left operand of another class Python raises \<^verbatim>\<open>TypeError\<close> too.
\<close>

definition mul :: "gate_operation \<Rightarrow> gate_operation \<Rightarrow> error + gate_operation" where
  "mul self other =
     (case gate_class_of other of
        Two oc \<Rightarrow> Inl TypeError
      | Noise oc \<Rightarrow> Inl TypeError
      | Single oc \<Rightarrow>
          (case gate_class_of self of
             Two sc \<Rightarrow> Inl TypeError
           | Noise sc \<Rightarrow> Inl TypeError
           | Single sc \<Rightarrow>
               if involved_qubits self = involved_qubits other
               then
                 and_then (single_qubit_gate oc other) (\<lambda>other'.
                 and_then (single_qubit_gate sc self) (\<lambda>s.
                 and_then (product_scalars s other') (\<lambda>(a_r, a_i, b_r, b_i, phase).
                 and_then (dict_getitem (ordered_qubits_dict self) ''qubit'') (\<lambda>qubit.
                   Inr (new_single_qubit_gate qubit a_r a_i b_r b_i phase)))))
               else Inl ValueError))"

text \<open>
  \<^verbatim>\<open>SingleQubitGate.__imul__\<close>, for a left operand of class \<^verbatim>\<open>SingleQubitGate\<close>: the
  five parameters of \<open>self\<close> are overwritten, and nothing else of \<open>self\<close> is. A right
  operand that is no single-qubit gate has no \<^verbatim>\<open>single_qubit_gate\<close>.
\<close>

definition imul :: "gate_operation \<Rightarrow> gate_operation \<Rightarrow> error + gate_operation" where
  "imul self other =
     (if involved_qubits self = involved_qubits other
      then
        (case gate_class_of other of
           Two oc \<Rightarrow> Inl AttributeError
         | Noise oc \<Rightarrow> Inl AttributeError
         | Single oc \<Rightarrow>
             and_then (single_qubit_gate oc other) (\<lambda>other'.
             and_then (product_scalars self other') (\<lambda>(a_r, a_i, b_r, b_i, phase).
               Inr (self\<lparr>ordered_parameter_dict :=
                      dict_setitem (dict_setitem (dict_setitem (dict_setitem (dict_setitem
                        (ordered_parameter_dict self)
                        ''alpha_r'' a_r) ''alpha_i'' a_i) ''beta_r'' b_r) ''beta_i'' b_i)
                        ''global_phase'' phase\<rparr>))))
      else Inl ValueError)"

subsection \<open>The product of two matrices\<close>

text \<open>The matrix product \<^verbatim>\<open>A @ B\<close> of \<^verbatim>\<open>numpy\<close>, for matrices given by their rows.\<close>

definition matmul :: "matrix \<Rightarrow> matrix \<Rightarrow> matrix" where
  "matmul a b =
     map (\<lambda>row. map (\<lambda>j. (\<Sum>k \<leftarrow> [0 ..< length row]. row ! k * (b ! k) ! j))
                     [0 ..< length (hd b)])
         a"

section \<open>Notions used in the statements about gates\<close>

text \<open>
  The matrix \<^verbatim>\<open>exp(i phase) * [[alpha, -conj(beta)], [beta, conj(alpha)]]\<close> that the
  docstring of \<^verbatim>\<open>SingleQubitGateOperation\<close> gives for the five scalars.
\<close>

definition scalars_matrix :: "real \<Rightarrow> real \<Rightarrow> real \<Rightarrow> real \<Rightarrow> real \<Rightarrow> matrix" where
  "scalars_matrix a_r a_i b_r b_i phase =
     (let alpha = Complex a_r a_i; beta = Complex b_r b_i; e = cis phase
      in [[e * alpha, e * (- cnj beta)], [e * beta, e * cnj alpha]])"

text \<open>The number that a scalar method returned, when it returned a float.\<close>

definition literal_of :: "error + calculator_float \<Rightarrow> real" where
  "literal_of r = (case r of Inr (Float x) \<Rightarrow> x | _ \<Rightarrow> 0)"

definition literal_result :: "error + calculator_float \<Rightarrow> bool" where
  "literal_result r = (case r of Inr (Float x) \<Rightarrow> True | _ \<Rightarrow> False)"

text \<open>
  What \<^verbatim>\<open>GateOperation.__init__\<close> establishes and every method keeps: the two
  dictionaries have the keys of the class's defaults, in their order, and the involved
  qubits are the values of the qubit dictionary.
\<close>

definition well_formed_gate :: "gate_operation \<Rightarrow> bool" where
  "well_formed_gate g \<longleftrightarrow>
     map fst (ordered_parameter_dict g) = map fst (ordered_parameter_dict_default (gate_class_of g))
     \<and> map fst (ordered_qubits_dict g) = map fst (ordered_qubits_dict_default (gate_class_of g))
     \<and> involved_qubits g = set (map snd (ordered_qubits_dict g))"

text \<open>No parameter is symbolic.\<close>

definition all_literal :: "(string \<times> calculator_float) list \<Rightarrow> bool" where
  "all_literal d = list_all (\<lambda>kv. is_float (snd kv)) d"

text \<open>A gate that is not flagged as parametrized and has no symbolic parameter.\<close>

definition literal_gate :: "gate_operation \<Rightarrow> bool" where
  "literal_gate g \<longleftrightarrow> \<not> parametrized g \<and> all_literal (ordered_parameter_dict g)"

text \<open>
  The classes under \<^verbatim>\<open>GateOperation\<close>: the single-qubit and the two-qubit classes.
\<close>

definition is_gate_operation :: "gate_operation \<Rightarrow> bool" where
  "is_gate_operation g = (case gate_class_of g of Noise c \<Rightarrow> False | _ \<Rightarrow> True)"

section \<open>The other operations and their substitution
  (\<^verbatim>\<open>operations/pragma_operations.py\<close>)\<close>

text \<open>
  The operations of a circuit that are no \<^verbatim>\<open>Definition\<close>. Five pragma classes define
  \<^verbatim>\<open>substitute_parameters\<close> themselves; their constructors list the attributes that
  \<^verbatim>\<open>__init__\<close> stores, the flag \<^verbatim>\<open>_parametrized\<close> last (the involved qubits, which
  \<^verbatim>\<open>__init__\<close> derives from the qubit attributes, are left out):
  \<^item> \<^verbatim>\<open>PragmaGeneralNoise\<close>: qubit, gate time, rate, operators;
  \<^item> \<^verbatim>\<open>PragmaRepeatGate\<close> and \<^verbatim>\<open>PragmaBoostNoise\<close>: the coefficient;
  \<^item> \<^verbatim>\<open>PragmaOverrotation\<close>: gate, type, overrotation parameter, qubit dictionary,
    parameter, variance, mean;
  \<^item> \<^verbatim>\<open>PragmaGlobalPhase\<close>: the phase.
  Every other class (\<^verbatim>\<open>MeasureQubit\<close>, the measurement pragmas, the remaining pragmas)
  inherits \<^verbatim>\<open>Operation.substitute_parameters\<close>, whose body is \<^verbatim>\<open>pass\<close>; such an
  operation is given by its text.
\<close>

datatype operation =
    Gate gate_operation
  | PragmaGeneralNoise int calculator_float calculator_float "real list list" bool
  | PragmaRepeatGate calculator_float bool
  | PragmaBoostNoise calculator_float bool
  | PragmaOverrotation "string option" string string "(string \<times> int) list"
      calculator_float calculator_float calculator_float bool
  | PragmaGlobalPhase calculator_float bool
  | OtherOperation string

text \<open>
  The step that the pragmas repeat for an attribute: a float is left alone, the text of an
  expression is parsed behind the assignments, and the result replaces the attribute.
\<close>

definition substitute_attribute ::
  "(expr_text \<Rightarrow> error + real) \<Rightarrow> expr_text \<Rightarrow> calculator_float \<Rightarrow> error + calculator_float"
where
  "substitute_attribute parse_string prefix parameter =
     (if is_float parameter then Inr parameter
      else (case parse_string (prefix @ [Chars ''; ''] @ value_text parameter) of
              Inl e \<Rightarrow> Inl e
            | Inr x \<Rightarrow> Inr (Float x)))"

text \<open>
  \<^verbatim>\<open>PragmaRepeatGate\<close> and \<^verbatim>\<open>PragmaBoostNoise\<close> parse the text of the coefficient
  without asking whether it is a float.
\<close>

definition parse_attribute ::
  "(expr_text \<Rightarrow> error + real) \<Rightarrow> expr_text \<Rightarrow> calculator_float \<Rightarrow> error + calculator_float"
where
  "parse_attribute parse_string prefix parameter =
     (case parse_string (prefix @ [Chars ''; ''] @ value_text parameter) of
        Inl e \<Rightarrow> Inl e
      | Inr x \<Rightarrow> Inr (Float x))"

text \<open>
  \<^verbatim>\<open>substitute_parameters\<close> of each class. The operation is changed in place: the
  result is the operation afterwards and the error, if one was raised.
\<close>

fun operation_substitute_parameters ::
  "(expr_text \<Rightarrow> error + real) \<Rightarrow> (string \<times> calculator_float) list \<Rightarrow> operation
     \<Rightarrow> operation \<times> error option"
where
  "operation_substitute_parameters parse_string substitution_dict (Gate g) =
     (case substitute_parameters parse_string substitution_dict g of
        (g', r) \<Rightarrow> (Gate g', r))"
| "operation_substitute_parameters parse_string substitution_dict
     (PragmaGeneralNoise qubit gate_time rate operators flag) =
     (if flag
      then (case substitute_attribute parse_string (substitution_string substitution_dict) gate_time of
              Inl e \<Rightarrow> (PragmaGeneralNoise qubit gate_time rate operators flag, Some e)
            | Inr gate_time' \<Rightarrow>
                (case substitute_attribute parse_string (substitution_string substitution_dict) rate of
                   Inl e \<Rightarrow> (PragmaGeneralNoise qubit gate_time' rate operators flag, Some e)
                 | Inr rate' \<Rightarrow> (PragmaGeneralNoise qubit gate_time' rate' operators False, None)))
      else (PragmaGeneralNoise qubit gate_time rate operators flag, None))"
| "operation_substitute_parameters parse_string substitution_dict
     (PragmaRepeatGate coefficient flag) =
     (if flag
      then (case parse_attribute parse_string (substitution_string substitution_dict) coefficient of
              Inl e \<Rightarrow> (PragmaRepeatGate coefficient flag, Some e)
            | Inr coefficient' \<Rightarrow> (PragmaRepeatGate coefficient' False, None))
      else (PragmaRepeatGate coefficient flag, None))"
| "operation_substitute_parameters parse_string substitution_dict
     (PragmaBoostNoise coefficient flag) =
     (if flag
      then (case parse_attribute parse_string (substitution_string substitution_dict) coefficient of
              Inl e \<Rightarrow> (PragmaBoostNoise coefficient flag, Some e)
            | Inr coefficient' \<Rightarrow> (PragmaBoostNoise coefficient' False, None))
      else (PragmaBoostNoise coefficient flag, None))"
| "operation_substitute_parameters parse_string substitution_dict
     (PragmaOverrotation gate type overrotation_parameter qubits parameter variance mean flag) =
     (if flag
      then (case substitute_attribute parse_string (substitution_string substitution_dict) variance of
              Inl e \<Rightarrow>
                (PragmaOverrotation gate type overrotation_parameter qubits parameter variance mean
                   flag, Some e)
            | Inr variance' \<Rightarrow>
                (case substitute_attribute parse_string (substitution_string substitution_dict) mean of
                   Inl e \<Rightarrow>
                     (PragmaOverrotation gate type overrotation_parameter qubits parameter variance'
                        mean flag, Some e)
                 | Inr mean' \<Rightarrow>
                     (PragmaOverrotation gate type overrotation_parameter qubits parameter variance'
                        mean' False, None)))
      else (PragmaOverrotation gate type overrotation_parameter qubits parameter variance mean flag,
            None))"
| "operation_substitute_parameters parse_string substitution_dict (PragmaGlobalPhase phase flag) =
     (if flag
      then (case substitute_attribute parse_string (substitution_string substitution_dict) phase of
              Inl e \<Rightarrow> (PragmaGlobalPhase phase flag, Some e)
            | Inr phase' \<Rightarrow> (PragmaGlobalPhase phase' False, None))
      else (PragmaGlobalPhase phase flag, None))"
| "operation_substitute_parameters parse_string substitution_dict (OtherOperation t) =
     (OtherOperation t, None)"

text \<open>
  The loop of \<^verbatim>\<open>Circuit.substitute_parameters\<close> over a list of operations: the first
  error ends it, and the operations after it are untouched.
\<close>

fun substitute_operations ::
  "(expr_text \<Rightarrow> error + real) \<Rightarrow> (string \<times> calculator_float) list \<Rightarrow> operation list
     \<Rightarrow> operation list \<times> error option"
where
  "substitute_operations parse_string substitution_dict [] = ([], None)"
| "substitute_operations parse_string substitution_dict (oop # oops) =
     (case operation_substitute_parameters parse_string substitution_dict oop of
        (oop', Some e) \<Rightarrow> (oop' # oops, Some e)
      | (oop', None) \<Rightarrow>
          (case substitute_operations parse_string substitution_dict oops of
             (oops', r) \<Rightarrow> (oop' # oops', r)))"

text \<open>
  \<^verbatim>\<open>Circuit.substitute_parameters\<close>. The first loop calls \<^verbatim>\<open>substitute_parameters\<close>
  of every definition, which is the \<^verbatim>\<open>pass\<close> of \<^verbatim>\<open>Operation\<close>; the second loop is the
  one above.
\<close>

definition circuit_substitute_parameters ::
  "(expr_text \<Rightarrow> error + real) \<Rightarrow> (string \<times> calculator_float) list \<Rightarrow> operation circuit
     \<Rightarrow> operation circuit \<times> error option"
where
  "circuit_substitute_parameters parse_string substitution_dict self =
     (case substitute_operations parse_string substitution_dict (operations self) of
        (oops, r) \<Rightarrow> (self\<lparr>operations := oops\<rparr>, r))"

subsection \<open>Notions used in the statements about substitution\<close>

text \<open>The numeric attributes of an operation, and its stored flag.\<close>

fun numeric_fields :: "operation \<Rightarrow> calculator_float list" where
  "numeric_fields (Gate g) = map snd (ordered_parameter_dict g)"
| "numeric_fields (PragmaGeneralNoise qubit gate_time rate operators flag) = [gate_time, rate]"
| "numeric_fields (PragmaRepeatGate coefficient flag) = [coefficient]"
| "numeric_fields (PragmaBoostNoise coefficient flag) = [coefficient]"
| "numeric_fields
     (PragmaOverrotation gate type overrotation_parameter qubits parameter variance mean flag) =
     [variance, mean]"
| "numeric_fields (PragmaGlobalPhase phase flag) = [phase]"
| "numeric_fields (OtherOperation t) = []"

fun operation_parametrized :: "operation \<Rightarrow> bool" where
  "operation_parametrized (Gate g) = parametrized g"
| "operation_parametrized (PragmaGeneralNoise qubit gate_time rate operators flag) = flag"
| "operation_parametrized (PragmaRepeatGate coefficient flag) = flag"
| "operation_parametrized (PragmaBoostNoise coefficient flag) = flag"
| "operation_parametrized
     (PragmaOverrotation gate type overrotation_parameter qubits parameter variance mean flag) =
     flag"
| "operation_parametrized (PragmaGlobalPhase phase flag) = flag"
| "operation_parametrized (OtherOperation t) = False"

text \<open>
  An operation that is already literal: no numeric attribute is symbolic and the flag is
  not set.
\<close>

definition literal_operation :: "operation \<Rightarrow> bool" where
  "literal_operation x \<longleftrightarrow> list_all is_float (numeric_fields x) \<and> \<not> operation_parametrized x"

text \<open>The operation with its flag unset and everything else as it is.\<close>

fun clear_flag :: "operation \<Rightarrow> operation" where
  "clear_flag (Gate g) = Gate (g\<lparr>parametrized := False\<rparr>)"
| "clear_flag (PragmaGeneralNoise qubit gate_time rate operators flag) =
     PragmaGeneralNoise qubit gate_time rate operators False"
| "clear_flag (PragmaRepeatGate coefficient flag) = PragmaRepeatGate coefficient False"
| "clear_flag (PragmaBoostNoise coefficient flag) = PragmaBoostNoise coefficient False"
| "clear_flag
     (PragmaOverrotation gate type overrotation_parameter qubits parameter variance mean flag) =
     PragmaOverrotation gate type overrotation_parameter qubits parameter variance mean False"
| "clear_flag (PragmaGlobalPhase phase flag) = PragmaGlobalPhase phase False"
| "clear_flag (OtherOperation t) = OtherOperation t"

text \<open>
  The two classes whose \<^verbatim>\<open>substitute_parameters\<close> parses the coefficient also when it is
  a float.
\<close>

fun parses_coefficient :: "operation \<Rightarrow> bool" where
  "parses_coefficient (PragmaRepeatGate coefficient flag) = True"
| "parses_coefficient (PragmaBoostNoise coefficient flag) = True"
| "parses_coefficient x = False"

text \<open>A \<^verbatim>\<open>parse_string\<close> that gives every expression the value \<open>x\<close>; used in examples.\<close>

definition parse_constant :: "real \<Rightarrow> expr_text \<Rightarrow> error + real" where
  "parse_constant x t = Inr x"

section \<open>Gates as objects: \<^verbatim>\<open>__copy__\<close> and \<^verbatim>\<open>__pow__\<close>
  (\<^verbatim>\<open>operations/_operations_base_classes.py\<close>)\<close>

text \<open>
  A gate is an object whose attributes \<^verbatim>\<open>_ordered_qubits_dict\<close>,
  \<^verbatim>\<open>_ordered_parameter_dict\<close> and \<^verbatim>\<open>_involved_qubits\<close> refer to two dictionaries and
  a set, which are objects of their own and can be shared and changed in place. The store
  is the list of all objects; a reference is a position in it, and a new object is added
  at the end. An attribute that has not been assigned is \<open>None\<close>. The numbers in a
  dictionary are \<^verbatim>\<open>CalculatorFloat\<close> values, which no method changes in place.
\<close>

record gate_object =
  class_attr :: gate_class
  ordered_qubits_dict_ref :: nat
  ordered_parameter_dict_ref :: nat
  parametrized_attr :: "bool option"
  involved_qubits_ref :: "nat option"

datatype cell =
    QubitsDict "(string \<times> int) list"
  | ParameterDict "(string \<times> calculator_float) list"
  | QubitSet "int set"
  | Object gate_object

type_synonym heap = "cell list"

definition alloc :: "heap \<Rightarrow> cell \<Rightarrow> heap \<times> nat" where
  "alloc h c = (h @ [c], length h)"

text \<open>
  Reading through a reference. A reference to nothing, or to an object of another kind,
  does not arise in Python; here such a read gives \<^verbatim>\<open>AttributeError\<close>.
\<close>

definition read_object :: "heap \<Rightarrow> nat \<Rightarrow> error + gate_object" where
  "read_object h a =
     (if a < length h
      then (case h ! a of Object ob \<Rightarrow> Inr ob | _ \<Rightarrow> Inl AttributeError)
      else Inl AttributeError)"

definition read_qubits_dict :: "heap \<Rightarrow> nat \<Rightarrow> error + (string \<times> int) list" where
  "read_qubits_dict h a =
     (if a < length h
      then (case h ! a of QubitsDict d \<Rightarrow> Inr d | _ \<Rightarrow> Inl AttributeError)
      else Inl AttributeError)"

definition read_parameter_dict :: "heap \<Rightarrow> nat \<Rightarrow> error + (string \<times> calculator_float) list" where
  "read_parameter_dict h a =
     (if a < length h
      then (case h ! a of ParameterDict d \<Rightarrow> Inr d | _ \<Rightarrow> Inl AttributeError)
      else Inl AttributeError)"

definition read_qubit_set :: "heap \<Rightarrow> nat \<Rightarrow> error + int set" where
  "read_qubit_set h a =
     (if a < length h
      then (case h ! a of QubitSet s \<Rightarrow> Inr s | _ \<Rightarrow> Inl AttributeError)
      else Inl AttributeError)"

text \<open>
  A step works on the store and returns a value or raises; the steps of a method follow
  one another until one raises.
\<close>

definition then_heap ::
  "heap \<times> (error + 'a) \<Rightarrow> (heap \<Rightarrow> 'a \<Rightarrow> heap \<times> (error + 'b)) \<Rightarrow> heap \<times> (error + 'b)"
where
  "then_heap m f = (case m of (h, Inl e) \<Rightarrow> (h, Inl e) | (h, Inr x) \<Rightarrow> f h x)"

text \<open>\<^verbatim>\<open>copy(x)\<close> of a dictionary or a set: a new object with the same content.\<close>

definition copy_cell :: "heap \<Rightarrow> nat \<Rightarrow> heap \<times> (error + nat)" where
  "copy_cell h a =
     (if a < length h
      then (case alloc h (h ! a) of (h', a') \<Rightarrow> (h', Inr a'))
      else (h, Inl AttributeError))"

text \<open>The assignment of an attribute of the gate at \<open>a\<close>.\<close>

definition set_attribute ::
  "heap \<Rightarrow> nat \<Rightarrow> (gate_object \<Rightarrow> gate_object) \<Rightarrow> heap \<times> (error + unit)"
where
  "set_attribute h a f =
     (case read_object h a of
        Inl e \<Rightarrow> (h, Inl e)
      | Inr ob \<Rightarrow> (h[a := Object (f ob)], Inr ()))"

text \<open>
  \<^verbatim>\<open>GateOperation.__init__\<close> with \<^verbatim>\<open>for_copy=True\<close>: the new gate gets two new, empty
  dictionaries, and neither \<^verbatim>\<open>_parametrized\<close> nor \<^verbatim>\<open>_involved_qubits\<close>.
\<close>

definition init_for_copy :: "heap \<Rightarrow> gate_class \<Rightarrow> heap \<times> nat" where
  "init_for_copy h cls =
     (case alloc h (QubitsDict []) of (h1, qubits) \<Rightarrow>
      case alloc h1 (ParameterDict []) of (h2, parameters) \<Rightarrow>
        alloc h2 (Object \<lparr>class_attr = cls,
                          ordered_qubits_dict_ref = qubits,
                          ordered_parameter_dict_ref = parameters,
                          parametrized_attr = None,
                          involved_qubits_ref = None\<rparr>))"

text \<open>
  \<^verbatim>\<open>GateOperation.__init__\<close> with \<^verbatim>\<open>for_copy=False\<close>: the new gate with the
  dictionaries, the flag and the set that \<open>gate_init\<close> computes.
\<close>

definition gate_new ::
  "heap \<Rightarrow> gate_class \<Rightarrow> (string \<times> calculator_float) list \<Rightarrow> (string \<times> int) list
     \<Rightarrow> heap \<times> nat"
where
  "gate_new h cls parameter_kwargs qubit_kwargs =
     (let g = gate_init cls parameter_kwargs qubit_kwargs in
      case alloc h (QubitsDict (ordered_qubits_dict g)) of (h1, qubits) \<Rightarrow>
      case alloc h1 (ParameterDict (ordered_parameter_dict g)) of (h2, parameters) \<Rightarrow>
      case alloc h2 (QubitSet (involved_qubits g)) of (h3, involved) \<Rightarrow>
        alloc h3 (Object \<lparr>class_attr = cls,
                          ordered_qubits_dict_ref = qubits,
                          ordered_parameter_dict_ref = parameters,
                          parametrized_attr = Some (parametrized g),
                          involved_qubits_ref = Some involved\<rparr>))"

text \<open>
  \<^verbatim>\<open>GateOperation.__copy__\<close>. Each line reads an attribute of \<open>self\<close>, copies what it
  refers to and assigns the copy to the attribute of \<open>self_copy\<close>. The copy of a truth
  value is the truth value. Reading an attribute that was never assigned raises
  \<^verbatim>\<open>AttributeError\<close>.
\<close>

definition gate_copy :: "heap \<Rightarrow> nat \<Rightarrow> heap \<times> (error + nat)" where
  "gate_copy h self =
     then_heap (h, read_object h self) (\<lambda>h ob.
     case init_for_copy h (class_attr ob) of (h, self_copy) \<Rightarrow>
     then_heap (h, read_object h self) (\<lambda>h ob.
     then_heap (copy_cell h (ordered_qubits_dict_ref ob)) (\<lambda>h qubits.
     then_heap (set_attribute h self_copy (\<lambda>ob. ob\<lparr>ordered_qubits_dict_ref := qubits\<rparr>)) (\<lambda>h u.
     then_heap (h, read_object h self) (\<lambda>h ob.
     then_heap (copy_cell h (ordered_parameter_dict_ref ob)) (\<lambda>h parameters.
     then_heap (set_attribute h self_copy
                  (\<lambda>ob. ob\<lparr>ordered_parameter_dict_ref := parameters\<rparr>)) (\<lambda>h u.
     then_heap (h, read_object h self) (\<lambda>h ob.
     then_heap (h, case parametrized_attr ob of
                     None \<Rightarrow> Inl AttributeError | Some flag \<Rightarrow> Inr flag) (\<lambda>h flag.
     then_heap (set_attribute h self_copy (\<lambda>ob. ob\<lparr>parametrized_attr := Some flag\<rparr>)) (\<lambda>h u.
     then_heap (h, read_object h self) (\<lambda>h ob.
     then_heap (case involved_qubits_ref ob of
                  None \<Rightarrow> (h, Inl AttributeError)
                | Some involved \<Rightarrow> copy_cell h involved) (\<lambda>h involved.
     then_heap (set_attribute h self_copy
                  (\<lambda>ob. ob\<lparr>involved_qubits_ref := Some involved\<rparr>)) (\<lambda>h u.
       (h, Inr self_copy))))))))))))))"

text \<open>
  One turn of the loop of \<^verbatim>\<open>__pow__\<close>: the parameter is read in the dictionary of
  \<open>self\<close>, multiplied by the exponent, and written into the dictionary of
  \<open>return_operation\<close>. The exponent is given as a \<^verbatim>\<open>CalculatorFloat\<close>, and the product
  is the one of the library.
\<close>

definition pow_step ::
  "heap \<Rightarrow> nat \<Rightarrow> nat \<Rightarrow> calculator_float \<Rightarrow> string \<Rightarrow> heap \<times> (error + unit)"
where
  "pow_step h self return_operation other parameter =
     then_heap (h, read_object h self) (\<lambda>h ob.
     then_heap (h, read_parameter_dict h (ordered_parameter_dict_ref ob)) (\<lambda>h d.
     then_heap (h, dict_getitem d parameter) (\<lambda>h v.
     then_heap (h, read_object h return_operation) (\<lambda>h rob.
     then_heap (h, read_parameter_dict h (ordered_parameter_dict_ref rob)) (\<lambda>h rd.
       (h[ordered_parameter_dict_ref rob :=
            ParameterDict (dict_setitem rd parameter (cf_mul v other))],
        Inr ()))))))"

fun pow_loop ::
  "heap \<Rightarrow> nat \<Rightarrow> nat \<Rightarrow> calculator_float \<Rightarrow> string list \<Rightarrow> heap \<times> (error + unit)"
where
  "pow_loop h self return_operation other [] = (h, Inr ())"
| "pow_loop h self return_operation other (parameter # parameters) =
     (case pow_step h self return_operation other parameter of
        (h', Inl e) \<Rightarrow> (h', Inl e)
      | (h', Inr u) \<Rightarrow> pow_loop h' self return_operation other parameters)"

text \<open>
  \<^verbatim>\<open>GateOperation.__pow__\<close>: the copy is made first, then a class without
  rotation-strength parameters raises \<^verbatim>\<open>AttributeError\<close>; after the loop the flag of the
  copy is set when one of its parameters is no float.
\<close>

definition gate_pow :: "heap \<Rightarrow> nat \<Rightarrow> calculator_float \<Rightarrow> heap \<times> (error + nat)" where
  "gate_pow h self other =
     then_heap (gate_copy h self) (\<lambda>h return_operation.
     then_heap (h, read_object h self) (\<lambda>h ob.
       case rotation_strength_parameters (class_attr ob) of
         None \<Rightarrow> (h, Inl AttributeError)
       | Some parameters \<Rightarrow>
           then_heap (pow_loop h self return_operation other parameters) (\<lambda>h u.
           then_heap (h, read_object h return_operation) (\<lambda>h rob.
           then_heap (h, read_parameter_dict h (ordered_parameter_dict_ref rob)) (\<lambda>h d.
             if list_ex (\<lambda>(key, p). \<not> is_float p) d
             then then_heap (set_attribute h return_operation
                               (\<lambda>ob. ob\<lparr>parametrized_attr := Some True\<rparr>)) (\<lambda>h u.
                    (h, Inr return_operation))
             else (h, Inr return_operation))))))"

subsection \<open>Notions used in the statements about objects\<close>

text \<open>
  The state of the gate at a reference: its class, the content of its two dictionaries,
  its flag and the content of its set; \<open>None\<close> when there is no complete gate there.
\<close>

definition gate_state :: "heap \<Rightarrow> nat \<Rightarrow> gate_operation option" where
  "gate_state h a =
     (case read_object h a of
        Inl e \<Rightarrow> None
      | Inr ob \<Rightarrow>
          (case (read_qubits_dict h (ordered_qubits_dict_ref ob),
                 read_parameter_dict h (ordered_parameter_dict_ref ob),
                 parametrized_attr ob,
                 involved_qubits_ref ob) of
             (Inr qubits, Inr parameters, Some flag, Some involved) \<Rightarrow>
               (case read_qubit_set h involved of
                  Inr s \<Rightarrow> Some \<lparr>gate_class_of = class_attr ob,
                                  ordered_qubits_dict = qubits,
                                  ordered_parameter_dict = parameters,
                                  parametrized = flag,
                                  involved_qubits = s\<rparr>
                | Inl e \<Rightarrow> None)
           | _ \<Rightarrow> None))"

text \<open>
  The parameters of \<open>G ** p\<close>, as the claim gives them: every rotation-strength parameter
  multiplied by the exponent, every other parameter as it was.
\<close>

definition scaled_parameters ::
  "string list \<Rightarrow> calculator_float \<Rightarrow> (string \<times> calculator_float) list
     \<Rightarrow> (string \<times> calculator_float) list"
where
  "scaled_parameters rotation other d =
     map (\<lambda>(key, v). (key, if key \<in> set rotation then cf_mul v other else v)) d"

section \<open>Basis-rotation measurement (\<^verbatim>\<open>measurements/basis_rotation_measurement.py\<close>)\<close>

text \<open>
  \<^verbatim>\<open>BasisRotationMeasurement.__call__\<close> runs the circuits on a backend, reads the bit
  registers that come back, and computes with \<^verbatim>\<open>numpy\<close>. Arrays are lists and floats
  are real numbers. Where \<^verbatim>\<open>numpy\<close> would go on with \<^verbatim>\<open>nan\<close> or \<^verbatim>\<open>inf\<close> (the mean of
  no shots, a division by zero) no real number is the result, and the model ends with
  \<open>NotANumber\<close>.

  The output register of a circuit (\<^verbatim>\<open>registers/registers.py\<close>) is the list of the
  shots, each shot the content of the register. The model covers the runs whose output
  registers are bit registers, which is what the measurement operations fill; float and
  complex registers are outside of it.
\<close>

type_synonym register_output = "bool list list"

text \<open>
  \<^verbatim>\<open>BRMeasurementInput\<close>. A mask gives, for the index of a Pauli product, the list of
  the qubits that contribute to it.
\<close>

record measurement_input =
  pauli_product_qubit_masks :: "(string \<times> (int \<times> int list) list) list"
  pp_to_exp_val_matrix :: "complex list list"
  number_qubits :: nat
  number_pauli_products :: nat
  measured_exp_vals :: "string list"
  use_flipped_measurement :: bool

text \<open>
  The backend is outside the repository: what is used of it is \<^verbatim>\<open>number_qubits\<close> and
  what \<^verbatim>\<open>run()\<close> returns for the circuit at each position of the list, a dictionary of
  output registers or \<^verbatim>\<open>None\<close>.
\<close>

record backend =
  backend_number_qubits :: nat
  run :: "nat \<Rightarrow> (string \<times> register_output) list option"

text \<open>
  Of the device, the number of nodes of its graph and, for a qubit \<open>q\<close>, the attribute
  \<^verbatim>\<open>measurement_error\<close> of the edge \<^verbatim>\<open>(q, q, 'MeasureQubit')\<close>: the pair of
  \<^verbatim>\<open>prob_0_as_1\<close> and \<^verbatim>\<open>prob_1_as_0\<close>.
\<close>

record device =
  nodes :: nat
  measurement_error :: "(nat \<times> real \<times> real) list"

record basis_rotation_measurement =
  measurement_input_of :: measurement_input
  circuit_count :: nat
  backend_of :: "backend option"
  device_of :: "device option"

subsection \<open>Indexing of arrays\<close>

text \<open>An index of \<^verbatim>\<open>numpy\<close> into an axis of length \<open>n\<close>: a negative index counts from the end.\<close>

definition np_index :: "nat \<Rightarrow> int \<Rightarrow> error + nat" where
  "np_index n i =
     (if 0 \<le> i \<and> i < int n then Inr (nat i)
      else if - int n \<le> i \<and> i < 0 then Inr (nat (int n + i))
      else Inl IndexError)"

text \<open>\<^verbatim>\<open>xs[val]\<close> for a list \<open>val\<close> of indices.\<close>

fun take_indices :: "'a list \<Rightarrow> int list \<Rightarrow> error + 'a list" where
  "take_indices xs [] = Inr []"
| "take_indices xs (q # qs) =
     (case np_index (length xs) q of
        Inl e \<Rightarrow> Inl e
      | Inr i \<Rightarrow>
          (case take_indices xs qs of
             Inl e \<Rightarrow> Inl e
           | Inr ys \<Rightarrow> Inr (xs ! i # ys)))"

text \<open>The results of a row of steps, up to the first that raises.\<close>

fun collect :: "(error + 'a) list \<Rightarrow> error + 'a list" where
  "collect [] = Inr []"
| "collect (r # rs) =
     (case r of
        Inl e \<Rightarrow> Inl e
      | Inr x \<Rightarrow> (case collect rs of Inl e \<Rightarrow> Inl e | Inr xs \<Rightarrow> Inr (x # xs)))"

text \<open>\<^verbatim>\<open>register_name.endswith('flipped')\<close>.\<close>

definition ends_with :: "string \<Rightarrow> string \<Rightarrow> bool" where
  "ends_with suffix s \<longleftrightarrow> drop (length s - length suffix) s = suffix"

subsection \<open>The circuits are run\<close>

text \<open>
  The loop over the circuits: every register dictionary that comes back is merged into
  \<^verbatim>\<open>output_register_dict\<close> with \<^verbatim>\<open>update\<close>, and a \<^verbatim>\<open>None\<close> is remembered. The loop
  does not stop at a \<^verbatim>\<open>None\<close>.
\<close>

definition dict_update :: "('k \<times> 'v) list \<Rightarrow> ('k \<times> 'v) list \<Rightarrow> ('k \<times> 'v) list" where
  "dict_update d e = fold (\<lambda>(k, v) acc. dict_setitem acc k v) e d"

fun run_circuits ::
  "(nat \<Rightarrow> (string \<times> register_output) list option) \<Rightarrow> nat list
     \<Rightarrow> (string \<times> register_output) list \<Rightarrow> bool
     \<Rightarrow> (string \<times> register_output) list \<times> bool"
where
  "run_circuits backend_run [] output_register_dict return_None =
     (output_register_dict, return_None)"
| "run_circuits backend_run (co # rest) output_register_dict return_None =
     (case backend_run co of
        Some tmp_output_register_dict \<Rightarrow>
          run_circuits backend_run rest
            (dict_update output_register_dict tmp_output_register_dict) return_None
      | None \<Rightarrow> run_circuits backend_run rest output_register_dict True)"

subsection \<open>Fidelities and correction factors\<close>

text \<open>
  With a device the fidelities start as zeros, one for each node, and the qubits below
  \<^verbatim>\<open>number_qubits\<close> get \<open>(2 - prob_0_as_1 - prob_1_as_0) / 2\<close>; an edge that is missing
  raises \<^verbatim>\<open>KeyError\<close>. Without a device they are ones, one for each qubit of the backend.
\<close>

fun fill_fidelities :: "device \<Rightarrow> real list \<Rightarrow> nat list \<Rightarrow> error + real list" where
  "fill_fidelities dev measurement_fidelities [] = Inr measurement_fidelities"
| "fill_fidelities dev measurement_fidelities (qubit # rest) =
     (case map_of (measurement_error dev) qubit of
        None \<Rightarrow> Inl KeyError
      | Some (prob_0_as_1, prob_1_as_0) \<Rightarrow>
          if qubit < length measurement_fidelities
          then fill_fidelities dev
                 (measurement_fidelities[qubit := (2 - prob_0_as_1 - prob_1_as_0) / 2]) rest
          else Inl IndexError)"

definition measurement_fidelities :: "device option \<Rightarrow> nat \<Rightarrow> nat \<Rightarrow> error + real list" where
  "measurement_fidelities dev n_qubits n_backend_qubits =
     (case dev of
        Some d \<Rightarrow> fill_fidelities d (replicate (nodes d) 0) [0 ..< n_qubits]
      | None \<Rightarrow> Inr (replicate n_backend_qubits 1))"

text \<open>
  The correction factor of one mask: ones, and at the index of each Pauli product \<open>1\<close>
  for an empty list of qubits and the product of the fidelities of the listed qubits
  otherwise.
\<close>

fun correction_loop ::
  "real list \<Rightarrow> real list \<Rightarrow> (int \<times> int list) list \<Rightarrow> error + real list"
where
  "correction_loop fidelities factor [] = Inr factor"
| "correction_loop fidelities factor ((index, val) # rest) =
     (if length val = 0
      then (case np_index (length factor) index of
              Inl e \<Rightarrow> Inl e
            | Inr i \<Rightarrow> correction_loop fidelities (factor[i := 1]) rest)
      else (case take_indices fidelities val of
              Inl e \<Rightarrow> Inl e
            | Inr fs \<Rightarrow>
                (case np_index (length factor) index of
                   Inl e \<Rightarrow> Inl e
                 | Inr i \<Rightarrow> correction_loop fidelities (factor[i := prod_list fs]) rest)))"

definition measurement_correction_factor ::
  "real list \<Rightarrow> nat \<Rightarrow> (int \<times> int list) list \<Rightarrow> error + real list"
where
  "measurement_correction_factor fidelities n_pauli_products qubit_mask =
     correction_loop fidelities (replicate n_pauli_products 1) qubit_mask"

text \<open>
  The loop over the masks fills a dictionary with the keys of the masks, in their order.
\<close>

fun measurement_correction_factors ::
  "real list \<Rightarrow> nat \<Rightarrow> (string \<times> (int \<times> int list) list) list
     \<Rightarrow> error + (string \<times> real list) list"
where
  "measurement_correction_factors fidelities n_pauli_products [] = Inr []"
| "measurement_correction_factors fidelities n_pauli_products ((register_name, qubit_mask) # rest) =
     (case measurement_correction_factor fidelities n_pauli_products qubit_mask of
        Inl e \<Rightarrow> Inl e
      | Inr factor \<Rightarrow>
          (case measurement_correction_factors fidelities n_pauli_products rest of
             Inl e \<Rightarrow> Inl e
           | Inr factors \<Rightarrow> Inr ((register_name, factor) # factors)))"

subsection \<open>Pauli products of a register\<close>

text \<open>
  \<^verbatim>\<open>np.sum(tmp_array[:, val], axis=1)\<close>, and \<^verbatim>\<open>np.sum(1 - tmp_array[:, val], axis=1)\<close>
  for a flipped register: for every shot the number of listed bits that are set, or that
  are not set. The array of no shots has one axis only, and the index raises.
\<close>

definition bit_value :: "bool \<Rightarrow> bool \<Rightarrow> nat" where
  "bit_value flipped b = (if flipped then 1 - (if b then 1 else 0) else (if b then 1 else 0))"

definition shot_sums :: "bool \<Rightarrow> bool list list \<Rightarrow> int list \<Rightarrow> error + nat list" where
  "shot_sums flipped tmp_array val =
     (if tmp_array = [] then Inl IndexError
      else collect (map (\<lambda>shot.
             case take_indices shot val of
               Inl e \<Rightarrow> Inl e
             | Inr bits \<Rightarrow> Inr (sum_list (map (bit_value flipped) bits)))
           tmp_array))"

text \<open>
  \<^verbatim>\<open>single_shot_pauli_products\<close> is kept by its columns, one for each Pauli product; the
  loop over the mask writes the column of each index.
\<close>

fun pauli_columns ::
  "bool \<Rightarrow> bool list list \<Rightarrow> real list list \<Rightarrow> (int \<times> int list) list
     \<Rightarrow> error + real list list"
where
  "pauli_columns flipped tmp_array columns [] = Inr columns"
| "pauli_columns flipped tmp_array columns ((index, val) # rest) =
     (if length val = 0
      then (case np_index (length columns) index of
              Inl e \<Rightarrow> Inl e
            | Inr i \<Rightarrow>
                pauli_columns flipped tmp_array
                  (columns[i := replicate (length tmp_array) 1]) rest)
      else (case shot_sums flipped tmp_array val of
              Inl e \<Rightarrow> Inl e
            | Inr exponents \<Rightarrow>
                (case np_index (length columns) index of
                   Inl e \<Rightarrow> Inl e
                 | Inr i \<Rightarrow>
                     pauli_columns flipped tmp_array
                       (columns[i := map (\<lambda>s. (- 1) ^ s) exponents]) rest)))"

text \<open>
  The Pauli products of one register: the columns start as zeros and are averaged over the
  shots at the end. \<^verbatim>\<open>numpy\<close> makes an array of the shots when they have one length, and
  is taken to refuse them with \<^verbatim>\<open>ValueError\<close> otherwise. The mean over no shots is
  \<^verbatim>\<open>nan\<close>.
\<close>

definition register_pauli_products ::
  "nat \<Rightarrow> string \<Rightarrow> (int \<times> int list) list \<Rightarrow> register_output \<Rightarrow> error + real list"
where
  "register_pauli_products n_pauli_products register_name qubit_mask register =
     (if \<not> list_all (\<lambda>shot. length shot = length (hd register)) register then Inl ValueError
      else
        (case pauli_columns (ends_with ''flipped'' register_name) register
                (replicate n_pauli_products (replicate (length register) 0)) qubit_mask of
           Inl e \<Rightarrow> Inl e
         | Inr columns \<Rightarrow>
             if register = [] \<and> 0 < n_pauli_products then Inl NotANumber
             else Inr (map (\<lambda>column. sum_list column / real (length register)) columns)))"

fun pauli_product_loop ::
  "nat \<Rightarrow> (string \<times> register_output) list \<Rightarrow> (string \<times> (int \<times> int list) list) list
     \<Rightarrow> error + (string \<times> real list) list"
where
  "pauli_product_loop n_pauli_products output_register_dict [] = Inr []"
| "pauli_product_loop n_pauli_products output_register_dict ((register_name, qubit_mask) # rest) =
     (case dict_getitem output_register_dict register_name of
        Inl e \<Rightarrow> Inl e
      | Inr register \<Rightarrow>
          (case register_pauli_products n_pauli_products register_name qubit_mask register of
             Inl e \<Rightarrow> Inl e
           | Inr pauli_products \<Rightarrow>
               (case pauli_product_loop n_pauli_products output_register_dict rest of
                  Inl e \<Rightarrow> Inl e
                | Inr pauli_product_dict \<Rightarrow>
                    Inr ((register_name, pauli_products) # pauli_product_dict))))"

subsection \<open>Correction of the readout errors\<close>

text \<open>\<^verbatim>\<open>np.divide\<close>, entry by entry.\<close>

definition divide_arrays :: "real list \<Rightarrow> real list \<Rightarrow> error + real list" where
  "divide_arrays xs ys =
     (if list_ex (\<lambda>y. y = 0) ys then Inl NotANumber
      else Inr (map (\<lambda>(x, y). x / y) (zip xs ys)))"

text \<open>
  The loop over the names of \<^verbatim>\<open>pauli_product_dict\<close>: the entry of a name that does not
  end in \<^verbatim>\<open>flipped\<close> is replaced. The entries that are read are its own and the one of
  the name followed by \<^verbatim>\<open>_flipped\<close>, which the loop never replaces; so every read finds
  what was in the dictionary before the loop.
\<close>

fun correction_pass ::
  "(string \<times> real list) list \<Rightarrow> (string \<times> real list) list \<Rightarrow> (string \<times> real list) list
     \<Rightarrow> error + (string \<times> real list) list"
where
  "correction_pass pauli_product_dict factors [] = Inr []"
| "correction_pass pauli_product_dict factors ((register_name, v) # rest) =
     (if \<not> ends_with ''flipped'' register_name
      then
        (case dict_getitem pauli_product_dict register_name of
           Inl e \<Rightarrow> Inl e
         | Inr plain \<Rightarrow>
             (case dict_getitem pauli_product_dict (register_name @ ''_flipped'') of
                Inl e \<Rightarrow> Inl e
              | Inr flipped \<Rightarrow>
                  (case dict_getitem factors register_name of
                     Inl e \<Rightarrow> Inl e
                   | Inr factor \<Rightarrow>
                       (case divide_arrays
                               (map (\<lambda>(a, b). (a + b) / 2) (zip plain flipped)) factor of
                          Inl e \<Rightarrow> Inl e
                        | Inr corrected \<Rightarrow>
                            (case correction_pass pauli_product_dict factors rest of
                               Inl e \<Rightarrow> Inl e
                             | Inr d \<Rightarrow> Inr ((register_name, corrected) # d))))))
      else
        (case correction_pass pauli_product_dict factors rest of
           Inl e \<Rightarrow> Inl e
         | Inr d \<Rightarrow> Inr ((register_name, v) # d)))"

subsection \<open>Expectation values\<close>

text \<open>The sum of the entries of the names that do not end in \<^verbatim>\<open>flipped\<close>.\<close>

definition sum_pauli_products :: "nat \<Rightarrow> (string \<times> real list) list \<Rightarrow> real list" where
  "sum_pauli_products n_pauli_products pauli_product_dict =
     fold (\<lambda>(register_name, nd_array_val) pauli_products.
             if \<not> ends_with ''flipped'' register_name
             then map (\<lambda>(x, y). x + y) (zip pauli_products nd_array_val)
             else pauli_products)
          pauli_product_dict (replicate n_pauli_products 0)"

text \<open>
  \<^verbatim>\<open>matrix @ vector\<close>: every row must have the length of the vector; the matrix without
  rows is the one of shape \<open>(0, 0)\<close>.
\<close>

definition matvec :: "complex list list \<Rightarrow> real list \<Rightarrow> error + complex list" where
  "matvec m v =
     (if list_all (\<lambda>row. length row = length v) m \<and> (m = [] \<longrightarrow> v = [])
      then Inr (map (\<lambda>row. sum_list (map (\<lambda>(a, x). a * complex_of_real x) (zip row v))) m)
      else Inl ValueError)"

text \<open>
  The dictionary of the results, from the names and the expectation values, and the first
  entry of the first shot of the register \<^verbatim>\<open>global_phase\<close> when there is one.
\<close>

definition first_entry :: "register_output \<Rightarrow> error + complex" where
  "first_entry register =
     (if register = [] \<or> hd register = [] then Inl IndexError
      else Inr (if hd (hd register) then 1 else 0))"

definition series ::
  "string list \<Rightarrow> complex list \<Rightarrow> (string \<times> register_output) list
     \<Rightarrow> error + (string \<times> complex) list"
where
  "series names expectation_values output_register_dict =
     (let tmp_dict = fold (\<lambda>(name, exp_val) d. dict_setitem d (''exp_val_'' @ name) exp_val)
                          (zip names expectation_values) []
      in case map_of output_register_dict ''global_phase'' of
           None \<Rightarrow> Inr tmp_dict
         | Some register \<Rightarrow>
             (case first_entry register of
                Inl e \<Rightarrow> Inl e
              | Inr phase \<Rightarrow> Inr (dict_setitem tmp_dict ''global_phase'' phase)))"

subsection \<open>\<^verbatim>\<open>BasisRotationMeasurement.__call__\<close>\<close>

text \<open>
  The result is the series of the results, or \<^verbatim>\<open>None\<close> when a run returned \<^verbatim>\<open>None\<close>.
  Without a backend the series is empty.
\<close>

definition call :: "basis_rotation_measurement \<Rightarrow> error + (string \<times> complex) list option" where
  "call self =
     (case backend_of self of
        None \<Rightarrow> Inr (Some [])
      | Some b \<Rightarrow>
          (case run_circuits (run b) [0 ..< circuit_count self] [] False of
             (output_register_dict, return_None) \<Rightarrow>
               if return_None then Inr None
               else
                 (let inp = measurement_input_of self;
                      n = number_pauli_products inp;
                      masks = pauli_product_qubit_masks inp
                  in
                  and_then (measurement_fidelities (device_of self) (number_qubits inp)
                              (backend_number_qubits b)) (\<lambda>fidelities.
                  and_then (if use_flipped_measurement inp
                            then measurement_correction_factors fidelities n masks
                            else Inr []) (\<lambda>factors.
                  and_then (pauli_product_loop n output_register_dict masks) (\<lambda>pauli_product_dict.
                  and_then (if use_flipped_measurement inp
                            then correction_pass pauli_product_dict factors pauli_product_dict
                            else Inr pauli_product_dict) (\<lambda>pauli_product_dict.
                  and_then (matvec (pp_to_exp_val_matrix inp)
                              (sum_pauli_products n pauli_product_dict)) (\<lambda>expectation_values.
                  and_then (series (measured_exp_vals inp) expectation_values
                              output_register_dict) (\<lambda>return_series.
                    Inr (Some return_series))))))))))"

text \<open>A backend whose every run returns the same registers; used in examples.\<close>

definition constant_backend :: "nat \<Rightarrow> (string \<times> register_output) list \<Rightarrow> backend" where
  "constant_backend n registers =
     \<lparr>backend_number_qubits = n, run = (\<lambda>co. Some registers)\<rparr>"

subsection \<open>Notions used in the statements about the measurement\<close>

text \<open>
  The product of one shot for a Pauli product with the list \<open>L\<close> of contributing qubits,
  as the specification gives it: \<open>1\<close> for the empty list, and otherwise \<open>-1\<close> to the
  number of listed bits that are set, counted on the complemented shot for a flipped
  register.
\<close>

definition shot_product :: "bool \<Rightarrow> int list \<Rightarrow> bool list \<Rightarrow> real" where
  "shot_product flipped L shot =
     (if L = [] then 1
      else (- 1) ^ (\<Sum>q \<leftarrow> L. if (if flipped then \<not> shot ! nat q else shot ! nat q)
                                 then 1 else 0 :: nat))"

text \<open>The average over the shots.\<close>

definition shot_average :: "bool \<Rightarrow> int list \<Rightarrow> bool list list \<Rightarrow> real" where
  "shot_average flipped L shots =
     (\<Sum>shot \<leftarrow> shots. shot_product flipped L shot) / real (length shots)"

text \<open>
  A mask that is in range: the indices are different positions below the number of Pauli
  products, and the qubits are positions below \<open>width\<close>.
\<close>

definition mask_in_range :: "nat \<Rightarrow> nat \<Rightarrow> (int \<times> int list) list \<Rightarrow> bool" where
  "mask_in_range n_pauli_products width qubit_mask \<longleftrightarrow>
     distinct (map fst qubit_mask)
     \<and> list_all (\<lambda>(index, L). 0 \<le> index \<and> index < int n_pauli_products
                    \<and> list_all (\<lambda>q. 0 \<le> q \<and> q < int width) L) qubit_mask"





section \<open>Properties of the circuit container\<close>

lemma definition_eq_iff:
  "definition_eq d e \<longleftrightarrow>
     name d = name e \<and> length_reg d = length_reg e \<and> vartype d = vartype e"
  by (simp add: definition_eq_def)

lemma definition_eq_refl: "definition_eq d d"
  by (simp add: definition_eq_iff)

lemma definition_eq_sym: "definition_eq d e \<longleftrightarrow> definition_eq e d"
  by (auto simp: definition_eq_iff)

lemma definition_eq_trans: "definition_eq d e \<Longrightarrow> definition_eq e f \<Longrightarrow> definition_eq d f"
  by (simp add: definition_eq_iff)

lemma definition_in_iff: "definition_in d ds \<longleftrightarrow> (\<exists>e \<in> set ds. definition_eq e d)"
  by (simp add: definition_in_def list_ex_iff)

lemma definition_in_append:
  "definition_in x (acc @ [d]) \<longleftrightarrow> definition_in x acc \<or> definition_eq d x"
  by (auto simp: definition_in_iff)

lemma add_definitions_first_seen:
  "add_definitions acc ds = acc @ first_seen (filter (\<lambda>d. \<not> definition_in d acc) ds)"
proof (induction ds arbitrary: acc)
  case Nil
  show ?case by simp
next
  case (Cons d ds)
  show ?case
  proof (cases "definition_in d acc")
    case True
    then show ?thesis by (simp add: Cons.IH)
  next
    case False
    have "filter (\<lambda>x. \<not> definition_in x (acc @ [d])) ds
            = filter (\<lambda>e. \<not> definition_eq d e) (filter (\<lambda>x. \<not> definition_in x acc) ds)"
      by (auto simp: definition_in_append intro: filter_cong)
    with False show ?thesis by (simp add: Cons.IH)
  qed
qed

lemma iadd_all_general:
  "NotAnOperation \<notin> set xs \<Longrightarrow>
   iadd_all c xs = Inr (c\<lparr>definitions := add_definitions (definitions c) (appended_definitions xs),
                          operations := operations c @ appended_operations xs\<rparr>)"
proof (induction xs arbitrary: c)
  case Nil
  show ?case by simp
next
  case (Cons x xs)
  then show ?case by (cases x) simp_all
qed

lemma iadd_all_Circuit:
  assumes "NotAnOperation \<notin> set xs"
  shows "iadd_all Circuit xs = Inr \<lparr>definitions = first_seen (appended_definitions xs),
                                   operations = appended_operations xs\<rparr>"
  using iadd_all_general [OF assms, of Circuit]
  by (simp add: Circuit_def add_definitions_first_seen definition_in_def)

lemma getitem_definition:
  assumes "- int (length (definitions c)) \<le> k" "k < int (length (definitions c))"
  shows "\<exists>d. getitem c k = Inr (Definition d)"
  using assms by (auto simp: getitem_def list_getitem_def Let_def)

text \<open>
  Claim C1, as the code has it. A circuit is built from the empty circuit by appending
  definitions and other operations in any interleaving. Then
  \<^item> indexing with an integer \<open>k\<close> returns a \<^verbatim>\<open>Definition\<close> whenever
    \<open>- n \<le> k < n\<close>, where \<open>n\<close> is the number of stored definitions (a negative \<open>k\<close>
    counts from the end of the definitions, as Python list indexing does);
  \<^item> iterating yields the definitions, deduplicated in first-seen order, and after them
    the other operations in the order of appending.
\<close>

theorem circuit_ordering:
  assumes "NotAnOperation \<notin> set xs"
  shows "case iadd_all Circuit xs of
           Inl e \<Rightarrow> False
         | Inr c \<Rightarrow>
             (\<forall>k. - int (length (definitions c)) \<le> k \<and> k < int (length (definitions c))
                  \<longrightarrow> (\<exists>d. getitem c k = Inr (Definition d)))
             \<and> iter c = map Definition (first_seen (appended_definitions xs))
                          @ map Operation (appended_operations xs)"
proof -
  let ?c = "\<lparr>definitions = first_seen (appended_definitions xs),
             operations = appended_operations xs\<rparr>"
  have built: "iadd_all Circuit xs = Inr ?c"
    by (rule iadd_all_Circuit [OF assms])
  have "\<exists>d. getitem ?c k = Inr (Definition d)"
    if "- int (length (definitions ?c)) \<le> k" and "k < int (length (definitions ?c))" for k
    using that by (rule getitem_definition)
  then show ?thesis
    by (simp add: built iter_def)
qed

text \<open>
  The circuit of the repository's tests, with a repeated definition of \<^verbatim>\<open>ro\<close>: index
  \<open>-1\<close> is the last stored definition.
\<close>

theorem circuit_ordering_witness:
  "NotAnOperation \<notin> set [Definition \<lparr>name = ''ro'', vartype = ''bit'', length_reg = 1,
                                        is_input = False, is_output = False\<rparr>,
                            Operation ''Hadamard 0'',
                            Definition \<lparr>name = ''test'', vartype = ''float'', length_reg = 3,
                                        is_input = False, is_output = False\<rparr>,
                            Definition \<lparr>name = ''ro'', vartype = ''bit'', length_reg = 1,
                                        is_input = False, is_output = True\<rparr>,
                            Operation ''MeasureQubit 0 ro[0]'']
   \<and> getitem \<lparr>definitions = [\<lparr>name = ''ro'', vartype = ''bit'', length_reg = 1,
                                  is_input = False, is_output = False\<rparr>,
                                \<lparr>name = ''test'', vartype = ''float'', length_reg = 3,
                                  is_input = False, is_output = False\<rparr>],
                operations = [''Hadamard 0'', ''MeasureQubit 0 ro[0]'']\<rparr> (- 1)
       = Inr (Definition \<lparr>name = ''test'', vartype = ''float'', length_reg = 3,
                           is_input = False, is_output = False\<rparr>)"
proof -
  let ?ro = "\<lparr>name = ''ro'', vartype = ''bit'', length_reg = 1,
               is_input = False, is_output = False\<rparr>"
  let ?test = "\<lparr>name = ''test'', vartype = ''float'', length_reg = 3,
                 is_input = False, is_output = False\<rparr>"
  let ?xs = "[Definition ?ro, Operation ''Hadamard 0'', Definition ?test,
              Definition (?ro\<lparr>is_output := True\<rparr>), Operation ''MeasureQubit 0 ro[0]'']"
  have h: "NotAnOperation \<notin> set ?xs" by simp
  have "\<exists>d. getitem \<lparr>definitions = [?ro, ?test],
                       operations = [''Hadamard 0'', ''MeasureQubit 0 ro[0]'']\<rparr> (- 1)
              = Inr (Definition d)"
    using circuit_ordering [OF h]
    by (simp add: Circuit_def definition_in_def definition_eq_def)
  then show ?thesis
    by (simp add: getitem_def list_getitem_def)
qed

text \<open>
  Claim C1 as stated, for any integer below the number of definitions, fails: with one
  stored definition, \<open>-2 < 1\<close> and \<^verbatim>\<open>circuit[-2]\<close> reads \<^verbatim>\<open>self._definitions[-2]\<close>,
  which raises \<^verbatim>\<open>IndexError\<close>.
\<close>

theorem circuit_getitem_counterexample:
  "iadd_all Circuit [Definition \<lparr>name = ''ro'', vartype = ''bit'', length_reg = 1,
                                  is_input = False, is_output = False\<rparr>,
                     Operation ''Hadamard 0'']
     = Inr \<lparr>definitions = [\<lparr>name = ''ro'', vartype = ''bit'', length_reg = 1,
                                is_input = False, is_output = False\<rparr>],
              operations = [''Hadamard 0'']\<rparr>
   \<and> (- 2 :: int) < int (length [\<lparr>name = ''ro'', vartype = ''bit'', length_reg = 1,
                                     is_input = False, is_output = False\<rparr>])
   \<and> getitem \<lparr>definitions = [\<lparr>name = ''ro'', vartype = ''bit'', length_reg = 1,
                                  is_input = False, is_output = False\<rparr>],
                operations = [''Hadamard 0'']\<rparr> (- 2)
       = Inl IndexError"
  by (simp add: Circuit_def definition_in_def getitem_def list_getitem_def)

lemma definition_eq_key: "definition_eq d e \<longleftrightarrow> definition_key d = definition_key e"
  by (auto simp: definition_eq_iff definition_key_def)

lemma definition_in_key: "definition_in d ds \<longleftrightarrow> definition_key d \<in> definition_key ` set ds"
  unfolding definition_in_iff definition_eq_key image_iff by metis

lemma append_operation_distinct:
  assumes "distinct (map definition_key (definitions c))" "append_operation c x = Inr c'"
  shows "distinct (map definition_key (definitions c'))"
  using assms by (cases x) (auto simp: definition_in_key split: if_splits)

lemma insert_operation_distinct:
  assumes "distinct (map definition_key (definitions c))" "insert_operation c i x = Inr c'"
  shows "distinct (map definition_key (definitions c'))"
  using assms by (cases x) (auto simp: definition_in_key split: if_splits)

lemma iadd_all_distinct:
  assumes "distinct (map definition_key (definitions c))" "iadd_all c xs = Inr c'"
  shows "distinct (map definition_key (definitions c'))"
  using assms
proof (induction xs arbitrary: c)
  case Nil
  then show ?case by simp
next
  case (Cons x xs)
  then show ?case
    by (auto split: sum.splits dest: append_operation_distinct)
qed

text \<open>
  Claim C7, as the code has it. In a circuit whose stored definitions differ pairwise in
  name, length or type (the empty circuit is one), every append, every insert and every
  sequence of appends keeps it so: there is at most one stored definition for each
  triple of name, length and type. Appending or inserting a definition that is equal by
  value to a stored one (same name, length and type; the input and output flags are not
  compared) leaves the circuit unchanged.
\<close>

theorem definitions_deduplicated:
  assumes "distinct (map definition_key (definitions c))"
  shows "(\<forall>c'. append_operation c x = Inr c' \<longrightarrow> distinct (map definition_key (definitions c')))
       \<and> (\<forall>c'. insert_operation c i x = Inr c' \<longrightarrow> distinct (map definition_key (definitions c')))
       \<and> (\<forall>c'. iadd_all c xs = Inr c' \<longrightarrow> distinct (map definition_key (definitions c')))
       \<and> (definition_in d (definitions c) \<longrightarrow>
            append_operation c (Definition d) = Inr c \<and> insert_operation c i (Definition d) = Inr c)"
proof (intro conjI allI impI)
  show "distinct (map definition_key (definitions c'))" if "append_operation c x = Inr c'" for c'
    using assms that by (rule append_operation_distinct)
  show "distinct (map definition_key (definitions c'))" if "insert_operation c i x = Inr c'" for c'
    using assms that by (rule insert_operation_distinct)
  show "distinct (map definition_key (definitions c'))" if "iadd_all c xs = Inr c'" for c'
    using assms that by (rule iadd_all_distinct)
  show "append_operation c (Definition d) = Inr c" if "definition_in d (definitions c)"
    using that by simp
  show "insert_operation c i (Definition d) = Inr c" if "definition_in d (definitions c)"
    using that by simp
qed

text \<open>
  Two definitions of the name \<^verbatim>\<open>ro\<close> with different types are both stored; a third,
  equal by value to the first but for its output flag, is dropped.
\<close>

theorem definitions_deduplicated_witness:
  "distinct (map definition_key (definitions (Circuit :: string circuit)))
   \<and> distinct (map definition_key
        [\<lparr>name = ''ro'', vartype = ''bit'', length_reg = 1, is_input = False, is_output = False\<rparr>,
         \<lparr>name = ''ro'', vartype = ''float'', length_reg = 1, is_input = False, is_output = False\<rparr>])
   \<and> iadd_all (Circuit :: string circuit)
        [Definition \<lparr>name = ''ro'', vartype = ''bit'', length_reg = 1,
                      is_input = False, is_output = False\<rparr>,
         Definition \<lparr>name = ''ro'', vartype = ''float'', length_reg = 1,
                      is_input = False, is_output = False\<rparr>,
         Definition \<lparr>name = ''ro'', vartype = ''bit'', length_reg = 1,
                      is_input = False, is_output = True\<rparr>]
      = Inr \<lparr>definitions =
               [\<lparr>name = ''ro'', vartype = ''bit'', length_reg = 1,
                  is_input = False, is_output = False\<rparr>,
                \<lparr>name = ''ro'', vartype = ''float'', length_reg = 1,
                  is_input = False, is_output = False\<rparr>],
             operations = []\<rparr>"
proof -
  let ?bit = "\<lparr>name = ''ro'', vartype = ''bit'', length_reg = 1,
                is_input = False, is_output = False\<rparr>"
  let ?float = "\<lparr>name = ''ro'', vartype = ''float'', length_reg = 1,
                  is_input = False, is_output = False\<rparr>"
  let ?xs = "[Definition ?bit, Definition ?float, Definition (?bit\<lparr>is_output := True\<rparr>)]
               :: string py_object list"
  let ?c = "\<lparr>definitions = [?bit, ?float], operations = [] :: string list\<rparr>"
  have h: "distinct (map definition_key (definitions (Circuit :: string circuit)))"
    by (simp add: Circuit_def)
  have run: "iadd_all Circuit ?xs = Inr ?c"
    by (simp add: Circuit_def definition_in_def definition_eq_def)
  have "distinct (map definition_key (definitions ?c))"
    using definitions_deduplicated [OF h, of _ _ ?xs] run by blast
  with h run show ?thesis by simp
qed

text \<open>
  Claim C7 as stated, at most one definition for each register name, fails: the bit
  register \<^verbatim>\<open>ro\<close> and the float register \<^verbatim>\<open>ro\<close> are not equal by value, so both are
  stored and the name \<^verbatim>\<open>ro\<close> occurs twice.
\<close>

theorem one_definition_per_name_counterexample:
  "iadd_all (Circuit :: string circuit)
        [Definition \<lparr>name = ''ro'', vartype = ''bit'', length_reg = 1,
                      is_input = False, is_output = False\<rparr>,
         Definition \<lparr>name = ''ro'', vartype = ''float'', length_reg = 1,
                      is_input = False, is_output = False\<rparr>]
      = Inr \<lparr>definitions =
               [\<lparr>name = ''ro'', vartype = ''bit'', length_reg = 1,
                  is_input = False, is_output = False\<rparr>,
                \<lparr>name = ''ro'', vartype = ''float'', length_reg = 1,
                  is_input = False, is_output = False\<rparr>],
             operations = []\<rparr>
   \<and> \<not> distinct (map name
        [\<lparr>name = ''ro'', vartype = ''bit'', length_reg = 1, is_input = False, is_output = False\<rparr>,
         \<lparr>name = ''ro'', vartype = ''float'', length_reg = 1, is_input = False, is_output = False\<rparr>])"
  by (simp add: Circuit_def definition_in_def definition_eq_def)

section \<open>Products of single-qubit gates\<close>

lemma matmul_2x2:
  "matmul [[a, b], [c, d]] [[e, f], [g, h]]
     = [[a * e + b * g, a * f + b * h], [c * e + d * g, c * f + d * h]]"
  by (simp add: matmul_def upt_rec)

lemma exp_i_cis: "exp (\<i> * complex_of_real x) = cis x"
  by (simp add: cis_conv_exp)

lemma Complex_alt: "complex_of_real a + \<i> * complex_of_real b = Complex a b"
  by (simp add: complex_eq_iff)

lemma scalars_matrix_mult:
  "matmul (scalars_matrix a1 a2 b1 b2 p) (scalars_matrix c1 c2 d1 d2 q)
     = scalars_matrix (a1 * c1 - a2 * c2 - (d1 * b1 - d2 * (- b2)))
                      (a1 * c2 + a2 * c1 - (d1 * (- b2) + d2 * b1))
                      (b1 * c1 - b2 * c2 + (d1 * a1 - d2 * (- a2)))
                      (b1 * c2 + b2 * c1 + (d1 * (- a2) + d2 * a1))
                      (p + q)"
  by (simp add: scalars_matrix_def matmul_2x2 Let_def cis_mult [symmetric] complex_eq_iff algebra_simps)

lemma dict_shape0: "map fst d = [] \<Longrightarrow> d = []"
  by simp

lemma dict_shape1:
  assumes "map fst d = [k1]" "\<forall>kv \<in> set d. is_float (snd kv)"
  shows "\<exists>x1. d = [(k1, Float x1)]"
proof -
  from assms(1) obtain v1 where d: "d = [(k1, v1)]"
    by (cases d) auto
  with assms(2) obtain x1 where "v1 = Float x1"
    by (cases v1) auto
  with d show ?thesis by simp
qed

lemma dict_shape2:
  assumes "map fst d = [k1, k2]" "\<forall>kv \<in> set d. is_float (snd kv)"
  shows "\<exists>x1 x2. d = [(k1, Float x1), (k2, Float x2)]"
proof -
  from assms(1) obtain v1 d' where d: "d = (k1, v1) # d'" and d': "map fst d' = [k2]"
    by (cases d) auto
  from assms(2) d have "\<forall>kv \<in> set d'. is_float (snd kv)" by simp
  from dict_shape1 [OF d' this] obtain x2 where "d' = [(k2, Float x2)]" by blast
  moreover from assms(2) d obtain x1 where "v1 = Float x1"
    by (cases v1) auto
  ultimately show ?thesis using d by simp
qed

lemma dict_shape3:
  assumes "map fst d = [k1, k2, k3]" "\<forall>kv \<in> set d. is_float (snd kv)"
  shows "\<exists>x1 x2 x3. d = [(k1, Float x1), (k2, Float x2), (k3, Float x3)]"
proof -
  from assms(1) obtain v1 d' where d: "d = (k1, v1) # d'" and d': "map fst d' = [k2, k3]"
    by (cases d) auto
  from assms(2) d have "\<forall>kv \<in> set d'. is_float (snd kv)" by simp
  from dict_shape2 [OF d' this] obtain x2 x3 where "d' = [(k2, Float x2), (k3, Float x3)]" by blast
  moreover from assms(2) d obtain x1 where "v1 = Float x1"
    by (cases v1) auto
  ultimately show ?thesis using d by simp
qed

lemma dict_shape5:
  assumes "map fst d = [k1, k2, k3, k4, k5]" "\<forall>kv \<in> set d. is_float (snd kv)"
  shows "\<exists>x1 x2 x3 x4 x5.
           d = [(k1, Float x1), (k2, Float x2), (k3, Float x3), (k4, Float x4), (k5, Float x5)]"
proof -
  from assms(1) obtain v1 v2 d' where d: "d = (k1, v1) # (k2, v2) # d'"
    and d': "map fst d' = [k3, k4, k5]"
    by (cases d; cases "tl d") auto
  from assms(2) d have "\<forall>kv \<in> set d'. is_float (snd kv)" by simp
  from dict_shape3 [OF d' this] obtain x3 x4 x5
    where "d' = [(k3, Float x3), (k4, Float x4), (k5, Float x5)]" by blast
  moreover from assms(2) d obtain x1 where "v1 = Float x1"
    by (cases v1) auto
  moreover from assms(2) d obtain x2 where "v2 = Float x2"
    by (cases v2) auto
  ultimately show ?thesis using d by simp
qed

lemmas eval_simps = dict_getitem_def float_argument_def float_argument_default_def and_then_def
  half_angle_def cf_cos_def cf_sin_def cf_mul_def cf_div_def cf_unary_def scalars_matrix_def Let_def
  rotation_matrix_def

lemma sqrt2_sq: "sqrt 2 * sqrt 2 = (2::real)"
  by simp

lemma cis_quarter: "cis (pi / 4) = Complex (sqrt 2 / 2) (sqrt 2 / 2)"
  by (simp add: complex_eq_iff cos_45 sin_45)

lemma cis_eighth_sq: "cis (pi / 8) * cis (pi / 8) = cis (pi / 4)"
  by (simp add: cis_mult)

lemma literal_of_simps [simp]: "literal_of (Inr (Float x)) = x"
  by (simp add: literal_of_def)

lemma literal_result_simps [simp]:
  "literal_result (Inr (Float x)) = True"
  "literal_result (Inr (Str t)) = False"
  "literal_result (Inl e) = False"
  by (simp_all add: literal_result_def)

lemma matrix_SGate: "[[1, 0], [0, \<i>]] = scalars_matrix (1 / sqrt 2) (- 1 / sqrt 2) 0 0 (pi / 4)"
  by (simp add: scalars_matrix_def Let_def cis_quarter complex_eq_iff)

lemma matrix_Hadamard:
  "[[1 / complex_of_real (sqrt 2) * 1, 1 / complex_of_real (sqrt 2) * 1],
    [1 / complex_of_real (sqrt 2) * 1, 1 / complex_of_real (sqrt 2) * (- 1)]]
     = scalars_matrix 0 (- 1 / sqrt 2) 0 (- 1 / sqrt 2) (pi / 2)"
  by (simp add: scalars_matrix_def Let_def complex_eq_iff)

lemma matrix_TGate:
  "[[1, 0], [0, exp (\<i> * complex_of_real pi / 4)]]
     = scalars_matrix (cos (pi / 8)) (- sin (pi / 8)) 0 0 (pi / 8)"
proof -
  have a: "Complex (cos (pi / 8)) (- sin (pi / 8)) = cnj (cis (pi / 8))"
    by (simp add: complex_eq_iff)
  have b: "cis (pi / 8) * cnj (cis (pi / 8)) = 1"
    by (simp add: complex_eq_iff power2_eq_square [symmetric])
  have c: "exp (\<i> * complex_of_real pi / 4) = cis (pi / 4)"
    by (simp add: cis_conv_exp)
  have z: "Complex 0 0 = 0"
    by (simp add: complex_eq_iff)
  show ?thesis
    by (simp add: scalars_matrix_def Let_def a b c z cis_eighth_sq del: cis_cnj)
qed

lemma matrix_SqrtPauliX:
  "[[complex_of_real (cos (pi / 2 / 2)), - \<i> * complex_of_real (sin (pi / 2 / 2))],
    [- \<i> * complex_of_real (sin (pi / 2 / 2)), complex_of_real (cos (pi / 2 / 2))]]
     = scalars_matrix (cos (pi / 4)) 0 0 (- sin (pi / 4)) 0"
  by (simp add: scalars_matrix_def Let_def complex_eq_iff)

lemma matrix_InvSqrtPauliX:
  "[[complex_of_real (cos (- pi / 2 / 2)), - \<i> * complex_of_real (sin (- pi / 2 / 2))],
    [- \<i> * complex_of_real (sin (- pi / 2 / 2)), complex_of_real (cos (- pi / 2 / 2))]]
     = scalars_matrix (cos (pi / 4)) 0 0 (sin (pi / 4)) 0"
  by (simp add: scalars_matrix_def Let_def complex_eq_iff)

lemma class_consistent:
  assumes "literal_result (alpha_r c d)" "literal_result (alpha_i c d)"
    "literal_result (beta_r c d)" "literal_result (beta_i c d)"
    "literal_result (global_phase c d)" "unitary_matrix_from_parameters c d = Inr M"
  shows "M = scalars_matrix (literal_of (alpha_r c d)) (literal_of (alpha_i c d))
               (literal_of (beta_r c d)) (literal_of (beta_i c d)) (literal_of (global_phase c d))"
proof (cases c)
  case SingleQubitGate
  with assms show ?thesis
    by (auto simp: dict_getitem_def float_argument_def float_argument_default_def and_then_def
          scalars_matrix_def Let_def exp_i_cis Complex_alt
        split: option.splits calculator_float.splits)
next
  case Hadamard
  with assms(6) matrix_Hadamard show ?thesis by simp
next
  case PauliX
  with assms(6) show ?thesis by (auto simp: scalars_matrix_def Let_def complex_eq_iff)
next
  case PauliY
  with assms(6) show ?thesis by (auto simp: scalars_matrix_def Let_def complex_eq_iff)
next
  case PauliZ
  with assms(6) show ?thesis by (auto simp: scalars_matrix_def Let_def complex_eq_iff)
next
  case SGate
  with assms(6) matrix_SGate show ?thesis by simp
next
  case TGate
  with assms(6) matrix_TGate show ?thesis by simp
next
  case SqrtPauliX
  with assms(6) show ?thesis using matrix_SqrtPauliX by (simp add: Let_def)
next
  case InvSqrtPauliX
  with assms(6) show ?thesis using matrix_InvSqrtPauliX by (simp add: Let_def)
next
  case RotateX
  with assms show ?thesis
    by (auto simp: eval_simps complex_eq_iff split: option.splits calculator_float.splits)
next
  case RotateY
  with assms show ?thesis
    by (auto simp: eval_simps complex_eq_iff split: option.splits calculator_float.splits)
next
  case RotateZ
  with assms show ?thesis
    by (auto simp: eval_simps complex_eq_iff split: option.splits calculator_float.splits)
next
  case RotateAroundSphericalAxis
  with assms show ?thesis
    by (auto simp: eval_simps complex_eq_iff split: option.splits calculator_float.splits)
next
  case W
  with assms show ?thesis
    by (auto simp: eval_simps complex_eq_iff split: option.splits calculator_float.splits)
qed

lemma all_literal_iff: "all_literal d \<longleftrightarrow> (\<forall>kv \<in> set d. is_float (snd kv))"
  by (simp add: all_literal_def list_all_iff)

lemma class_defined:
  assumes "map fst d = map fst (ordered_parameter_dict_default (Single c))" "all_literal d"
  shows "literal_result (alpha_r c d) \<and> literal_result (alpha_i c d)
       \<and> literal_result (beta_r c d) \<and> literal_result (beta_i c d)
       \<and> literal_result (global_phase c d)
       \<and> (\<exists>M. unitary_matrix_from_parameters c d = Inr M)"
proof -
  note lit = assms(2) [unfolded all_literal_iff]
  show ?thesis
  proof (cases c)
    case SingleQubitGate
    with assms(1) have "map fst d = [''alpha_r'', ''alpha_i'', ''beta_r'', ''beta_i'', ''global_phase'']"
      by simp
    from dict_shape5 [OF this lit] SingleQubitGate show ?thesis
      by (auto simp: eval_simps)
  next
    case RotateX
    with assms(1) have "map fst d = [''theta'']" by simp
    from dict_shape1 [OF this lit] RotateX show ?thesis
      by (auto simp: eval_simps)
  next
    case RotateY
    with assms(1) have "map fst d = [''theta'']" by simp
    from dict_shape1 [OF this lit] RotateY show ?thesis
      by (auto simp: eval_simps)
  next
    case RotateZ
    with assms(1) have "map fst d = [''theta'']" by simp
    from dict_shape1 [OF this lit] RotateZ show ?thesis
      by (auto simp: eval_simps)
  next
    case RotateAroundSphericalAxis
    with assms(1) have "map fst d = [''theta'', ''spherical_theta'', ''spherical_phi'']" by simp
    from dict_shape3 [OF this lit] RotateAroundSphericalAxis show ?thesis
      by (auto simp: eval_simps)
  next
    case W
    with assms(1) have "map fst d = [''theta'', ''spherical_phi'']" by simp
    from dict_shape2 [OF this lit] W show ?thesis
      by (auto simp: eval_simps)
  qed (simp_all add: Let_def)
qed

lemma literal_resultE:
  assumes "literal_result r"
  obtains x where "r = Inr (Float x)"
  using assms by (auto simp: literal_result_def split: sum.splits calculator_float.splits)

lemma new_single_qubit_gate_simps:
  "ordered_parameter_dict (new_single_qubit_gate q a b c d e)
     = [(''alpha_r'', a), (''alpha_i'', b), (''beta_r'', c), (''beta_i'', d), (''global_phase'', e)]"
  "ordered_qubits_dict (new_single_qubit_gate q a b c d e) = [(''qubit'', q)]"
  "gate_class_of (new_single_qubit_gate q a b c d e) = Single SingleQubitGate"
  "involved_qubits (new_single_qubit_gate q a b c d e) = {q}"
  "parametrized (new_single_qubit_gate q a b c d e)
     \<longleftrightarrow> \<not> (is_float a \<and> is_float b \<and> is_float c \<and> is_float d \<and> is_float e)"
  by (auto simp: new_single_qubit_gate_def gate_init_def dict_get_def Let_def)

lemma gate_scalars:
  assumes "gate_class_of g = Single c" "well_formed_gate g" "literal_gate g"
  obtains ar ai br bi ph s q where
    "unitary_matrix (single_qubit_matrix_method c) g = Inr (scalars_matrix ar ai br bi ph)"
    "single_qubit_gate c g = Inr s"
    "ordered_parameter_dict s
       = [(''alpha_r'', Float ar), (''alpha_i'', Float ai), (''beta_r'', Float br),
          (''beta_i'', Float bi), (''global_phase'', Float ph)]"
    "dict_getitem (ordered_qubits_dict g) ''qubit'' = Inr q"
proof -
  let ?d = "ordered_parameter_dict g"
  have keys: "map fst ?d = map fst (ordered_parameter_dict_default (Single c))"
    using assms(1,2) by (simp add: well_formed_gate_def)
  have lit: "all_literal ?d" and flag: "\<not> parametrized g"
    using assms(3) by (simp_all add: literal_gate_def)
  from class_defined [OF keys lit] obtain M where
    l: "literal_result (alpha_r c ?d)" "literal_result (alpha_i c ?d)"
       "literal_result (beta_r c ?d)" "literal_result (beta_i c ?d)"
       "literal_result (global_phase c ?d)"
    and M: "unitary_matrix_from_parameters c ?d = Inr M"
    by blast
  from l obtain ar ai br bi ph where
    sc: "alpha_r c ?d = Inr (Float ar)" "alpha_i c ?d = Inr (Float ai)"
        "beta_r c ?d = Inr (Float br)" "beta_i c ?d = Inr (Float bi)"
        "global_phase c ?d = Inr (Float ph)"
    by (elim literal_resultE) blast
  from class_consistent [OF l M] sc have Meq: "M = scalars_matrix ar ai br bi ph"
    by simp
  have um: "unitary_matrix (single_qubit_matrix_method c) g = Inr (scalars_matrix ar ai br bi ph)"
    using flag M Meq assms(1)
    by (simp add: unitary_matrix_def is_parametrized_def single_qubit_matrix_method_def)
  have "map fst (ordered_qubits_dict g) = [''qubit'']"
    using assms(1,2) by (simp add: well_formed_gate_def)
  then obtain q where qd: "ordered_qubits_dict g = [(''qubit'', q)]"
    by (cases "ordered_qubits_dict g") auto
  then have q: "dict_getitem (ordered_qubits_dict g) ''qubit'' = Inr q"
    by (simp add: dict_getitem_def)
  show thesis
  proof (cases "c = SingleQubitGate")
    case True
    with keys have "map fst ?d = [''alpha_r'', ''alpha_i'', ''beta_r'', ''beta_i'', ''global_phase'']"
      by simp
    from dict_shape5 [OF this lit [unfolded all_literal_iff]] sc True
    have "?d = [(''alpha_r'', Float ar), (''alpha_i'', Float ai), (''beta_r'', Float br),
                (''beta_i'', Float bi), (''global_phase'', Float ph)]"
      by (auto simp: dict_getitem_def)
    moreover have "single_qubit_gate c g = Inr g"
      using True by (simp add: single_qubit_gate_def)
    ultimately show ?thesis using that um q by blast
  next
    case False
    then have "single_qubit_gate c g
                 = Inr (new_single_qubit_gate q (Float ar) (Float ai) (Float br) (Float bi) (Float ph))"
      using sc q by (simp add: single_qubit_gate_def and_then_def)
    then show ?thesis using that um q new_single_qubit_gate_simps(1) by blast
  qed
qed

lemma product_scalars_literal:
  assumes "ordered_parameter_dict s
       = [(''alpha_r'', Float a1), (''alpha_i'', Float a2), (''beta_r'', Float b1),
          (''beta_i'', Float b2), (''global_phase'', Float p)]"
    "ordered_parameter_dict other
       = [(''alpha_r'', Float c1), (''alpha_i'', Float c2), (''beta_r'', Float d1),
          (''beta_i'', Float d2), (''global_phase'', Float q)]"
  shows "product_scalars s other
     = Inr (Float (a1 * c1 - a2 * c2 - (d1 * b1 - d2 * (- b2))),
            Float (a1 * c2 + a2 * c1 - (d1 * (- b2) + d2 * b1)),
            Float (b1 * c1 - b2 * c2 + (d1 * a1 - d2 * (- a2))),
            Float (b1 * c2 + b2 * c1 + (d1 * (- a2) + d2 * a1)),
            Float (p + q))"
  by (simp add: product_scalars_def assms dict_getitem_def and_then_def Let_def from_pair_def
        cc_mul_def cc_sub_def cc_add_def cc_conj_def cf_mul_def cf_sub_def cf_add_def cf_neg_def
        cf_unary_def)

text \<open>
  Claim C3. Let \<open>A\<close> and \<open>B\<close> be single-qubit gates of any two of the fourteen classes,
  each with the dictionaries of its class, no symbolic parameter and the flag unset, acting
  on the same qubit. Then \<open>A * B\<close> is a gate, the three matrices exist, and the matrix of
  \<open>A * B\<close> is the matrix product of the matrix of \<open>A\<close> and the matrix of \<open>B\<close>. Floats are
  real numbers here, so the two sides are equal and not only close.
\<close>

theorem product_unitary_matrix:
  assumes "gate_class_of A = Single ca" "gate_class_of B = Single cb"
    and "well_formed_gate A" "well_formed_gate B"
    and "literal_gate A" "literal_gate B"
    and "involved_qubits A = involved_qubits B"
  shows "\<exists>C MA MB.
           mul A B = Inr C
         \<and> unitary_matrix (single_qubit_matrix_method ca) A = Inr MA
         \<and> unitary_matrix (single_qubit_matrix_method cb) B = Inr MB
         \<and> unitary_matrix (single_qubit_matrix_method SingleQubitGate) C = Inr (matmul MA MB)"
proof -
  from gate_scalars [OF assms(1,3,5)] obtain a1 a2 b1 b2 p s qa where
    A: "unitary_matrix (single_qubit_matrix_method ca) A = Inr (scalars_matrix a1 a2 b1 b2 p)"
       "single_qubit_gate ca A = Inr s"
       "ordered_parameter_dict s
          = [(''alpha_r'', Float a1), (''alpha_i'', Float a2), (''beta_r'', Float b1),
             (''beta_i'', Float b2), (''global_phase'', Float p)]"
       "dict_getitem (ordered_qubits_dict A) ''qubit'' = Inr qa"
    by blast
  from gate_scalars [OF assms(2,4,6)] obtain c1 c2 d1 d2 q other qb where
    B: "unitary_matrix (single_qubit_matrix_method cb) B = Inr (scalars_matrix c1 c2 d1 d2 q)"
       "single_qubit_gate cb B = Inr other"
       "ordered_parameter_dict other
          = [(''alpha_r'', Float c1), (''alpha_i'', Float c2), (''beta_r'', Float d1),
             (''beta_i'', Float d2), (''global_phase'', Float q)]"
       "dict_getitem (ordered_qubits_dict B) ''qubit'' = Inr qb"
    by blast
  let ?C = "new_single_qubit_gate qa
              (Float (a1 * c1 - a2 * c2 - (d1 * b1 - d2 * (- b2))))
              (Float (a1 * c2 + a2 * c1 - (d1 * (- b2) + d2 * b1)))
              (Float (b1 * c1 - b2 * c2 + (d1 * a1 - d2 * (- a2))))
              (Float (b1 * c2 + b2 * c1 + (d1 * (- a2) + d2 * a1)))
              (Float (p + q))"
  have m: "mul A B = Inr ?C"
    using assms(1,2,7) A(2,4) B(2) product_scalars_literal [OF A(3) B(3)]
    by (simp add: mul_def and_then_def)
  have "unitary_matrix (single_qubit_matrix_method SingleQubitGate) ?C
          = Inr (scalars_matrix (a1 * c1 - a2 * c2 - (d1 * b1 - d2 * (- b2)))
                      (a1 * c2 + a2 * c1 - (d1 * (- b2) + d2 * b1))
                      (b1 * c1 - b2 * c2 + (d1 * a1 - d2 * (- a2)))
                      (b1 * c2 + b2 * c1 + (d1 * (- a2) + d2 * a1))
                      (p + q))"
    by (simp add: unitary_matrix_def is_parametrized_def single_qubit_matrix_method_def
          new_single_qubit_gate_simps float_argument_def float_argument_default_def and_then_def
          scalars_matrix_def Let_def exp_i_cis Complex_alt)
  then have "unitary_matrix (single_qubit_matrix_method SingleQubitGate) ?C
          = Inr (matmul (scalars_matrix a1 a2 b1 b2 p) (scalars_matrix c1 c2 d1 d2 q))"
    by (simp only: scalars_matrix_mult)
  with m A(1) B(1) show ?thesis by blast
qed

text \<open>The product of a Pauli X gate and a rotation about Z by \<open>\<pi>/2\<close>, both on qubit 3.\<close>

theorem product_unitary_matrix_witness:
  "gate_class_of (gate_init (Single PauliX) [] [(''qubit'', 3)]) = Single PauliX
   \<and> gate_class_of (gate_init (Single RotateZ) [(''theta'', Float (pi / 2))] [(''qubit'', 3)])
       = Single RotateZ
   \<and> well_formed_gate (gate_init (Single PauliX) [] [(''qubit'', 3)])
   \<and> well_formed_gate (gate_init (Single RotateZ) [(''theta'', Float (pi / 2))] [(''qubit'', 3)])
   \<and> literal_gate (gate_init (Single PauliX) [] [(''qubit'', 3)])
   \<and> literal_gate (gate_init (Single RotateZ) [(''theta'', Float (pi / 2))] [(''qubit'', 3)])
   \<and> (\<exists>C MA MB.
         mul (gate_init (Single PauliX) [] [(''qubit'', 3)])
             (gate_init (Single RotateZ) [(''theta'', Float (pi / 2))] [(''qubit'', 3)]) = Inr C
       \<and> unitary_matrix (single_qubit_matrix_method PauliX)
            (gate_init (Single PauliX) [] [(''qubit'', 3)]) = Inr MA
       \<and> unitary_matrix (single_qubit_matrix_method RotateZ)
            (gate_init (Single RotateZ) [(''theta'', Float (pi / 2))] [(''qubit'', 3)]) = Inr MB
       \<and> unitary_matrix (single_qubit_matrix_method SingleQubitGate) C = Inr (matmul MA MB))"
proof -
  let ?A = "gate_init (Single PauliX) [] [(''qubit'', 3)]"
  let ?B = "gate_init (Single RotateZ) [(''theta'', Float (pi / 2))] [(''qubit'', 3)]"
  have h: "gate_class_of ?A = Single PauliX" "gate_class_of ?B = Single RotateZ"
    "well_formed_gate ?A" "well_formed_gate ?B" "literal_gate ?A" "literal_gate ?B"
    "involved_qubits ?A = involved_qubits ?B"
    by (simp_all add: gate_init_def well_formed_gate_def literal_gate_def all_literal_def
          dict_get_def)
  from product_unitary_matrix [OF h] h show ?thesis by blast
qed

section \<open>Substitution of parameters\<close>

lemma substitute_parameters_unset:
  "\<not> parametrized g \<Longrightarrow> substitute_parameters ps b g = (g, None)"
  by (simp add: substitute_parameters_def is_parametrized_def)

lemma substitute_parameters_None:
  "parametrized g \<Longrightarrow>
   substitute_dict ps (substitution_string b) (ordered_parameter_dict g) = (items, None) \<Longrightarrow>
   substitute_parameters ps b g = (g\<lparr>ordered_parameter_dict := items, parametrized := False\<rparr>, None)"
  by (simp add: substitute_parameters_def is_parametrized_def)

lemma substitute_parameters_Some:
  "parametrized g \<Longrightarrow>
   substitute_dict ps (substitution_string b) (ordered_parameter_dict g) = (items, Some e) \<Longrightarrow>
   substitute_parameters ps b g = (g\<lparr>ordered_parameter_dict := items\<rparr>, Some e)"
  by (simp add: substitute_parameters_def is_parametrized_def)

lemma substitute_parameters_cases:
  assumes "substitute_parameters ps b g = (g', r)"
  obtains (untouched) "\<not> parametrized g" "g' = g" "r = None"
  | (resolved) items where "parametrized g"
      "substitute_dict ps (substitution_string b) (ordered_parameter_dict g) = (items, None)"
      "g' = g\<lparr>ordered_parameter_dict := items, parametrized := False\<rparr>" "r = None"
  | (raised) items e where "parametrized g"
      "substitute_dict ps (substitution_string b) (ordered_parameter_dict g) = (items, Some e)"
      "g' = g\<lparr>ordered_parameter_dict := items\<rparr>" "r = Some e"
proof (cases "parametrized g")
  case False
  from substitute_parameters_unset [OF False, of ps b] assms
  have "g' = g" "r = None" by simp_all
  with False show ?thesis by (rule untouched)
next
  case True
  obtain items q where sd:
    "substitute_dict ps (substitution_string b) (ordered_parameter_dict g) = (items, q)"
    by (cases "substitute_dict ps (substitution_string b) (ordered_parameter_dict g)")
  show ?thesis
  proof (cases q)
    case None
    from substitute_parameters_None [OF True sd [unfolded None]] assms
    have "g' = g\<lparr>ordered_parameter_dict := items, parametrized := False\<rparr>" "r = None"
      by simp_all
    with True sd [unfolded None] show ?thesis by (rule resolved)
  next
    case (Some e)
    from substitute_parameters_Some [OF True sd [unfolded Some]] assms
    have "g' = g\<lparr>ordered_parameter_dict := items\<rparr>" "r = Some e"
      by simp_all
    with True sd [unfolded Some] show ?thesis by (rule raised)
  qed
qed

lemma all_literal_Nil: "all_literal []"
  by (simp add: all_literal_def)

lemma all_literal_Cons: "all_literal ((k, v) # d) \<longleftrightarrow> is_float v \<and> all_literal d"
  by (simp add: all_literal_def)

lemma substitute_dict_literal:
  "all_literal d \<Longrightarrow> substitute_dict ps s d = (d, None)"
  by (induction d) (auto simp: all_literal_def)

lemma substitute_dict_props:
  "substitute_dict ps s d = (d', r) \<Longrightarrow>
     (r = None \<longrightarrow> all_literal d') \<and> (r \<noteq> None \<longrightarrow> \<not> all_literal d')
     \<and> (\<forall>kv \<in> set d'. is_float (snd kv) \<or> kv \<in> set d)
     \<and> substitute_dict ps s d' = (d', r)"
proof (induction d arbitrary: d' r)
  case Nil
  then show ?case by (simp add: all_literal_Nil)
next
  case (Cons x d)
  obtain k v where x: "x = (k, v)" by (cases x)
  obtain items q where rec: "substitute_dict ps s d = (items, q)"
    by (cases "substitute_dict ps s d")
  note IH = Cons.IH [OF rec]
  show ?case
  proof (cases "is_float v")
    case True
    with Cons.prems x rec have d': "d' = (k, v) # items" and r: "r = q" by simp_all
    from IH True show ?thesis
      unfolding d' r by (simp add: all_literal_Cons) blast
  next
    case False
    show ?thesis
    proof (cases "ps (s @ [Chars ''; ''] @ value_text v)")
      case (Inl e)
      with Cons.prems x False have d': "d' = (k, v) # d" and r: "r = Some e" by simp_all
      from False Inl show ?thesis
        unfolding d' r x by (simp add: all_literal_Cons)
    next
      case (Inr y)
      with Cons.prems x rec False have d': "d' = (k, Float y) # items" and r: "r = q"
        by simp_all
      from IH show ?thesis
        unfolding d' r by (simp add: all_literal_Cons) blast
    qed
  qed
qed

text \<open>
  Claim C2. \<^verbatim>\<open>substitute_parameters\<close> does not compute the flag from the parameters: it
  acts only when the flag is set, and unsets it at the end. Let the flag of a gate be set,
  or let no parameter of it be symbolic, when the method is called; these are the gates
  whose flag tells whether a parameter is symbolic, and the gates with a set flag and no
  symbolic parameter. Afterwards, whether the call returned or the parser raised, every
  parameter is a float or is the symbolic parameter that it was before, and the flag is set
  exactly when a parameter is still symbolic. When the call returned, no parameter is
  symbolic and the flag is unset; when the parser raised, the flag is still set.
\<close>

theorem substitute_parameters_flag:
  assumes "parametrized g \<or> all_literal (ordered_parameter_dict g)"
    and "substitute_parameters parse_string substitution_dict g = (g', r)"
  shows "(\<forall>kv \<in> set (ordered_parameter_dict g').
            is_float (snd kv) \<or> kv \<in> set (ordered_parameter_dict g))
       \<and> (parametrized g' \<longleftrightarrow> \<not> all_literal (ordered_parameter_dict g'))
       \<and> (r = None \<longrightarrow> all_literal (ordered_parameter_dict g') \<and> \<not> parametrized g')
       \<and> (r \<noteq> None \<longrightarrow> parametrized g')"
  using assms(2)
proof (cases rule: substitute_parameters_cases)
  case untouched
  with assms(1) show ?thesis by simp
next
  case (resolved items)
  from substitute_dict_props [OF resolved(2)] resolved(3,4) show ?thesis by simp
next
  case (raised items e)
  from substitute_dict_props [OF raised(2)] raised(1,3,4) show ?thesis by simp
qed

text \<open>
  A rotation about X by the symbol \<open>x\<close>, and the binding of \<open>x\<close> to \<open>1\<close>, with a parser
  that gives the value \<open>1\<close>.
\<close>

theorem substitute_parameters_flag_witness:
  "parametrized (gate_init (Single RotateX) [(''theta'', Str [Chars ''x''])] [(''qubit'', 0)])
   \<and> substitute_parameters (parse_constant 1) [(''x'', Float 1)]
         (gate_init (Single RotateX) [(''theta'', Str [Chars ''x''])] [(''qubit'', 0)])
       = (gate_init (Single RotateX) [(''theta'', Float 1)] [(''qubit'', 0)], None)
   \<and> all_literal (ordered_parameter_dict
         (gate_init (Single RotateX) [(''theta'', Float 1)] [(''qubit'', 0)]))
   \<and> \<not> parametrized (gate_init (Single RotateX) [(''theta'', Float 1)] [(''qubit'', 0)])"
proof -
  let ?g = "gate_init (Single RotateX) [(''theta'', Str [Chars ''x''])] [(''qubit'', 0)]"
  let ?g' = "gate_init (Single RotateX) [(''theta'', Float 1)] [(''qubit'', 0)]"
  have h1: "parametrized ?g \<or> all_literal (ordered_parameter_dict ?g)"
    and h1': "parametrized ?g"
    by (simp_all add: gate_init_def dict_get_def)
  have h2: "substitute_parameters (parse_constant 1) [(''x'', Float 1)] ?g = (?g', None)"
    by (simp add: substitute_parameters_def is_parametrized_def gate_init_def dict_get_def
          parse_constant_def)
  from substitute_parameters_flag [OF h1 h2] h1' h2 show ?thesis by simp
qed

text \<open>
  Claim C2 fails on a gate that the code itself produces. \<^verbatim>\<open>SingleQubitGate.__imul__\<close>
  writes the five parameters of its left operand and leaves the flag as it is, where
  \<^verbatim>\<open>__mul__\<close> builds the same product with \<^verbatim>\<open>__init__\<close> and so with the flag set. After
  \<^verbatim>\<open>g = SingleQubitGate(qubit=0)\<close> and \<^verbatim>\<open>g *= RotateX(qubit=0, theta='x')\<close> the gate
  \<open>g\<close> has symbolic parameters and an unset flag; \<^verbatim>\<open>g.substitute_parameters({'x': 1})\<close>
  then returns without a change, so a parameter is still symbolic and the flag is unset.
\<close>

theorem substitute_parameters_flag_counterexample:
  "\<not> isl (imul (gate_init (Single SingleQubitGate) [] [(''qubit'', 0)])
               (gate_init (Single RotateX) [(''theta'', Str [Chars ''x''])] [(''qubit'', 0)]))
   \<and> \<not> all_literal (ordered_parameter_dict (projr
         (imul (gate_init (Single SingleQubitGate) [] [(''qubit'', 0)])
               (gate_init (Single RotateX) [(''theta'', Str [Chars ''x''])] [(''qubit'', 0)]))))
   \<and> \<not> parametrized (projr
         (imul (gate_init (Single SingleQubitGate) [] [(''qubit'', 0)])
               (gate_init (Single RotateX) [(''theta'', Str [Chars ''x''])] [(''qubit'', 0)])))
   \<and> substitute_parameters (parse_constant 1) [(''x'', Float 1)]
         (projr (imul (gate_init (Single SingleQubitGate) [] [(''qubit'', 0)])
               (gate_init (Single RotateX) [(''theta'', Str [Chars ''x''])] [(''qubit'', 0)])))
       = (projr (imul (gate_init (Single SingleQubitGate) [] [(''qubit'', 0)])
               (gate_init (Single RotateX) [(''theta'', Str [Chars ''x''])] [(''qubit'', 0)])),
          None)"
  by (simp add: imul_def gate_init_def dict_get_def single_qubit_gate_def and_then_def
        half_angle_def dict_getitem_def new_single_qubit_gate_def product_scalars_def Let_def from_pair_def
        cc_mul_def cc_sub_def cc_add_def cc_conj_def cf_mul_def cf_sub_def cf_add_def cf_neg_def
        cf_div_def cf_cos_def cf_sin_def cf_unary_def all_literal_def
        substitute_parameters_def is_parametrized_def)

lemma substitute_parameters_idem:
  assumes "substitute_parameters ps b g = (g', r)"
  shows "substitute_parameters ps b g' = (g', r)"
  using assms
proof (cases rule: substitute_parameters_cases)
  case untouched
  then show ?thesis by (simp add: substitute_parameters_unset)
next
  case (resolved items)
  then show ?thesis by (simp add: substitute_parameters_unset)
next
  case (raised items e)
  from substitute_dict_props [OF raised(2)]
  have "substitute_dict ps (substitution_string b) items = (items, Some e)" by simp
  with raised(1) have "substitute_parameters ps b (g\<lparr>ordered_parameter_dict := items\<rparr>)
      = (g\<lparr>ordered_parameter_dict := items\<rparr>, Some e)"
    by (simp add: substitute_parameters_Some)
  with raised(3,4) show ?thesis by simp
qed

lemma substitute_attribute_idem:
  assumes "substitute_attribute ps s v = Inr v'"
  shows "substitute_attribute ps s v' = Inr v'"
proof (cases "is_float v")
  case True
  with assms show ?thesis by (simp add: substitute_attribute_def)
next
  case False
  with assms show ?thesis
    by (cases "ps (s @ [Chars ''; ''] @ value_text v)")
       (auto simp add: substitute_attribute_def)
qed

lemma operation_substitute_idem:
  assumes "operation_substitute_parameters ps b x = (x', r)"
  shows "operation_substitute_parameters ps b x' = (x', r)"
proof (cases x)
  case (Gate g)
  obtain g' q where g: "substitute_parameters ps b g = (g', q)"
    by (cases "substitute_parameters ps b g")
  from substitute_parameters_idem [OF g] g Gate assms show ?thesis by auto
next
  case (PragmaGeneralNoise qb gt rt ops flag)
  show ?thesis
  proof (cases flag)
    case False
    with PragmaGeneralNoise assms show ?thesis by auto
  next
    case True
    show ?thesis
    proof (cases "substitute_attribute ps (substitution_string b) gt")
      case (Inl e)
      with PragmaGeneralNoise True assms show ?thesis by auto
    next
      case gt': (Inr gt')
      note gt'' = substitute_attribute_idem [OF gt']
      show ?thesis
      proof (cases "substitute_attribute ps (substitution_string b) rt")
        case (Inl e)
        with PragmaGeneralNoise True gt' gt'' assms show ?thesis by auto
      next
        case (Inr rt')
        with PragmaGeneralNoise True gt' assms show ?thesis by auto
      qed
    qed
  qed
next
  case (PragmaRepeatGate co flag)
  with assms show ?thesis
    by (cases flag; cases "parse_attribute ps (substitution_string b) co") auto
next
  case (PragmaBoostNoise co flag)
  with assms show ?thesis
    by (cases flag; cases "parse_attribute ps (substitution_string b) co") auto
next
  case (PragmaOverrotation gn t opar qs par var mean flag)
  show ?thesis
  proof (cases flag)
    case False
    with PragmaOverrotation assms show ?thesis by auto
  next
    case True
    show ?thesis
    proof (cases "substitute_attribute ps (substitution_string b) var")
      case (Inl e)
      with PragmaOverrotation True assms show ?thesis by auto
    next
      case var': (Inr var')
      note var'' = substitute_attribute_idem [OF var']
      show ?thesis
      proof (cases "substitute_attribute ps (substitution_string b) mean")
        case (Inl e)
        with PragmaOverrotation True var' var'' assms show ?thesis by auto
      next
        case (Inr mean')
        with PragmaOverrotation True var' assms show ?thesis by auto
      qed
    qed
  qed
next
  case (PragmaGlobalPhase ph flag)
  with assms show ?thesis
    by (cases flag; cases "substitute_attribute ps (substitution_string b) ph") auto
next
  case (OtherOperation t)
  with assms show ?thesis by auto
qed

lemma operation_substitute_literal:
  assumes "\<not> operation_parametrized x"
  shows "operation_substitute_parameters ps b x = (x, None)"
  using assms by (cases x) (simp_all add: substitute_parameters_unset)

lemma substitute_operations_idem:
  "substitute_operations ps b xs = (xs', r) \<Longrightarrow> substitute_operations ps b xs' = (xs', r)"
proof (induction xs arbitrary: xs' r)
  case Nil
  then show ?case by simp
next
  case (Cons x xs)
  obtain y q where x: "operation_substitute_parameters ps b x = (y, q)"
    by (cases "operation_substitute_parameters ps b x")
  note y = operation_substitute_idem [OF x]
  show ?case
  proof (cases q)
    case (Some e)
    with x y Cons.prems show ?thesis by auto
  next
    case None
    obtain ys q' where xs: "substitute_operations ps b xs = (ys, q')"
      by (cases "substitute_operations ps b xs")
    from Cons.IH [OF xs] x y None xs Cons.prems show ?thesis by auto
  qed
qed

lemma substitute_operations_literal:
  "list_all (\<lambda>x. \<not> operation_parametrized x) xs \<Longrightarrow> substitute_operations ps b xs = (xs, None)"
  by (induction xs) (simp_all add: operation_substitute_literal)

lemma clear_unset_flag: "\<not> parametrized g \<Longrightarrow> g\<lparr>parametrized := False\<rparr> = g"
  by (cases g) simp

lemma substitute_parameters_all_literal:
  assumes "all_literal (ordered_parameter_dict g)"
  shows "substitute_parameters ps b g = (g\<lparr>parametrized := False\<rparr>, None)"
proof (cases "parametrized g")
  case True
  from substitute_parameters_None [OF True substitute_dict_literal [OF assms]]
  show ?thesis by simp
next
  case False
  then show ?thesis by (simp add: substitute_parameters_unset clear_unset_flag)
qed

lemma substitute_attribute_float:
  "is_float v \<Longrightarrow> substitute_attribute ps s v = Inr v"
  by (simp add: substitute_attribute_def)

lemma operation_substitute_fields_literal:
  assumes "list_all is_float (numeric_fields y)" "\<not> parses_coefficient y"
  shows "operation_substitute_parameters ps b y = (clear_flag y, None)"
proof (cases y)
  case (Gate g)
  with assms(1) have "all_literal (ordered_parameter_dict g)"
    by (simp add: all_literal_def list_all_iff)
  from substitute_parameters_all_literal [OF this] Gate show ?thesis by simp
next
  case (PragmaGeneralNoise qb gt rt ops flag)
  with assms(1) show ?thesis by (cases flag) (simp_all add: substitute_attribute_float)
next
  case (PragmaRepeatGate co flag)
  with assms(2) show ?thesis by simp
next
  case (PragmaBoostNoise co flag)
  with assms(2) show ?thesis by simp
next
  case (PragmaOverrotation gn t opar qs par var mean flag)
  with assms(1) show ?thesis by (cases flag) (simp_all add: substitute_attribute_float)
next
  case (PragmaGlobalPhase ph flag)
  with assms(1) show ?thesis by (cases flag) (simp_all add: substitute_attribute_float)
next
  case (OtherOperation t)
  then show ?thesis by simp
qed

text \<open>
  Claim C8, with the flag taken into account. Applying \<^verbatim>\<open>substitute_parameters\<close> with the
  same bindings a second time ends as the first time did and leaves the operation as the
  first time left it, for every operation and for every circuit; this holds for all
  bindings, and so for those that resolve every symbol. An operation \<open>x\<close> none of whose
  numeric attributes is symbolic and whose flag is unset is not changed, and neither is a
  circuit of such operations. For an operation \<open>y\<close> none of whose numeric attributes is
  symbolic, whatever its flag, the call unsets the flag and changes nothing else; the two
  pragmas that parse their coefficient in any case are left out of this last part.
\<close>

theorem substitute_parameters_idempotent:
  "operation_substitute_parameters ps b (fst (operation_substitute_parameters ps b x))
     = operation_substitute_parameters ps b x
   \<and> circuit_substitute_parameters ps b (fst (circuit_substitute_parameters ps b c))
     = circuit_substitute_parameters ps b c
   \<and> (literal_operation x \<longrightarrow> operation_substitute_parameters ps b x = (x, None))
   \<and> (list_all is_float (numeric_fields y) \<and> \<not> parses_coefficient y
        \<longrightarrow> operation_substitute_parameters ps b y = (clear_flag y, None))
   \<and> (list_all literal_operation (operations c)
        \<longrightarrow> circuit_substitute_parameters ps b c = (c, None))"
proof (intro conjI impI)
  obtain x' r where x: "operation_substitute_parameters ps b x = (x', r)"
    by (cases "operation_substitute_parameters ps b x")
  from operation_substitute_idem [OF x] x
  show "operation_substitute_parameters ps b (fst (operation_substitute_parameters ps b x))
          = operation_substitute_parameters ps b x"
    by simp
  obtain xs q where xs: "substitute_operations ps b (operations c) = (xs, q)"
    by (cases "substitute_operations ps b (operations c)")
  from substitute_operations_idem [OF xs] xs
  show "circuit_substitute_parameters ps b (fst (circuit_substitute_parameters ps b c))
          = circuit_substitute_parameters ps b c"
    by (simp add: circuit_substitute_parameters_def)
  show "operation_substitute_parameters ps b x = (x, None)" if "literal_operation x"
    using that by (simp add: literal_operation_def operation_substitute_literal)
  show "operation_substitute_parameters ps b y = (clear_flag y, None)"
    if "list_all is_float (numeric_fields y) \<and> \<not> parses_coefficient y"
    using that by (simp add: operation_substitute_fields_literal)
  show "circuit_substitute_parameters ps b c = (c, None)"
    if "list_all literal_operation (operations c)"
  proof -
    from that have "list_all (\<lambda>x. \<not> operation_parametrized x) (operations c)"
      by (simp add: list_all_iff literal_operation_def)
    from substitute_operations_literal [OF this] show ?thesis
      by (simp add: circuit_substitute_parameters_def)
  qed
qed

text \<open>
  A rotation about X by \<open>1\<close> with the flag unset, the circuit of a definition and this
  rotation, and a rotation about X by \<open>0\<close> with the flag set; the bindings give \<open>x\<close> the
  value \<open>2\<close>.
\<close>

theorem substitute_parameters_idempotent_witness:
  "literal_operation (Gate (gate_init (Single RotateX) [(''theta'', Float 1)] [(''qubit'', 0)]))
   \<and> list_all literal_operation
         [Gate (gate_init (Single RotateX) [(''theta'', Float 1)] [(''qubit'', 0)])]
   \<and> operation_substitute_parameters (parse_constant 2) [(''x'', Float 2)]
         (Gate (gate_init (Single RotateX) [(''theta'', Float 1)] [(''qubit'', 0)]))
       = (Gate (gate_init (Single RotateX) [(''theta'', Float 1)] [(''qubit'', 0)]), None)
   \<and> circuit_substitute_parameters (parse_constant 2) [(''x'', Float 2)]
         \<lparr>definitions = [\<lparr>name = ''ro'', vartype = ''bit'', length_reg = 1,
                            is_input = False, is_output = True\<rparr>],
          operations = [Gate (gate_init (Single RotateX) [(''theta'', Float 1)] [(''qubit'', 0)])]\<rparr>
       = (\<lparr>definitions = [\<lparr>name = ''ro'', vartype = ''bit'', length_reg = 1,
                             is_input = False, is_output = True\<rparr>],
           operations = [Gate (gate_init (Single RotateX) [(''theta'', Float 1)] [(''qubit'', 0)])]\<rparr>,
          None)
   \<and> list_all is_float (numeric_fields
         (Gate ((gate_init (Single RotateX) [(''theta'', Float 0)] [(''qubit'', 0)])
                  \<lparr>parametrized := True\<rparr>)))
   \<and> \<not> parses_coefficient
         (Gate ((gate_init (Single RotateX) [(''theta'', Float 0)] [(''qubit'', 0)])
                  \<lparr>parametrized := True\<rparr>))
   \<and> operation_substitute_parameters (parse_constant 2) [(''x'', Float 2)]
         (Gate ((gate_init (Single RotateX) [(''theta'', Float 0)] [(''qubit'', 0)])
                  \<lparr>parametrized := True\<rparr>))
       = (Gate (gate_init (Single RotateX) [(''theta'', Float 0)] [(''qubit'', 0)]), None)"
proof -
  let ?x = "Gate (gate_init (Single RotateX) [(''theta'', Float 1)] [(''qubit'', 0)])"
  let ?y = "Gate ((gate_init (Single RotateX) [(''theta'', Float 0)] [(''qubit'', 0)])
                    \<lparr>parametrized := True\<rparr>)"
  let ?c = "\<lparr>definitions = [\<lparr>name = ''ro'', vartype = ''bit'', length_reg = 1,
                                 is_input = False, is_output = True\<rparr>],
             operations = [?x]\<rparr>"
  have h: "literal_operation ?x" "list_all literal_operation (operations ?c)"
    "list_all is_float (numeric_fields ?y)" "\<not> parses_coefficient ?y"
    by (simp_all add: literal_operation_def gate_init_def dict_get_def)
  have y: "clear_flag ?y = Gate (gate_init (Single RotateX) [(''theta'', Float 0)] [(''qubit'', 0)])"
    by (simp add: gate_init_def dict_get_def)
  from substitute_parameters_idempotent
         [of "parse_constant 2" "[(''x'', Float 2)]" ?x ?c ?y] h y
  show ?thesis by simp
qed

section \<open>The matrix of a gate\<close>

text \<open>
  Claim C9. The matrix of a gate of a single-qubit or two-qubit class whose flag is set is
  not returned: \<^verbatim>\<open>ValueError\<close> is raised, whatever the matrix method is. The classes of
  \<^verbatim>\<open>PragmaNoise\<close> have no matrix at all. For a gate \<open>h\<close> of a single-qubit or two-qubit
  class whose flag is unset, \<^verbatim>\<open>AttributeError\<close> is raised when the class has no matrix
  method, and otherwise the result is what the matrix method returns on the parameters.
  For each of the fourteen single-qubit classes, a gate with the dictionaries of its class,
  no symbolic parameter and the flag unset has a matrix, the one of its class's method.
\<close>

theorem unitary_matrix_parametrized:
  "(parametrized g \<and> is_gate_operation g \<longrightarrow> unitary_matrix matrix_method g = Inl ValueError)
   \<and> (\<not> is_gate_operation g \<longrightarrow> unitary_matrix matrix_method g = Inl AttributeError)
   \<and> (\<not> parametrized h \<and> is_gate_operation h
        \<longrightarrow> unitary_matrix None h = Inl AttributeError)
   \<and> (\<not> parametrized h \<and> is_gate_operation h
        \<longrightarrow> unitary_matrix (Some method) h = method (ordered_parameter_dict h))
   \<and> (literal_gate h \<and> well_formed_gate h \<and> gate_class_of h = Single c \<longrightarrow>
        (\<exists>M. unitary_matrix (single_qubit_matrix_method c) h = Inr M
            \<and> unitary_matrix_from_parameters c (ordered_parameter_dict h) = Inr M))"
proof (intro conjI impI)
  assume h: "literal_gate h \<and> well_formed_gate h \<and> gate_class_of h = Single c"
  then have "map fst (ordered_parameter_dict h) = map fst (ordered_parameter_dict_default (Single c))"
    and "all_literal (ordered_parameter_dict h)" and "\<not> parametrized h"
    by (simp_all add: well_formed_gate_def literal_gate_def)
  from class_defined [OF this(1,2)] this(3) h
  show "\<exists>M. unitary_matrix (single_qubit_matrix_method c) h = Inr M
            \<and> unitary_matrix_from_parameters c (ordered_parameter_dict h) = Inr M"
    by (auto simp: unitary_matrix_def is_parametrized_def single_qubit_matrix_method_def)
qed (auto simp: unitary_matrix_def is_parametrized_def is_gate_operation_def
       split: gate_class.splits)

text \<open>
  A rotation about X by the symbol \<open>x\<close> has no matrix; the rotation about X by \<open>\<pi>\<close> has
  the matrix with \<open>- \<i>\<close> off the diagonal.
\<close>

theorem unitary_matrix_parametrized_witness:
  "parametrized (gate_init (Single RotateX) [(''theta'', Str [Chars ''x''])] [(''qubit'', 0)])
   \<and> is_gate_operation
         (gate_init (Single RotateX) [(''theta'', Str [Chars ''x''])] [(''qubit'', 0)])
   \<and> unitary_matrix (single_qubit_matrix_method RotateX)
         (gate_init (Single RotateX) [(''theta'', Str [Chars ''x''])] [(''qubit'', 0)])
       = Inl ValueError
   \<and> \<not> is_gate_operation (gate_init (Noise PragmaDamping) [] [(''qubit'', 0)])
   \<and> unitary_matrix None (gate_init (Noise PragmaDamping) [] [(''qubit'', 0)])
       = Inl AttributeError
   \<and> literal_gate (gate_init (Single RotateX) [(''theta'', Float pi)] [(''qubit'', 0)])
   \<and> well_formed_gate (gate_init (Single RotateX) [(''theta'', Float pi)] [(''qubit'', 0)])
   \<and> is_gate_operation (gate_init (Single RotateX) [(''theta'', Float pi)] [(''qubit'', 0)])
   \<and> unitary_matrix None (gate_init (Single RotateX) [(''theta'', Float pi)] [(''qubit'', 0)])
       = Inl AttributeError
   \<and> unitary_matrix (single_qubit_matrix_method RotateX)
         (gate_init (Single RotateX) [(''theta'', Float pi)] [(''qubit'', 0)])
       = Inr [[0, - \<i>], [- \<i>, 0]]"
proof -
  let ?g = "gate_init (Single RotateX) [(''theta'', Str [Chars ''x''])] [(''qubit'', 0)]"
  let ?n = "gate_init (Noise PragmaDamping) [] [(''qubit'', 0)]"
  let ?h = "gate_init (Single RotateX) [(''theta'', Float pi)] [(''qubit'', 0)]"
  have h: "parametrized ?g" "is_gate_operation ?g" "\<not> is_gate_operation ?n"
    "\<not> parametrized ?h" "literal_gate ?h" "well_formed_gate ?h" "is_gate_operation ?h"
    "gate_class_of ?h = Single RotateX"
    by (simp_all add: gate_init_def dict_get_def literal_gate_def well_formed_gate_def
          all_literal_def is_gate_operation_def)
  have m: "unitary_matrix_from_parameters RotateX (ordered_parameter_dict ?h)
             = Inr [[0, - \<i>], [- \<i>, 0]]"
    by (simp add: gate_init_def dict_get_def float_argument_def and_then_def)
  from unitary_matrix_parametrized
         [of ?g "single_qubit_matrix_method RotateX" ?h "unitary_matrix_from_parameters RotateX"
             RotateX]
       unitary_matrix_parametrized
         [of ?n None ?h "unitary_matrix_from_parameters RotateX" RotateX] h m
  show ?thesis by (simp add: single_qubit_matrix_method_def)
qed

text \<open>
  Claim C9 fails on the gate that \<^verbatim>\<open>SingleQubitGate.__imul__\<close> leaves after
  \<^verbatim>\<open>g = SingleQubitGate(qubit=0)\<close> and \<^verbatim>\<open>g *= RotateX(qubit=0, theta='x')\<close>: its
  parameters are symbolic and its flag is unset, so \<^verbatim>\<open>g.unitary_matrix\<close> does not raise
  \<^verbatim>\<open>ValueError\<close>; the matrix method is called with the text of the expressions and
  raises \<^verbatim>\<open>TypeError\<close>.
\<close>

theorem unitary_matrix_counterexample:
  "\<not> isl (imul (gate_init (Single SingleQubitGate) [] [(''qubit'', 0)])
               (gate_init (Single RotateX) [(''theta'', Str [Chars ''x''])] [(''qubit'', 0)]))
   \<and> gate_class_of (projr
         (imul (gate_init (Single SingleQubitGate) [] [(''qubit'', 0)])
               (gate_init (Single RotateX) [(''theta'', Str [Chars ''x''])] [(''qubit'', 0)])))
       = Single SingleQubitGate
   \<and> \<not> is_parametrized (projr
         (imul (gate_init (Single SingleQubitGate) [] [(''qubit'', 0)])
               (gate_init (Single RotateX) [(''theta'', Str [Chars ''x''])] [(''qubit'', 0)])))
   \<and> unitary_matrix (single_qubit_matrix_method SingleQubitGate)
         (projr (imul (gate_init (Single SingleQubitGate) [] [(''qubit'', 0)])
               (gate_init (Single RotateX) [(''theta'', Str [Chars ''x''])] [(''qubit'', 0)])))
       = Inl TypeError"
  by (simp add: imul_def gate_init_def dict_get_def single_qubit_gate_def and_then_def
        half_angle_def dict_getitem_def new_single_qubit_gate_def product_scalars_def Let_def
        from_pair_def cc_mul_def cc_sub_def cc_add_def cc_conj_def cf_mul_def cf_sub_def
        cf_add_def cf_neg_def cf_div_def cf_cos_def cf_sin_def cf_unary_def
        unitary_matrix_def is_parametrized_def single_qubit_matrix_method_def
        float_argument_def float_argument_default_def)

section \<open>Exponentiation of gates\<close>

lemma nth_past0: "(h @ x0 # xs) ! length h = x0"
  by simp

lemma nth_past1: "(h @ x0 # x1 # xs) ! Suc (length h) = x1"
  by (simp add: nth_append)

lemma nth_past2: "(h @ x0 # x1 # x2 # xs) ! Suc (Suc (length h)) = x2"
  by (simp add: nth_append)

lemma nth_past4: "(h @ x0 # x1 # x2 # x3 # x4 # xs) ! Suc (Suc (Suc (Suc (length h)))) = x4"
  by (simp add: nth_append)

lemma update_past2:
  "(h @ x0 # x1 # x2 # xs)[Suc (Suc (length h)) := y] = h @ x0 # x1 # y # xs"
  by (simp add: list_update_append)

lemma update_past4:
  "(h @ x0 # x1 # x2 # x3 # x4 # xs)[Suc (Suc (Suc (Suc (length h)))) := y]
     = h @ x0 # x1 # x2 # x3 # y # xs"
  by (simp add: list_update_append)

lemmas past_simps = nth_past0 nth_past1 nth_past2 nth_past4 update_past2 update_past4

lemma gate_copy_explicit:
  assumes "self < length h" "h ! self = Object ob"
    and "ordered_qubits_dict_ref ob < length h" "ordered_parameter_dict_ref ob < length h"
    and "parametrized_attr ob = Some flag"
    and "involved_qubits_ref ob = Some involved" "involved < length h"
  shows "gate_copy h self =
           (h @ [QubitsDict [], ParameterDict [],
                 Object \<lparr>class_attr = class_attr ob,
                         ordered_qubits_dict_ref = Suc (Suc (Suc (length h))),
                         ordered_parameter_dict_ref = Suc (Suc (Suc (Suc (length h)))),
                         parametrized_attr = Some flag,
                         involved_qubits_ref = Some (Suc (Suc (Suc (Suc (Suc (length h))))))\<rparr>,
                 h ! ordered_qubits_dict_ref ob,
                 h ! ordered_parameter_dict_ref ob,
                 h ! involved],
            Inr (Suc (Suc (length h))))"
  using assms
  by (simp add: gate_copy_def then_heap_def read_object_def init_for_copy_def alloc_def
        copy_cell_def set_attribute_def nth_append past_simps)

lemma dict_setitem_map:
  assumes "distinct (map fst d)" "k \<in> fst ` set d"
  shows "dict_setitem (map (\<lambda>(key, v). (key, F key v)) d) k w
           = map (\<lambda>(key, v). (key, if key = k then w else F key v)) d"
  using assms
proof (induction d)
  case Nil
  then show ?case by simp
next
  case (Cons x d)
  obtain key v where x: "x = (key, v)" by (cases x)
  show ?case
  proof (cases "key = k")
    case True
    with Cons.prems x have "k \<notin> fst ` set d" by simp
    then have "map (\<lambda>(key, v). (key, if key = k then w else F key v)) d
                 = map (\<lambda>(key, v). (key, F key v)) d"
      by (intro map_cong refl) force
    with True x show ?thesis by simp
  next
    case False
    with Cons.prems x have "distinct (map fst d)" "k \<in> fst ` set d" by auto
    from Cons.IH [OF this] False x show ?thesis by simp
  qed
qed

lemma fold_setitem_scaled:
  assumes "distinct (map fst d)" "set ps \<subseteq> fst ` set d"
  shows "fold (\<lambda>k rd. dict_setitem rd k (cf_mul (the (map_of d k)) other)) ps
           (map (\<lambda>(key, v). (key, if key \<in> S then cf_mul (the (map_of d key)) other else v)) d)
         = map (\<lambda>(key, v). (key, if key \<in> S \<union> set ps then cf_mul (the (map_of d key)) other else v)) d"
  using assms(2)
proof (induction ps arbitrary: S)
  case Nil
  show ?case by simp
next
  case (Cons k ps)
  then have k: "k \<in> fst ` set d" and ps: "set ps \<subseteq> fst ` set d" by simp_all
  have "dict_setitem
          (map (\<lambda>(key, v). (key, if key \<in> S then cf_mul (the (map_of d key)) other else v)) d)
          k (cf_mul (the (map_of d k)) other)
        = map (\<lambda>(key, v). (key, if key \<in> insert k S then cf_mul (the (map_of d key)) other else v)) d"
    unfolding dict_setitem_map [OF assms(1) k]
    by (intro map_cong refl) auto
  with Cons.IH [OF ps, of "insert k S"] show ?case by simp
qed

lemma scaled_parameters_fold:
  assumes "distinct (map fst d)" "set ps \<subseteq> fst ` set d"
  shows "fold (\<lambda>k rd. dict_setitem rd k (cf_mul (the (map_of d k)) other)) ps d
           = scaled_parameters ps other d"
proof -
  have "d = map (\<lambda>(key, v). (key, if key \<in> {} then cf_mul (the (map_of d key)) other else v)) d"
    by (induction d) auto
  then have "fold (\<lambda>k rd. dict_setitem rd k (cf_mul (the (map_of d k)) other)) ps d
      = fold (\<lambda>k rd. dict_setitem rd k (cf_mul (the (map_of d k)) other)) ps
          (map (\<lambda>(key, v). (key, if key \<in> {} then cf_mul (the (map_of d key)) other else v)) d)"
    by simp
  also have "\<dots> = map (\<lambda>(key, v). (key, if key \<in> {} \<union> set ps
                                         then cf_mul (the (map_of d key)) other else v)) d"
    by (rule fold_setitem_scaled [OF assms])
  also have "\<dots> = scaled_parameters ps other d"
    unfolding scaled_parameters_def using assms(1)
    by (intro map_cong refl) auto
  finally show ?thesis .
qed

lemma pow_loop_explicit:
  assumes "self < length h" "h ! self = Object ob"
    and "ordered_parameter_dict_ref ob < length h"
    and "h ! ordered_parameter_dict_ref ob = ParameterDict d"
    and "ordered_parameter_dict_ref rob = Suc (Suc (Suc (Suc (length h))))"
    and "set ps \<subseteq> fst ` set d"
  shows "pow_loop (h @ [x0, x1, Object rob, x3, ParameterDict rd, x5]) self
           (Suc (Suc (length h))) other ps
         = (h @ [x0, x1, Object rob, x3,
                 ParameterDict
                   (fold (\<lambda>k rd. dict_setitem rd k (cf_mul (the (map_of d k)) other)) ps rd),
                 x5],
            Inr ())"
  using assms(6)
proof (induction ps arbitrary: rd)
  case Nil
  show ?case by simp
next
  case (Cons k ps)
  then have "k \<in> fst ` set d" and ps: "set ps \<subseteq> fst ` set d" by simp_all
  then obtain v where v: "map_of d k = Some v"
    by (metis domD dom_map_of_conv_image_fst)
  have "pow_step (h @ [x0, x1, Object rob, x3, ParameterDict rd, x5]) self
          (Suc (Suc (length h))) other k
        = (h @ [x0, x1, Object rob, x3,
                ParameterDict (dict_setitem rd k (cf_mul (the (map_of d k)) other)), x5],
           Inr ())"
    using assms(1-5) v
    by (simp add: pow_step_def then_heap_def read_object_def read_parameter_dict_def
          dict_getitem_def nth_append past_simps)
  with Cons.IH [OF ps] show ?case by simp
qed

lemma default_keys_distinct: "distinct (map fst (ordered_parameter_dict_default cls))"
proof (cases cls)
  case (Single c)
  then show ?thesis by (cases c) simp_all
next
  case (Two c)
  then show ?thesis by (cases c) simp_all
next
  case (Noise c)
  then show ?thesis by (cases c) simp_all
qed

lemma rotation_keys:
  assumes "rotation_strength_parameters cls = Some ps"
  shows "set ps \<subseteq> set (map fst (ordered_parameter_dict_default cls))"
proof (cases cls)
  case (Single c)
  with assms show ?thesis by (cases c) auto
next
  case (Two c)
  with assms show ?thesis by (cases c) auto
next
  case (Noise c)
  with assms show ?thesis by (cases c) auto
qed

lemma gate_stateE:
  assumes "gate_state h a = Some g"
  obtains ob involved where "a < length h" "h ! a = Object ob"
    "class_attr ob = gate_class_of g"
    "ordered_qubits_dict_ref ob < length h"
    "h ! ordered_qubits_dict_ref ob = QubitsDict (ordered_qubits_dict g)"
    "ordered_parameter_dict_ref ob < length h"
    "h ! ordered_parameter_dict_ref ob = ParameterDict (ordered_parameter_dict g)"
    "parametrized_attr ob = Some (parametrized g)"
    "involved_qubits_ref ob = Some involved" "involved < length h"
    "h ! involved = QubitSet (involved_qubits g)"
proof -
  from assms obtain ob where ob: "read_object h a = Inr ob"
    by (cases "read_object h a") (simp_all add: gate_state_def)
  then have a: "a < length h" "h ! a = Object ob"
    by (auto simp: read_object_def split: if_splits cell.splits)
  from assms ob obtain qd where qd: "read_qubits_dict h (ordered_qubits_dict_ref ob) = Inr qd"
    by (cases "read_qubits_dict h (ordered_qubits_dict_ref ob)") (simp_all add: gate_state_def)
  from assms ob qd obtain pd where
    pd: "read_parameter_dict h (ordered_parameter_dict_ref ob) = Inr pd"
    by (cases "read_parameter_dict h (ordered_parameter_dict_ref ob)")
       (simp_all add: gate_state_def)
  from assms ob qd pd obtain flag where flag: "parametrized_attr ob = Some flag"
    by (cases "parametrized_attr ob") (simp_all add: gate_state_def)
  from assms ob qd pd flag obtain involved where involved: "involved_qubits_ref ob = Some involved"
    by (cases "involved_qubits_ref ob") (simp_all add: gate_state_def)
  from assms ob qd pd flag involved obtain s where s: "read_qubit_set h involved = Inr s"
    by (cases "read_qubit_set h involved") (simp_all add: gate_state_def)
  from assms ob qd pd flag involved s
  have g: "g = \<lparr>gate_class_of = class_attr ob, ordered_qubits_dict = qd,
               ordered_parameter_dict = pd, parametrized = flag, involved_qubits = s\<rparr>"
    by (simp add: gate_state_def)
  from qd have q: "ordered_qubits_dict_ref ob < length h"
    "h ! ordered_qubits_dict_ref ob = QubitsDict qd"
    by (auto simp: read_qubits_dict_def split: if_splits cell.splits)
  from pd have p: "ordered_parameter_dict_ref ob < length h"
    "h ! ordered_parameter_dict_ref ob = ParameterDict pd"
    by (auto simp: read_parameter_dict_def split: if_splits cell.splits)
  from s have i: "involved < length h" "h ! involved = QubitSet s"
    by (auto simp: read_qubit_set_def split: if_splits cell.splits)
  from a q p i flag involved g that [of ob involved] show thesis by simp
qed

lemma gate_pow_explicit:
  assumes "gate_state h G = Some g" "well_formed_gate g"
    and "rotation_strength_parameters (gate_class_of g) = Some rotation"
  shows "gate_pow h G p =
           (h @ [QubitsDict [], ParameterDict [],
                 Object \<lparr>class_attr = gate_class_of g,
                         ordered_qubits_dict_ref = Suc (Suc (Suc (length h))),
                         ordered_parameter_dict_ref = Suc (Suc (Suc (Suc (length h)))),
                         parametrized_attr =
                           Some (parametrized g \<or> \<not> all_literal
                             (scaled_parameters rotation p (ordered_parameter_dict g))),
                         involved_qubits_ref = Some (Suc (Suc (Suc (Suc (Suc (length h))))))\<rparr>,
                 QubitsDict (ordered_qubits_dict g),
                 ParameterDict (scaled_parameters rotation p (ordered_parameter_dict g)),
                 QubitSet (involved_qubits g)],
            Inr (Suc (Suc (length h))))"
proof -
  from assms(1) obtain ob involved where ob: "G < length h" "h ! G = Object ob"
    "class_attr ob = gate_class_of g"
    "ordered_qubits_dict_ref ob < length h"
    "h ! ordered_qubits_dict_ref ob = QubitsDict (ordered_qubits_dict g)"
    "ordered_parameter_dict_ref ob < length h"
    "h ! ordered_parameter_dict_ref ob = ParameterDict (ordered_parameter_dict g)"
    "parametrized_attr ob = Some (parametrized g)"
    "involved_qubits_ref ob = Some involved" "involved < length h"
    "h ! involved = QubitSet (involved_qubits g)"
    by (rule gate_stateE)
  let ?d = "ordered_parameter_dict g"
  let ?rob = "\<lparr>class_attr = gate_class_of g,
               ordered_qubits_dict_ref = Suc (Suc (Suc (length h))),
               ordered_parameter_dict_ref = Suc (Suc (Suc (Suc (length h)))),
               parametrized_attr = Some (parametrized g),
               involved_qubits_ref = Some (Suc (Suc (Suc (Suc (Suc (length h))))))\<rparr>"
  from assms(2) have keys: "map fst ?d = map fst (ordered_parameter_dict_default (gate_class_of g))"
    by (simp add: well_formed_gate_def)
  with default_keys_distinct [of "gate_class_of g"] have dist: "distinct (map fst ?d)" by simp
  from rotation_keys [OF assms(3)] keys have sub: "set rotation \<subseteq> fst ` set ?d"
    by (metis set_map)
  have copy: "gate_copy h G =
      (h @ [QubitsDict [], ParameterDict [], Object ?rob, QubitsDict (ordered_qubits_dict g),
            ParameterDict ?d, QubitSet (involved_qubits g)],
       Inr (Suc (Suc (length h))))"
    using gate_copy_explicit [OF ob(1,2,4,6,8,9,10)] ob(3,5,7,11) by simp
  have loop: "pow_loop (h @ [QubitsDict [], ParameterDict [], Object ?rob,
                              QubitsDict (ordered_qubits_dict g), ParameterDict ?d,
                              QubitSet (involved_qubits g)]) G (Suc (Suc (length h))) p rotation
      = (h @ [QubitsDict [], ParameterDict [], Object ?rob, QubitsDict (ordered_qubits_dict g),
              ParameterDict (scaled_parameters rotation p ?d), QubitSet (involved_qubits g)],
         Inr ())"
    using pow_loop_explicit [OF ob(1,2,6,7) _ sub, of ?rob] scaled_parameters_fold [OF dist sub]
    by simp
  have ex: "list_ex (\<lambda>(key, p). \<not> is_float p) d' \<longleftrightarrow> \<not> all_literal d'" for d'
    by (induction d') (auto simp: all_literal_def)
  show ?thesis
    using ob(1,2,3) assms(3)
    by (simp add: gate_pow_def copy loop then_heap_def read_object_def read_parameter_dict_def
          set_attribute_def nth_append past_simps ex)
qed

lemma nth_past3: "(h @ x0 # x1 # x2 # x3 # xs) ! Suc (Suc (Suc (length h))) = x3"
  by (simp add: nth_append)

lemma nth_past5:
  "(h @ x0 # x1 # x2 # x3 # x4 # x5 # xs) ! Suc (Suc (Suc (Suc (Suc (length h))))) = x5"
  by (simp add: nth_append)

lemma gate_state_append:
  assumes "gate_state h a = Some g"
  shows "gate_state (h @ xs) a = Some g"
proof -
  from assms obtain ob involved where ob: "a < length h" "h ! a = Object ob"
    "class_attr ob = gate_class_of g"
    "ordered_qubits_dict_ref ob < length h"
    "h ! ordered_qubits_dict_ref ob = QubitsDict (ordered_qubits_dict g)"
    "ordered_parameter_dict_ref ob < length h"
    "h ! ordered_parameter_dict_ref ob = ParameterDict (ordered_parameter_dict g)"
    "parametrized_attr ob = Some (parametrized g)"
    "involved_qubits_ref ob = Some involved" "involved < length h"
    "h ! involved = QubitSet (involved_qubits g)"
    by (rule gate_stateE)
  then show ?thesis
    by (simp add: gate_state_def read_object_def read_qubits_dict_def read_parameter_dict_def
          read_qubit_set_def nth_append)
qed

lemma gate_state_new:
  "gate_state
     (h @ [x0, x1,
           Object \<lparr>class_attr = cls,
                   ordered_qubits_dict_ref = Suc (Suc (Suc (length h))),
                   ordered_parameter_dict_ref = Suc (Suc (Suc (Suc (length h)))),
                   parametrized_attr = Some flag,
                   involved_qubits_ref = Some (Suc (Suc (Suc (Suc (Suc (length h))))))\<rparr>,
           QubitsDict qd, ParameterDict pd, QubitSet s])
     (Suc (Suc (length h)))
   = Some \<lparr>gate_class_of = cls, ordered_qubits_dict = qd, ordered_parameter_dict = pd,
           parametrized = flag, involved_qubits = s\<rparr>"
  by (simp add: gate_state_def read_object_def read_qubits_dict_def read_parameter_dict_def
        read_qubit_set_def nth_past2 nth_past3 nth_past4 nth_past5)

text \<open>
  Claim C4. Let \<open>G\<close> be a gate in the store, with the dictionaries of its class, whose
  class declares rotation-strength parameters. Then \<open>G ** p\<close> returns a gate \<open>R\<close>; the
  parameters of \<open>R\<close> are those of \<open>G\<close> with every rotation-strength parameter multiplied
  by \<open>p\<close> and every other parameter as it is in \<open>G\<close>, and the class, the qubit
  dictionary and the involved qubits of \<open>R\<close> are those of \<open>G\<close>. The flag of \<open>R\<close> is set
  when the flag of \<open>G\<close> is, or when a parameter of \<open>R\<close> is symbolic. For floats the
  product is the product of the numbers.
\<close>

theorem pow_scales_rotation_strength:
  assumes "gate_state h G = Some g" and "well_formed_gate g"
    and "rotation_strength_parameters (gate_class_of g) = Some rotation"
  shows "\<exists>h' R. gate_pow h G p = (h', Inr R)
           \<and> gate_state h' R =
               Some (g\<lparr>ordered_parameter_dict :=
                          scaled_parameters rotation p (ordered_parameter_dict g),
                        parametrized :=
                          parametrized g \<or> \<not> all_literal
                            (scaled_parameters rotation p (ordered_parameter_dict g))\<rparr>)"
  unfolding gate_pow_explicit [OF assms] by (simp add: gate_state_new)

text \<open>The rotation about X by \<open>3\<close>, to the power \<open>2\<close>, is the rotation about X by \<open>6\<close>.\<close>

theorem pow_scales_rotation_strength_witness:
  "gate_state (fst (gate_new [] (Single RotateX) [(''theta'', Float 3)] [(''qubit'', 0)]))
              (snd (gate_new [] (Single RotateX) [(''theta'', Float 3)] [(''qubit'', 0)]))
     = Some (gate_init (Single RotateX) [(''theta'', Float 3)] [(''qubit'', 0)])
   \<and> well_formed_gate (gate_init (Single RotateX) [(''theta'', Float 3)] [(''qubit'', 0)])
   \<and> rotation_strength_parameters (Single RotateX) = Some [''theta'']
   \<and> (\<exists>h' R.
         gate_pow (fst (gate_new [] (Single RotateX) [(''theta'', Float 3)] [(''qubit'', 0)]))
                  (snd (gate_new [] (Single RotateX) [(''theta'', Float 3)] [(''qubit'', 0)]))
                  (Float 2)
           = (h', Inr R)
       \<and> gate_state h' R
           = Some (gate_init (Single RotateX) [(''theta'', Float 6)] [(''qubit'', 0)]))"
proof -
  let ?h = "fst (gate_new [] (Single RotateX) [(''theta'', Float 3)] [(''qubit'', 0)])"
  let ?G = "snd (gate_new [] (Single RotateX) [(''theta'', Float 3)] [(''qubit'', 0)])"
  let ?g = "gate_init (Single RotateX) [(''theta'', Float 3)] [(''qubit'', 0)]"
  have h1: "gate_state ?h ?G = Some ?g"
    by (simp add: gate_new_def alloc_def gate_state_def read_object_def read_qubits_dict_def
          read_parameter_dict_def read_qubit_set_def Let_def gate_init_def dict_get_def)
  have h2: "well_formed_gate ?g"
    by (simp add: well_formed_gate_def gate_init_def dict_get_def)
  have h3: "rotation_strength_parameters (gate_class_of ?g) = Some [''theta'']"
    by (simp add: gate_init_def)
  have g': "?g\<lparr>ordered_parameter_dict :=
                scaled_parameters [''theta''] (Float 2) (ordered_parameter_dict ?g),
              parametrized :=
                parametrized ?g \<or> \<not> all_literal
                  (scaled_parameters [''theta''] (Float 2) (ordered_parameter_dict ?g))\<rparr>
            = gate_init (Single RotateX) [(''theta'', Float 6)] [(''qubit'', 0)]"
    by (simp add: gate_init_def dict_get_def scaled_parameters_def cf_mul_def all_literal_def)
  from pow_scales_rotation_strength [OF h1 h2 h3, of "Float 2"] h1 h2 h3
  show ?thesis unfolding g' by simp
qed

text \<open>
  Claim C10. Under the same conditions \<open>G ** p\<close> returns a reference \<open>R\<close> to an object
  that did not exist before, and \<open>R\<close> is a gate: the one of the class of \<open>G\<close> with the
  qubits of \<open>G\<close> and the scaled parameters. Every object that existed before is what it
  was, and so the state of \<open>G\<close> (parameter dictionary, qubit dictionary, involved qubits
  and flag) is the same after the exponentiation as before.
\<close>

theorem pow_leaves_gate_unchanged:
  assumes "gate_state h G = Some g" and "well_formed_gate g"
    and "rotation_strength_parameters (gate_class_of g) = Some rotation"
  shows "\<exists>h' R. gate_pow h G p = (h', Inr R)
           \<and> length h \<le> R \<and> R < length h' \<and> R \<noteq> G
           \<and> gate_state h' R =
               Some (g\<lparr>ordered_parameter_dict :=
                          scaled_parameters rotation p (ordered_parameter_dict g),
                        parametrized :=
                          parametrized g \<or> \<not> all_literal
                            (scaled_parameters rotation p (ordered_parameter_dict g))\<rparr>)
           \<and> take (length h) h' = h
           \<and> gate_state h' G = Some g"
proof -
  from assms(1) have "G < length h"
    by (rule gate_stateE)
  with gate_state_append [OF assms(1)] show ?thesis
    unfolding gate_pow_explicit [OF assms] by (simp add: gate_state_new)
qed

text \<open>
  An XY gate with the symbolic angle \<open>t\<close>, to the power \<open>2\<close>: the result is a new gate
  with a symbolic angle, and the gate itself is as it was.
\<close>

theorem pow_leaves_gate_unchanged_witness:
  "gate_state (fst (gate_new [] (Two XY) [(''theta'', Str [Chars ''t''])] [(''control'', 2)]))
              (snd (gate_new [] (Two XY) [(''theta'', Str [Chars ''t''])] [(''control'', 2)]))
     = Some (gate_init (Two XY) [(''theta'', Str [Chars ''t''])] [(''control'', 2)])
   \<and> well_formed_gate (gate_init (Two XY) [(''theta'', Str [Chars ''t''])] [(''control'', 2)])
   \<and> rotation_strength_parameters (Two XY) = Some [''theta'']
   \<and> (\<exists>h' R.
         gate_pow (fst (gate_new [] (Two XY) [(''theta'', Str [Chars ''t''])] [(''control'', 2)]))
                  (snd (gate_new [] (Two XY) [(''theta'', Str [Chars ''t''])] [(''control'', 2)]))
                  (Float 2)
           = (h', Inr R)
       \<and> snd (gate_new [] (Two XY) [(''theta'', Str [Chars ''t''])] [(''control'', 2)]) < R
       \<and> gate_state h' R
           = Some (gate_init (Two XY)
                     [(''theta'', cf_mul (Str [Chars ''t'']) (Float 2))] [(''control'', 2)])
       \<and> gate_state h' (snd (gate_new [] (Two XY) [(''theta'', Str [Chars ''t''])]
                                 [(''control'', 2)]))
           = Some (gate_init (Two XY) [(''theta'', Str [Chars ''t''])] [(''control'', 2)]))"
proof -
  let ?h = "fst (gate_new [] (Two XY) [(''theta'', Str [Chars ''t''])] [(''control'', 2)])"
  let ?G = "snd (gate_new [] (Two XY) [(''theta'', Str [Chars ''t''])] [(''control'', 2)])"
  let ?g = "gate_init (Two XY) [(''theta'', Str [Chars ''t''])] [(''control'', 2)]"
  have h1: "gate_state ?h ?G = Some ?g"
    by (simp add: gate_new_def alloc_def gate_state_def read_object_def read_qubits_dict_def
          read_parameter_dict_def read_qubit_set_def Let_def gate_init_def dict_get_def)
  have h2: "well_formed_gate ?g"
    by (simp add: well_formed_gate_def gate_init_def dict_get_def)
  have h3: "rotation_strength_parameters (gate_class_of ?g) = Some [''theta'']"
    by (simp add: gate_init_def)
  have G: "?G < length ?h"
    by (simp add: gate_new_def alloc_def Let_def)
  have g': "?g\<lparr>ordered_parameter_dict :=
                scaled_parameters [''theta''] (Float 2) (ordered_parameter_dict ?g),
              parametrized :=
                parametrized ?g \<or> \<not> all_literal
                  (scaled_parameters [''theta''] (Float 2) (ordered_parameter_dict ?g))\<rparr>
            = gate_init (Two XY)
                [(''theta'', cf_mul (Str [Chars ''t'']) (Float 2))] [(''control'', 2)]"
    by (simp add: gate_init_def dict_get_def scaled_parameters_def cf_mul_def all_literal_def)
  from pow_leaves_gate_unchanged [OF h1 h2 h3, of "Float 2"] h1 h2 h3 G
  show ?thesis unfolding g' by auto
qed

text \<open>
  Claim C8 as it is stated fails on a gate whose parameters are floats and whose flag is
  set. \<^verbatim>\<open>RotateX(qubit=0, theta='t') ** 0\<close> is such a gate: the product of the angle and
  \<open>0\<close> is the float \<open>0\<close>, and \<^verbatim>\<open>__pow__\<close> copies the flag of the gate and never unsets
  it. \<^verbatim>\<open>substitute_parameters\<close> changes this gate: it unsets the flag.
\<close>

theorem substitute_parameters_literal_counterexample:
  "gate_state
     (fst (gate_pow
             (fst (gate_new [] (Single RotateX) [(''theta'', Str [Chars ''t''])] [(''qubit'', 0)]))
             (snd (gate_new [] (Single RotateX) [(''theta'', Str [Chars ''t''])] [(''qubit'', 0)]))
             (Float 0)))
     (projr (snd (gate_pow
             (fst (gate_new [] (Single RotateX) [(''theta'', Str [Chars ''t''])] [(''qubit'', 0)]))
             (snd (gate_new [] (Single RotateX) [(''theta'', Str [Chars ''t''])] [(''qubit'', 0)]))
             (Float 0))))
     = Some \<lparr>gate_class_of = Single RotateX, ordered_qubits_dict = [(''qubit'', 0)],
              ordered_parameter_dict = [(''theta'', Float 0)], parametrized = True,
              involved_qubits = {0}\<rparr>
   \<and> list_all is_float (numeric_fields (Gate
         \<lparr>gate_class_of = Single RotateX, ordered_qubits_dict = [(''qubit'', 0)],
          ordered_parameter_dict = [(''theta'', Float 0)], parametrized = True,
          involved_qubits = {0}\<rparr>))
   \<and> operation_substitute_parameters (parse_constant 1) [(''t'', Float 1)] (Gate
         \<lparr>gate_class_of = Single RotateX, ordered_qubits_dict = [(''qubit'', 0)],
          ordered_parameter_dict = [(''theta'', Float 0)], parametrized = True,
          involved_qubits = {0}\<rparr>)
       = (Gate \<lparr>gate_class_of = Single RotateX, ordered_qubits_dict = [(''qubit'', 0)],
                 ordered_parameter_dict = [(''theta'', Float 0)], parametrized = False,
                 involved_qubits = {0}\<rparr>, None)
   \<and> Gate \<lparr>gate_class_of = Single RotateX, ordered_qubits_dict = [(''qubit'', 0)],
              ordered_parameter_dict = [(''theta'', Float 0)], parametrized = False,
              involved_qubits = {0}\<rparr>
       \<noteq> Gate \<lparr>gate_class_of = Single RotateX, ordered_qubits_dict = [(''qubit'', 0)],
                 ordered_parameter_dict = [(''theta'', Float 0)], parametrized = True,
                 involved_qubits = {0}\<rparr>"
proof -
  let ?h = "fst (gate_new [] (Single RotateX) [(''theta'', Str [Chars ''t''])] [(''qubit'', 0)])"
  let ?G = "snd (gate_new [] (Single RotateX) [(''theta'', Str [Chars ''t''])] [(''qubit'', 0)])"
  let ?g = "gate_init (Single RotateX) [(''theta'', Str [Chars ''t''])] [(''qubit'', 0)]"
  have h1: "gate_state ?h ?G = Some ?g"
    by (simp add: gate_new_def alloc_def gate_state_def read_object_def read_qubits_dict_def
          read_parameter_dict_def read_qubit_set_def Let_def gate_init_def dict_get_def)
  have h2: "well_formed_gate ?g"
    by (simp add: well_formed_gate_def gate_init_def dict_get_def)
  have h3: "rotation_strength_parameters (gate_class_of ?g) = Some [''theta'']"
    by (simp add: gate_init_def)
  have "gate_state (fst (gate_pow ?h ?G (Float 0))) (projr (snd (gate_pow ?h ?G (Float 0))))
        = Some \<lparr>gate_class_of = Single RotateX, ordered_qubits_dict = [(''qubit'', 0)],
                 ordered_parameter_dict = [(''theta'', Float 0)], parametrized = True,
                 involved_qubits = {0}\<rparr>"
    unfolding gate_pow_explicit [OF h1 h2 h3]
    by (simp add: gate_state_new gate_init_def dict_get_def scaled_parameters_def cf_mul_def)
  then show ?thesis
    by (simp add: substitute_parameters_def is_parametrized_def)
qed

section \<open>Basis-rotation measurement\<close>

lemma np_index_in_range: "0 \<le> i \<Longrightarrow> i < int n \<Longrightarrow> np_index n i = Inr (nat i)"
  by (simp add: np_index_def)

lemma take_indices_in_range:
  "list_all (\<lambda>q. 0 \<le> q \<and> q < int (length xs)) L
     \<Longrightarrow> take_indices xs L = Inr (map (\<lambda>q. xs ! nat q) L)"
  by (induction L) (simp_all add: np_index_in_range)

lemma collect_map:
  "(\<And>x. x \<in> set xs \<Longrightarrow> f x = Inr (g x)) \<Longrightarrow> collect (map f xs) = Inr (map g xs)"
  by (induction xs) simp_all

lemma bit_value_eq:
  "bit_value flipped b = (if (if flipped then \<not> b else b) then 1 else 0)"
  by (simp add: bit_value_def)

lemma shot_sums_in_range:
  assumes "shots \<noteq> []" "list_all (\<lambda>shot. length shot = width) shots"
    and "list_all (\<lambda>q. 0 \<le> q \<and> q < int width) L"
  shows "shot_sums flipped shots L
           = Inr (map (\<lambda>shot. \<Sum>q \<leftarrow> L. if (if flipped then \<not> shot ! nat q else shot ! nat q)
                                           then 1 else 0) shots)"
proof -
  have "(case take_indices shot L of
           Inl e \<Rightarrow> Inl e
         | Inr bits \<Rightarrow> Inr (sum_list (map (bit_value flipped) bits)))
        = Inr (\<Sum>q \<leftarrow> L. if (if flipped then \<not> shot ! nat q else shot ! nat q) then 1 else 0)"
    if "shot \<in> set shots" for shot
  proof -
    from that assms(2) have "length shot = width" by (simp add: list_all_iff)
    with assms(3) have "list_all (\<lambda>q. 0 \<le> q \<and> q < int (length shot)) L" by simp
    from take_indices_in_range [OF this] show ?thesis
      by (simp add: comp_def bit_value_eq)
  qed
  from collect_map [of shots _ _, OF this] assms(1) show ?thesis
    by (simp add: shot_sums_def)
qed

lemma column_of_mask_entry:
  assumes "shots \<noteq> []" "list_all (\<lambda>shot. length shot = width) shots"
    and "list_all (\<lambda>q. 0 \<le> q \<and> q < int width) L" "L \<noteq> []"
  shows "\<exists>exponents. shot_sums flipped shots L = Inr exponents
           \<and> map (\<lambda>s. (- 1) ^ s) exponents = map (shot_product flipped L) shots"
  using shot_sums_in_range [OF assms(1-3), of flipped] assms(4)
  by (simp add: shot_product_def comp_def)

lemma pauli_columns_fold:
  assumes "shots \<noteq> []" "list_all (\<lambda>shot. length shot = width) shots"
  shows "length columns = n
     \<Longrightarrow> list_all (\<lambda>(index, L). 0 \<le> index \<and> index < int n
                       \<and> list_all (\<lambda>q. 0 \<le> q \<and> q < int width) L) entries
     \<Longrightarrow> pauli_columns flipped shots columns entries
           = Inr (fold (\<lambda>(index, L) cols. cols[nat index := map (shot_product flipped L) shots])
                       entries columns)"
proof (induction entries arbitrary: columns)
  case Nil
  show ?case by simp
next
  case (Cons x entries)
  obtain index L where x: "x = (index, L)" by (cases x)
  from Cons.prems(2) x have idx: "0 \<le> index" "index < int n"
    and L: "list_all (\<lambda>q. 0 \<le> q \<and> q < int width) L"
    and rest: "list_all (\<lambda>(index, L). 0 \<le> index \<and> index < int n
                       \<and> list_all (\<lambda>q. 0 \<le> q \<and> q < int width) L) entries"
    by simp_all
  from idx Cons.prems(1) have np: "np_index (length columns) index = Inr (nat index)"
    by (simp add: np_index_in_range)
  show ?case
  proof (cases "L = []")
    case True
    have "shot_product flipped L = (\<lambda>shot. 1)"
      by (rule ext) (simp add: True shot_product_def)
    then have "replicate (length shots) (1::real) = map (shot_product flipped L) shots"
      by (simp add: map_replicate_const)
    with Cons.IH [of "columns[nat index := map (shot_product flipped L) shots]", OF _ rest]
      Cons.prems(1) np True x
    show ?thesis by simp
  next
    case False
    from column_of_mask_entry [OF assms L False, of flipped] obtain exponents where
      e: "shot_sums flipped shots L = Inr exponents"
         "map (\<lambda>s. (- 1) ^ s) exponents = map (shot_product flipped L) shots"
      by blast
    with Cons.IH [of "columns[nat index := map (shot_product flipped L) shots]", OF _ rest]
      Cons.prems(1) np False x
    show ?thesis by simp
  qed
qed

lemma fold_update_length:
  "length (fold (\<lambda>(index, L) cols. cols[nat index := F L]) entries columns) = length columns"
  by (induction entries arbitrary: columns) (auto simp: case_prod_beta)

lemma fold_update_untouched:
  "i \<notin> nat ` fst ` set entries
     \<Longrightarrow> fold (\<lambda>(index, L) cols. cols[nat index := F L]) entries columns ! i = columns ! i"
  by (induction entries arbitrary: columns) (auto simp: case_prod_beta)

lemma fold_update_entry:
  assumes "distinct (map fst entries)" "list_all (\<lambda>(index, L). 0 \<le> index \<and> index < int n) entries"
    and "length columns = n" "(index, L) \<in> set entries"
  shows "fold (\<lambda>(index, L) cols. cols[nat index := F L]) entries columns ! nat index = F L"
  using assms
proof (induction entries arbitrary: columns)
  case Nil
  then show ?case by simp
next
  case (Cons x entries)
  obtain index' L' where x: "x = (index', L')" by (cases x)
  show ?case
  proof (cases "(index, L) = x")
    case True
    with x have eq: "index' = index" "L' = L" by simp_all
    from Cons.prems(1) x eq have notin: "index \<notin> fst ` set entries" by simp
    from Cons.prems(2) x eq have idx: "0 \<le> index" "index < int n" by simp_all
    from Cons.prems(2) have "\<forall>e \<in> set entries. 0 \<le> fst e"
      by (auto simp: list_all_iff)
    have "nat index \<notin> nat ` fst ` set entries"
    proof
      assume "nat index \<in> nat ` fst ` set entries"
      then obtain e where e: "e \<in> set entries" "nat index = nat (fst e)" by auto
      from e(1) \<open>\<forall>e \<in> set entries. 0 \<le> fst e\<close> have "0 \<le> fst e" by blast
      with idx(1) e(2) have "index = fst e" by (simp add: eq_nat_nat_iff)
      with e(1) notin show False by simp
    qed
    from fold_update_untouched [OF this, of F "columns[nat index := F L]"]
    have "fold (\<lambda>(index, L) cols. cols[nat index := F L]) entries (columns[nat index := F L])
            ! nat index = columns[nat index := F L] ! nat index" .
    moreover from idx Cons.prems(3) have "nat index < length columns" by linarith
    ultimately show ?thesis using x eq by simp
  next
    case False
    with Cons.prems(4) have "(index, L) \<in> set entries" by simp
    with Cons.IH [of "columns[nat index' := F L']"] Cons.prems(1,2,3) x show ?thesis
      by simp
  qed
qed

lemma register_pauli_products_fold:
  assumes "shots \<noteq> []" "list_all (\<lambda>shot. length shot = width) shots"
    and "mask_in_range n width entries"
  shows "register_pauli_products n register_name entries shots
           = Inr (map (\<lambda>column. sum_list column / real (length shots))
                   (fold (\<lambda>(index, L) cols.
                            cols[nat index :=
                                   map (shot_product (ends_with ''flipped'' register_name) L) shots])
                         entries (replicate n (replicate (length shots) 0))))"
proof -
  from assms(1,2) have "length (hd shots) = width"
    by (cases shots) simp_all
  with assms(2) have rect: "list_all (\<lambda>shot. length shot = length (hd shots)) shots"
    by simp
  from assms(3) have range: "list_all (\<lambda>(index, L). 0 \<le> index \<and> index < int n
                       \<and> list_all (\<lambda>q. 0 \<le> q \<and> q < int width) L) entries"
    by (simp add: mask_in_range_def)
  have "length (replicate n (replicate (length shots) (0::real))) = n" by simp
  from pauli_columns_fold [OF assms(1,2) this range] rect assms(1) show ?thesis
    by (simp add: register_pauli_products_def)
qed

lemma example_call:
  assumes "0 < k"
  shows "call \<lparr>measurement_input_of =
                 \<lparr>pauli_product_qubit_masks = [(''ro'', [(0, [])])],
                  pp_to_exp_val_matrix = [[1]],
                  number_qubits = 1,
                  number_pauli_products = 1,
                  measured_exp_vals = [''example''],
                  use_flipped_measurement = False\<rparr>,
               circuit_count = 1,
               backend_of =
                 Some (constant_backend 1 [(''ro'', replicate k [False])]),
               device_of = None\<rparr>
         = Inr (Some [(''exp_val_example'', 1)])"
proof -
  have reg: "register_pauli_products (Suc 0) ''ro'' [(0, [])]
               (replicate k [False]) = Inr [1]"
    using assms
    by (simp add: register_pauli_products_def list_all_iff np_index_def sum_list_replicate)
  have s1: "pauli_product_loop (Suc 0) [(''ro'', replicate k [False])]
                [(''ro'', [(0, [])])] = Inr [(''ro'', [1])]"
    by (simp add: dict_getitem_def reg)
  have s2: "sum_pauli_products (Suc 0) [(''ro'', [1])] = [1]"
    by (simp add: sum_pauli_products_def ends_with_def)
  have s3: "matvec [[1]] [1] = Inr [1]"
    by (simp add: matvec_def)
  have s4: "series [''example''] [1] [(''ro'', replicate k [False])]
                  = Inr [(''exp_val_example'', 1)]"
    by (simp add: series_def)
  show ?thesis
    by (simp add: call_def constant_backend_def dict_update_def measurement_fidelities_def
          and_then_def dict_getitem_def reg s2 s3 s4 Let_def)
qed

text \<open>
  Claim C5. Let a register have at least one shot, all shots of one length, and let the
  mask give different indices below the number of Pauli products and qubits that are
  positions of a shot. Then the Pauli products of the register are computed, one for each
  index; at a declared index with the list \<open>L\<close> it is the average over the shots of the
  product of the shot, which is \<open>1\<close> for the empty \<open>L\<close> and otherwise \<open>-1\<close> to the number of
  bits of \<open>L\<close> that are set in the shot, counted on the complemented shot when the name of
  the register ends in \<^verbatim>\<open>flipped\<close>; at an index that is not declared it is \<open>0\<close>. And the
  measurement with the masks \<^verbatim>\<open>{'ro': {0: []}}\<close>, the matrix \<^verbatim>\<open>[[1]]\<close>, one Pauli
  product, one qubit, the name \<^verbatim>\<open>example\<close> and \<open>k > 0\<close> shots of a zero bit in \<^verbatim>\<open>ro\<close>
  returns the series with \<^verbatim>\<open>exp_val_example\<close> equal to \<open>1\<close>.
\<close>

theorem pauli_product_average:
  "(shots \<noteq> [] \<and> list_all (\<lambda>shot. length shot = width) shots \<and> mask_in_range n width entries
      \<longrightarrow> (\<exists>pp. register_pauli_products n register_name entries shots = Inr pp
             \<and> length pp = n
             \<and> (\<forall>(index, L) \<in> set entries.
                   pp ! nat index = shot_average (ends_with ''flipped'' register_name) L shots)
             \<and> (\<forall>i < n. i \<notin> nat ` fst ` set entries \<longrightarrow> pp ! i = 0)))
   \<and> (0 < k \<longrightarrow>
        call \<lparr>measurement_input_of =
                \<lparr>pauli_product_qubit_masks = [(''ro'', [(0, [])])],
                 pp_to_exp_val_matrix = [[1]],
                 number_qubits = 1,
                 number_pauli_products = 1,
                 measured_exp_vals = [''example''],
                 use_flipped_measurement = False\<rparr>,
              circuit_count = 1,
              backend_of =
                Some (constant_backend 1 [(''ro'', replicate k [False])]),
              device_of = None\<rparr>
          = Inr (Some [(''exp_val_example'', 1)]))"
proof (intro conjI impI)
  assume h: "shots \<noteq> [] \<and> list_all (\<lambda>shot. length shot = width) shots
               \<and> mask_in_range n width entries"
  let ?flipped = "ends_with ''flipped'' register_name"
  let ?cols = "fold (\<lambda>(index, L) cols. cols[nat index := map (shot_product ?flipped L) shots])
                    entries (replicate n (replicate (length shots) 0))"
  let ?pp = "map (\<lambda>column. sum_list column / real (length shots)) ?cols"
  from h have h1: "shots \<noteq> []" and h2: "list_all (\<lambda>shot. length shot = width) shots"
    and h3: "mask_in_range n width entries"
    by simp_all
  have r: "register_pauli_products n register_name entries shots
             = Inr ?pp"
    by (rule register_pauli_products_fold [OF h1 h2 h3])
  have len: "length ?cols = n"
    by (simp add: fold_update_length)
  from h have dist: "distinct (map fst entries)"
    and range: "list_all (\<lambda>(index, L). 0 \<le> index \<and> index < int n) entries"
    by (simp_all add: mask_in_range_def list_all_iff case_prod_beta)
  have entry: "?pp ! nat index = shot_average ?flipped L shots"
    if "(index, L) \<in> set entries" for index L
  proof -
    from that range have "0 \<le> index" "index < int n" by (auto simp: list_all_iff)
    then have "nat index < length ?cols" using len by linarith
    moreover have "?cols ! nat index = map (shot_product ?flipped L) shots"
      by (rule fold_update_entry [OF dist range _ that]) simp
    ultimately show ?thesis by (simp add: shot_average_def)
  qed
  have other: "?pp ! i = 0" if "i < n" "i \<notin> nat ` fst ` set entries" for i
  proof -
    from fold_update_untouched [OF that(2)]
    have "?cols ! i = replicate n (replicate (length shots) 0) ! i" .
    with that(1) len show ?thesis by (simp add: sum_list_replicate)
  qed
  from r len entry other
  show "\<exists>pp. register_pauli_products n register_name entries shots = Inr pp
             \<and> length pp = n
             \<and> (\<forall>(index, L) \<in> set entries.
                   pp ! nat index = shot_average (ends_with ''flipped'' register_name) L shots)
             \<and> (\<forall>i < n. i \<notin> nat ` fst ` set entries \<longrightarrow> pp ! i = 0)"
    by (intro exI [of _ ?pp]) auto
next
  assume "0 < k"
  then show "call \<lparr>measurement_input_of =
                \<lparr>pauli_product_qubit_masks = [(''ro'', [(0, [])])],
                 pp_to_exp_val_matrix = [[1]],
                 number_qubits = 1,
                 number_pauli_products = 1,
                 measured_exp_vals = [''example''],
                 use_flipped_measurement = False\<rparr>,
              circuit_count = 1,
              backend_of =
                Some (constant_backend 1 [(''ro'', replicate k [False])]),
              device_of = None\<rparr>
          = Inr (Some [(''exp_val_example'', 1)])"
    by (rule example_call)
qed

text \<open>
  Two shots of two bits in a flipped register, with the Pauli products of the empty list
  and of both qubits; and the example with three shots.
\<close>

theorem pauli_product_average_witness:
  "[[True, False], [True, True]] \<noteq> []
   \<and> list_all (\<lambda>shot. length shot = 2) [[True, False], [True, True]]
   \<and> mask_in_range 2 2 [(0, []), (1, [0, 1])]
   \<and> (\<exists>pp. register_pauli_products 2 ''test1_flipped'' [(0, []), (1, [0, 1])]
               [[True, False], [True, True]] = Inr pp
          \<and> length pp = 2 \<and> pp ! 0 = 1 \<and> pp ! 1 = 0)
   \<and> (0::nat) < 3
   \<and> call \<lparr>measurement_input_of =
              \<lparr>pauli_product_qubit_masks = [(''ro'', [(0, [])])],
               pp_to_exp_val_matrix = [[1]],
               number_qubits = 1,
               number_pauli_products = 1,
               measured_exp_vals = [''example''],
               use_flipped_measurement = False\<rparr>,
            circuit_count = 1,
            backend_of =
              Some (constant_backend 1 [(''ro'', replicate 3 [False])]),
            device_of = None\<rparr>
       = Inr (Some [(''exp_val_example'', 1)])"
proof -
  let ?shots = "[[True, False], [True, True]]"
  let ?entries = "[(0, []), (1, [0, 1])] :: (int \<times> int list) list"
  have h: "?shots \<noteq> []" "list_all (\<lambda>shot. length shot = 2) ?shots"
    "mask_in_range 2 2 ?entries" "(0::nat) < 3"
    by (simp_all add: mask_in_range_def)
  have f: "ends_with ''flipped'' ''test1_flipped''"
    by (simp add: ends_with_def)
  have a: "shot_average True [] ?shots = 1" "shot_average True [0, 1] ?shots = 0"
    by (simp_all add: shot_average_def shot_product_def)
  from pauli_product_average [of ?shots 2 2 ?entries "''test1_flipped''" 3] h
  show ?thesis by (simp add: f a)
qed












end
